theory Spec2Isabelle
  imports Main
begin

section \<open>Tokens\<close>

text \<open>
  Modelled from the spec: the lexer's \<open>TOKEN_TYPES\<close> enumeration is imported by
  \<open>parser.ts\<close> from \<open>./lexer\<close>. The constructors below are the
  token types the parser names (\<open>TOKEN_TYPES.X\<close> is \<open>T_X\<close>); \<open>T_Other\<close> stands for
  any token type the parser never names, which can only reach a \<open>default\<close> branch
  or fail a comparison.
\<close>

datatype token_type =
    T_Text
  | T_NumericLiteral
  | T_BooleanLiteral
  | T_StringLiteral
  | T_Identifier
  | T_Equals
  | T_OpenParen
  | T_CloseParen
  | T_OpenStatement
  | T_CloseStatement
  | T_OpenExpression
  | T_CloseExpression
  | T_OpenSquareBracket
  | T_CloseSquareBracket
  | T_OpenCurlyBracket
  | T_CloseCurlyBracket
  | T_Comma
  | T_Dot
  | T_Colon
  | T_Pipe
  | T_AdditiveBinaryOperator
  | T_MultiplicativeBinaryOperator
  | T_ComparisonBinaryOperator
  | T_Set
  | T_If
  | T_For
  | T_In
  | T_Is
  | T_NotIn
  | T_Else
  | T_EndIf
  | T_ElseIf
  | T_EndFor
  | T_And
  | T_Or
  | T_Not
  | T_Other string

text \<open>A token carries its string payload \<open>value\<close> and its \<open>type\<close>.\<close>

datatype token = Token (tok_value: string) (tok_type: token_type)

section \<open>Abstract syntax\<close>

text \<open>
  Modelled from the spec: the node classes are imported from \<open>./ast\<close>; each
  constructor takes the arguments that \<open>parser.ts\<close> passes to \<open>new\<close>, in that order.
  \<^item> \<open>IfNode\<close> is the class \<open>If\<close> (the name \<open>If\<close> is HOL's conditional).
  \<^item> \<open>NumericLiteral\<close> holds the lexeme \<open>token.value\<close> from which the source computes
    \<open>Number(token.value)\<close>; the floating-point conversion itself is not modelled.
  \<^item> \<open>ObjectLiteral\<close> holds the entries of the JavaScript \<open>Map\<close> in insertion order.
  \<^item> \<open>SliceExpression\<close> holds three optional components; \<open>None\<close> is \<open>undefined\<close>.
\<close>

datatype statement =
    Program "statement list"
  | IfNode statement "statement list" "statement list"
  | For statement statement "statement list"
  | SetStatement statement statement
  | MemberExpression statement statement bool
  | CallExpression statement "statement list"
  | Identifier string
  | NumericLiteral string
  | StringLiteral string
  | BooleanLiteral bool
  | ArrayLiteral "statement list"
  | ObjectLiteral "(statement \<times> statement) list"
  | BinaryExpression token statement statement
  | FilterExpression statement statement
  | TestExpression statement bool statement
  | UnaryExpression token statement
  | SliceExpression "statement option" "statement option" "statement option"
  | KeywordArgumentExpression statement statement

text \<open>\<open>x instanceof Identifier\<close> and \<open>x.type === "Identifier"\<close>.\<close>

fun instanceof_Identifier :: "statement \<Rightarrow> bool" where
  "instanceof_Identifier (Identifier v) = True"
| "instanceof_Identifier s = False"

section \<open>Outcomes of a parse function\<close>

text \<open>
  Every \<open>throw\<close> of the source is a value of \<open>error\<close>:
  \<^item> \<open>ParserError msg actual expected\<close> is the \<open>Error\<close> thrown by \<open>expect\<close>, with
    message \<open>Parser Error: msg. actual !== expected.\<close>;
  \<^item> \<open>UnexpectedTokenType t\<close> is \<open>SyntaxError("Unexpected token type: t")\<close> of \<open>parseAny\<close>;
  \<^item> \<open>UnknownStatementType t\<close> is \<open>SyntaxError("Unknown statement type: t")\<close>;
  \<^item> \<open>UnexpectedToken t\<close> is \<open>SyntaxError("Unexpected token: t")\<close> of
    \<open>parsePrimaryExpression\<close>;
  \<^item> \<open>SyntaxError msg\<close> is a \<open>SyntaxError\<close> with a fixed message;
  \<^item> \<open>TypeError\<close> is the runtime's error on reading \<open>.type\<close> of \<open>undefined\<close>, which is
    what \<open>tokens[current]\<close> is once \<open>current\<close> is past the last token.
\<close>

datatype error =
    ParserError string token_type token_type
  | UnexpectedTokenType token_type
  | UnknownStatementType token_type
  | UnexpectedToken token_type
  | SyntaxError string
  | TypeError

text \<open>
  The parse functions are recursive through the shared cursor, so the model bounds the
  depth of their calls by an amount of fuel; \<open>OutOfFuel\<close> says that the bound was
  reached, which is no outcome of the source. Lemma \<open>parse_total\<close> shows that it is no
  outcome of the model either once the fuel is sixteen for every token and three more,
  and lemma \<open>parse_mono\<close> that more fuel never changes another outcome.
\<close>

datatype 'a result = Return 'a | Throw error | OutOfFuel

definition andThen :: "'a result \<Rightarrow> ('a \<Rightarrow> 'b result) \<Rightarrow> 'b result" where
  "andThen m f = (case m of Return x \<Rightarrow> f x | Throw e \<Rightarrow> Throw e | OutOfFuel \<Rightarrow> OutOfFuel)"

section \<open>Cursor primitives\<close>

text \<open>\<open>tokens[i]\<close>: \<open>None\<close> is \<open>undefined\<close>.\<close>

definition token_at :: "token list \<Rightarrow> nat \<Rightarrow> token option" where
  "token_at tokens i = (if i < length tokens then Some (tokens ! i) else None)"

text \<open>\<open>tokens[i]?.type\<close>.\<close>

definition type_at :: "token list \<Rightarrow> nat \<Rightarrow> token_type option" where
  "type_at tokens i = map_option tok_type (token_at tokens i)"

text \<open>
  \<open>expect(type, error)\<close>. When \<open>prev\<close> is \<open>undefined\<close> the guard \<open>!prev\<close> holds and
  the message is built, which reads \<open>prev.type\<close>: a \<open>TypeError\<close>.
\<close>

definition expect :: "token list \<Rightarrow> nat \<Rightarrow> token_type \<Rightarrow> string \<Rightarrow> (token \<times> nat) result" where
  "expect tokens current type err =
     (case token_at tokens current of
        None \<Rightarrow> Throw TypeError
      | Some prev \<Rightarrow>
          if tok_type prev \<noteq> type then Throw (ParserError err (tok_type prev) type)
          else Return (prev, current + 1))"

text \<open>\<open>not(...types)\<close> and \<open>is(...types)\<close>.\<close>

definition not_at :: "token list \<Rightarrow> nat \<Rightarrow> token_type list \<Rightarrow> bool" where
  "not_at tokens current types =
     (current + length types \<le> length tokens \<and>
      list_ex (\<lambda>i. types ! i \<noteq> tok_type (tokens ! (current + i))) [0..<length types])"

definition is_at :: "token list \<Rightarrow> nat \<Rightarrow> token_type list \<Rightarrow> bool" where
  "is_at tokens current types =
     (current + length types \<le> length tokens \<and>
      list_all (\<lambda>i. types ! i = tok_type (tokens ! (current + i))) [0..<length types])"

section \<open>The parser\<close>

definition parseText :: "token list \<Rightarrow> nat \<Rightarrow> (statement \<times> nat) result" where
  "parseText tokens current =
     andThen (expect tokens current T_Text ''Expected text token'')
       (\<lambda>(t, current). Return (StringLiteral (tok_value t), current))"

text \<open>
  \<open>new SliceExpression(...slices)\<close>: a missing argument is \<open>undefined\<close>.
\<close>

definition spread_arg :: "statement option list \<Rightarrow> nat \<Rightarrow> statement option" where
  "spread_arg slices i = (if i < length slices then slices ! i else None)"

text \<open>
  \<open>values.set(key, value)\<close> on the \<open>Map\<close> of an object literal. A \<open>Map\<close> compares
  object keys by reference, and every key is a node that \<open>parseExpression\<close> has just
  constructed, so no entry of the map has that key: the entry is added at the end.
\<close>

definition Map_set ::
  "(statement \<times> statement) list \<Rightarrow> statement \<Rightarrow> statement \<Rightarrow> (statement \<times> statement) list" where
  "Map_set values key v = values @ [(key, v)]"

text \<open>
  The parse functions of \<open>parser.ts\<close> call one another recursively and share one
  cursor, so none of them recurses on a structure. Each is therefore written here with
  a first argument \<open>P\<close>, the table of the parse functions that its body may
  call; \<open>call_f P\<close> is the function \<open>f\<close> of that table. A \<open>while\<close> loop of
  \<open>f\<close> is a function of its own, \<open>f_loop\<close> (or named after what it collects), that
  takes the loop's variables and calls itself through the table for the next iteration.
\<close>

record parsers =
  call_parseAny ::
    "token list \<Rightarrow> nat \<Rightarrow> (statement \<times> nat) result"
  call_parseJinjaStatement ::
    "token list \<Rightarrow> nat \<Rightarrow> (statement \<times> nat) result"
  call_parseJinjaExpression ::
    "token list \<Rightarrow> nat \<Rightarrow> (statement \<times> nat) result"
  call_parseSetStatement ::
    "token list \<Rightarrow> nat \<Rightarrow> (statement \<times> nat) result"
  call_parseIfStatement ::
    "token list \<Rightarrow> nat \<Rightarrow> (statement \<times> nat) result"
  call_parseIfStatement_body ::
    "token list \<Rightarrow> statement list \<Rightarrow> nat \<Rightarrow> (statement list \<times> nat) result"
  call_parseIfStatement_alternate ::
    "token list \<Rightarrow> statement list \<Rightarrow> nat \<Rightarrow> (statement list \<times> nat) result"
  call_parseForStatement ::
    "token list \<Rightarrow> nat \<Rightarrow> (statement \<times> nat) result"
  call_parseForStatement_body ::
    "token list \<Rightarrow> statement list \<Rightarrow> nat \<Rightarrow> (statement list \<times> nat) result"
  call_parseExpression ::
    "token list \<Rightarrow> nat \<Rightarrow> (statement \<times> nat) result"
  call_parseLogicalOrExpression ::
    "token list \<Rightarrow> nat \<Rightarrow> (statement \<times> nat) result"
  call_parseLogicalOrExpression_loop ::
    "token list \<Rightarrow> statement \<Rightarrow> nat \<Rightarrow> (statement \<times> nat) result"
  call_parseLogicalAndExpression ::
    "token list \<Rightarrow> nat \<Rightarrow> (statement \<times> nat) result"
  call_parseLogicalAndExpression_loop ::
    "token list \<Rightarrow> statement \<Rightarrow> nat \<Rightarrow> (statement \<times> nat) result"
  call_parseLogicalNegationExpression ::
    "token list \<Rightarrow> nat \<Rightarrow> (statement \<times> nat) result"
  call_parseLogicalNegationExpression_loop ::
    "token list \<Rightarrow> statement option \<Rightarrow> nat \<Rightarrow> (statement \<times> nat) result"
  call_parseComparisonExpression ::
    "token list \<Rightarrow> nat \<Rightarrow> (statement \<times> nat) result"
  call_parseComparisonExpression_loop ::
    "token list \<Rightarrow> statement \<Rightarrow> nat \<Rightarrow> (statement \<times> nat) result"
  call_parseAdditiveExpression ::
    "token list \<Rightarrow> nat \<Rightarrow> (statement \<times> nat) result"
  call_parseAdditiveExpression_loop ::
    "token list \<Rightarrow> statement \<Rightarrow> nat \<Rightarrow> (statement \<times> nat) result"
  call_parseCallMemberExpression ::
    "token list \<Rightarrow> nat \<Rightarrow> (statement \<times> nat) result"
  call_parseCallExpression ::
    "token list \<Rightarrow> statement \<Rightarrow> nat \<Rightarrow> (statement \<times> nat) result"
  call_parseArgs ::
    "token list \<Rightarrow> nat \<Rightarrow> (statement list \<times> nat) result"
  call_parseArgumentsList ::
    "token list \<Rightarrow> nat \<Rightarrow> (statement list \<times> nat) result"
  call_parseArgumentsList_loop ::
    "token list \<Rightarrow> statement list \<Rightarrow> nat \<Rightarrow> (statement list \<times> nat) result"
  call_parseMemberExpressionArgumentsList ::
    "token list \<Rightarrow> nat \<Rightarrow> (statement \<times> nat) result"
  call_parseMemberExpressionArgumentsList_loop ::
    "token list \<Rightarrow> statement option list \<Rightarrow> bool \<Rightarrow> nat \<Rightarrow> ((statement option list \<times> bool) \<times> nat) result"
  call_parseMemberExpression ::
    "token list \<Rightarrow> nat \<Rightarrow> (statement \<times> nat) result"
  call_parseMemberExpression_loop ::
    "token list \<Rightarrow> statement \<Rightarrow> nat \<Rightarrow> (statement \<times> nat) result"
  call_parseMultiplicativeExpression ::
    "token list \<Rightarrow> nat \<Rightarrow> (statement \<times> nat) result"
  call_parseMultiplicativeExpression_loop ::
    "token list \<Rightarrow> statement \<Rightarrow> nat \<Rightarrow> (statement \<times> nat) result"
  call_parseTestExpression ::
    "token list \<Rightarrow> nat \<Rightarrow> (statement \<times> nat) result"
  call_parseTestExpression_loop ::
    "token list \<Rightarrow> statement \<Rightarrow> nat \<Rightarrow> (statement \<times> nat) result"
  call_parseFilterExpression ::
    "token list \<Rightarrow> nat \<Rightarrow> (statement \<times> nat) result"
  call_parseFilterExpression_loop ::
    "token list \<Rightarrow> statement \<Rightarrow> nat \<Rightarrow> (statement \<times> nat) result"
  call_parsePrimaryExpression ::
    "token list \<Rightarrow> nat \<Rightarrow> (statement \<times> nat) result"
  call_parsePrimaryExpression_array ::
    "token list \<Rightarrow> statement list \<Rightarrow> nat \<Rightarrow> (statement list \<times> nat) result"
  call_parsePrimaryExpression_object ::
    "token list \<Rightarrow> (statement \<times> statement) list \<Rightarrow> nat \<Rightarrow> ((statement \<times> statement) list \<times> nat) result"

text \<open>
  \<open>parseAny\<close> (lines 47-58) reads \<open>tokens[current].type\<close> without a bounds check.
\<close>

definition parseAny ::
  "parsers \<Rightarrow> token list \<Rightarrow> nat \<Rightarrow> (statement \<times> nat) result" where
  "parseAny P tokens current =
     (case token_at tokens current of
        None \<Rightarrow> Throw TypeError
      | Some t \<Rightarrow>
          if tok_type t = T_Text then parseText tokens current
          else if tok_type t = T_OpenStatement then call_parseJinjaStatement P tokens current
          else if tok_type t = T_OpenExpression then call_parseJinjaExpression P tokens current
          else Throw (UnexpectedTokenType (tok_type t)))"

text \<open>
  \<open>parseJinjaStatement\<close> (lines 72-104): after \<open>{%\<close> the \<open>switch\<close> reads
  \<open>tokens[current].type\<close>; each case skips the keyword with \<open>++current\<close>, and the cases
  \<open>if\<close> and \<open>for\<close> consume the closing tag after the statement.
\<close>

definition parseJinjaStatement ::
  "parsers \<Rightarrow> token list \<Rightarrow> nat \<Rightarrow> (statement \<times> nat) result" where
  "parseJinjaStatement P tokens current =
     andThen (expect tokens current T_OpenStatement ''Expected opening statement token'')
       (\<lambda>(_, current).
     case token_at tokens current of
       None \<Rightarrow> Throw TypeError
     | Some t \<Rightarrow>
         if tok_type t = T_Set then
           andThen (call_parseSetStatement P tokens (current + 1)) (\<lambda>(result, current).
           andThen (expect tokens current T_CloseStatement ''Expected closing statement token'')
             (\<lambda>(_, current).
           Return (result, current)))
         else if tok_type t = T_If then
           andThen (call_parseIfStatement P tokens (current + 1)) (\<lambda>(result, current).
           andThen (expect tokens current T_OpenStatement ''Expected {% token'') (\<lambda>(_, current).
           andThen (expect tokens current T_EndIf ''Expected endif token'') (\<lambda>(_, current).
           andThen (expect tokens current T_CloseStatement ''Expected %} token'') (\<lambda>(_, current).
           Return (result, current)))))
         else if tok_type t = T_For then
           andThen (call_parseForStatement P tokens (current + 1)) (\<lambda>(result, current).
           andThen (expect tokens current T_OpenStatement ''Expected {% token'') (\<lambda>(_, current).
           andThen (expect tokens current T_EndFor ''Expected endfor token'') (\<lambda>(_, current).
           andThen (expect tokens current T_CloseStatement ''Expected %} token'') (\<lambda>(_, current).
           Return (result, current)))))
         else Throw (UnknownStatementType (tok_type t)))"

text \<open>\<open>parseJinjaExpression\<close> (lines 106-114).\<close>

definition parseJinjaExpression ::
  "parsers \<Rightarrow> token list \<Rightarrow> nat \<Rightarrow> (statement \<times> nat) result" where
  "parseJinjaExpression P tokens current =
     andThen (expect tokens current T_OpenExpression ''Expected opening expression token'')
       (\<lambda>(_, current).
     andThen (call_parseExpression P tokens current) (\<lambda>(result, current).
     andThen (expect tokens current T_CloseExpression ''Expected closing expression token'')
       (\<lambda>(_, current).
     Return (result, current))))"

text \<open>\<open>parseSetStatement\<close> (lines 117-127).\<close>

definition parseSetStatement ::
  "parsers \<Rightarrow> token list \<Rightarrow> nat \<Rightarrow> (statement \<times> nat) result" where
  "parseSetStatement P tokens current =
     andThen (call_parseExpression P tokens current) (\<lambda>(left, current).
     if is_at tokens current [T_Equals] then
       andThen (call_parseSetStatement P tokens (current + 1)) (\<lambda>(v, current).
       Return (SetStatement left v, current))
     else Return (left, current))"

text \<open>
  \<open>parseIfStatement\<close> (lines 129-173). \<open>parseIfStatement_body\<close> is the loop of lines
  138-147 and \<open>parseIfStatement_alternate\<close> the loop of lines 164-168; \<open>tokens[i]?.type\<close>
  in their conditions is \<open>type_at\<close>. After \<open>++current\<close> (line 154) the cursor is
  \<open>current + 1\<close>.
\<close>

definition parseIfStatement ::
  "parsers \<Rightarrow> token list \<Rightarrow> nat \<Rightarrow> (statement \<times> nat) result" where
  "parseIfStatement P tokens current =
     andThen (call_parseExpression P tokens current) (\<lambda>(test, current).
     andThen (expect tokens current T_CloseStatement ''Expected closing statement token'')
       (\<lambda>(_, current).
     andThen (call_parseIfStatement_body P tokens [] current) (\<lambda>(body, current).
     andThen
       (if type_at tokens current = Some T_OpenStatement \<and>
           type_at tokens (current + 1) \<noteq> Some T_EndIf
        then
          if is_at tokens (current + 1) [T_ElseIf] then
            andThen (expect tokens (current + 1) T_ElseIf ''Expected elseif token'')
              (\<lambda>(_, current).
            andThen (call_parseIfStatement P tokens current) (\<lambda>(nested, current).
            Return ([] @ [nested], current)))
          else
            andThen (expect tokens (current + 1) T_Else ''Expected else token'') (\<lambda>(_, current).
            andThen (expect tokens current T_CloseStatement ''Expected closing statement token'')
              (\<lambda>(_, current).
            call_parseIfStatement_alternate P tokens [] current))
        else Return ([], current))
       (\<lambda>(alternate, current).
     Return (IfNode test body alternate, current)))))"

definition parseIfStatement_body ::
  "parsers \<Rightarrow> token list \<Rightarrow> statement list \<Rightarrow> nat \<Rightarrow> (statement list \<times> nat) result" where
  "parseIfStatement_body P tokens body current =
     (if \<not> (type_at tokens current = Some T_OpenStatement \<and>
             (type_at tokens (current + 1) = Some T_ElseIf \<or>
              type_at tokens (current + 1) = Some T_Else \<or>
              type_at tokens (current + 1) = Some T_EndIf))
      then
        andThen (call_parseAny P tokens current) (\<lambda>(s, current).
        call_parseIfStatement_body P tokens (body @ [s]) current)
      else Return (body, current))"

definition parseIfStatement_alternate ::
  "parsers \<Rightarrow> token list \<Rightarrow> statement list \<Rightarrow> nat \<Rightarrow> (statement list \<times> nat) result" where
  "parseIfStatement_alternate P tokens alternate current =
     (if \<not> (type_at tokens current = Some T_OpenStatement \<and>
             type_at tokens (current + 1) = Some T_EndIf)
      then
        andThen (call_parseAny P tokens current) (\<lambda>(s, current).
        call_parseIfStatement_alternate P tokens (alternate @ [s]) current)
      else Return (alternate, current))"

text \<open>
  \<open>parseForStatement\<close> (lines 175-198); \<open>parseForStatement_body\<close> is the loop of lines
  193-195.
\<close>

definition parseForStatement ::
  "parsers \<Rightarrow> token list \<Rightarrow> nat \<Rightarrow> (statement \<times> nat) result" where
  "parseForStatement P tokens current =
     andThen (call_parsePrimaryExpression P tokens current) (\<lambda>(loopVariable, current).
     if \<not> instanceof_Identifier loopVariable then
       Throw (SyntaxError ''Expected identifier for the loop variable'')
     else
       andThen (expect tokens current T_In ''Expected `in` keyword following loop variable'')
         (\<lambda>(_, current).
       andThen (call_parseExpression P tokens current) (\<lambda>(iterable, current).
       andThen (expect tokens current T_CloseStatement ''Expected closing statement token'')
         (\<lambda>(_, current).
       andThen (call_parseForStatement_body P tokens [] current) (\<lambda>(body, current).
       Return (For loopVariable iterable body, current))))))"

definition parseForStatement_body ::
  "parsers \<Rightarrow> token list \<Rightarrow> statement list \<Rightarrow> nat \<Rightarrow> (statement list \<times> nat) result" where
  "parseForStatement_body P tokens body current =
     (if not_at tokens current [T_OpenStatement, T_EndFor] then
        andThen (call_parseAny P tokens current) (\<lambda>(s, current).
        call_parseForStatement_body P tokens (body @ [s]) current)
      else Return (body, current))"

text \<open>\<open>parseExpression\<close> (lines 200-212).\<close>

definition parseExpression ::
  "parsers \<Rightarrow> token list \<Rightarrow> nat \<Rightarrow> (statement \<times> nat) result" where
  "parseExpression P tokens current =
     andThen (call_parseLogicalOrExpression P tokens current) (\<lambda>(a, current).
     if is_at tokens current [T_If] then
       andThen (call_parseLogicalOrExpression P tokens (current + 1)) (\<lambda>(predicate, current).
       andThen (expect tokens current T_Else ''Expected else token'') (\<lambda>(_, current).
       andThen (call_parseLogicalOrExpression P tokens current) (\<lambda>(b, current).
       Return (IfNode predicate [a] [b], current))))
     else Return (a, current))"

text \<open>
  \<open>parseLogicalOrExpression\<close> (lines 214-223) and its loop. In every loop over a binary
  operator, \<open>operator = tokens[current]\<close> is read where \<open>is\<close> has just found the token.
\<close>

definition parseLogicalOrExpression ::
  "parsers \<Rightarrow> token list \<Rightarrow> nat \<Rightarrow> (statement \<times> nat) result" where
  "parseLogicalOrExpression P tokens current =
     andThen (call_parseLogicalAndExpression P tokens current) (\<lambda>(left, current).
     call_parseLogicalOrExpression_loop P tokens left current)"

definition parseLogicalOrExpression_loop ::
  "parsers \<Rightarrow> token list \<Rightarrow> statement \<Rightarrow> nat \<Rightarrow> (statement \<times> nat) result" where
  "parseLogicalOrExpression_loop P tokens left current =
     (if is_at tokens current [T_Or] then
        andThen (call_parseLogicalAndExpression P tokens (current + 1)) (\<lambda>(right, current').
        call_parseLogicalOrExpression_loop P tokens
          (BinaryExpression (tokens ! current) left right) current')
      else Return (left, current))"

text \<open>\<open>parseLogicalAndExpression\<close> (lines 225-234) and its loop.\<close>

definition parseLogicalAndExpression ::
  "parsers \<Rightarrow> token list \<Rightarrow> nat \<Rightarrow> (statement \<times> nat) result" where
  "parseLogicalAndExpression P tokens current =
     andThen (call_parseLogicalNegationExpression P tokens current) (\<lambda>(left, current).
     call_parseLogicalAndExpression_loop P tokens left current)"

definition parseLogicalAndExpression_loop ::
  "parsers \<Rightarrow> token list \<Rightarrow> statement \<Rightarrow> nat \<Rightarrow> (statement \<times> nat) result" where
  "parseLogicalAndExpression_loop P tokens left current =
     (if is_at tokens current [T_And] then
        andThen (call_parseLogicalNegationExpression P tokens (current + 1)) (\<lambda>(right, current').
        call_parseLogicalAndExpression_loop P tokens
          (BinaryExpression (tokens ! current) left right) current')
      else Return (left, current))"

text \<open>
  \<open>parseLogicalNegationExpression\<close> (lines 236-249). The variable \<open>right\<close> of the loop is
  \<open>undefined\<close> (\<open>None\<close>) at first and is overwritten by every iteration; when the loop
  ends, \<open>right ?? parseComparisonExpression()\<close> parses a comparison only if \<open>right\<close> is
  still \<open>undefined\<close>.
\<close>

definition parseLogicalNegationExpression ::
  "parsers \<Rightarrow> token list \<Rightarrow> nat \<Rightarrow> (statement \<times> nat) result" where
  "parseLogicalNegationExpression P tokens current =
     call_parseLogicalNegationExpression_loop P tokens None current"

definition parseLogicalNegationExpression_loop ::
  "parsers \<Rightarrow> token list \<Rightarrow> statement option \<Rightarrow> nat \<Rightarrow> (statement \<times> nat) result" where
  "parseLogicalNegationExpression_loop P tokens right current =
     (if is_at tokens current [T_Not] then
        andThen (call_parseLogicalNegationExpression P tokens (current + 1)) (\<lambda>(arg, current').
        call_parseLogicalNegationExpression_loop P tokens
          (Some (UnaryExpression (tokens ! current) arg)) current')
      else
        (case right of
           Some r \<Rightarrow> Return (r, current)
         | None \<Rightarrow> call_parseComparisonExpression P tokens current))"

text \<open>\<open>parseComparisonExpression\<close> (lines 251-262) and its loop.\<close>

definition parseComparisonExpression ::
  "parsers \<Rightarrow> token list \<Rightarrow> nat \<Rightarrow> (statement \<times> nat) result" where
  "parseComparisonExpression P tokens current =
     andThen (call_parseAdditiveExpression P tokens current) (\<lambda>(left, current).
     call_parseComparisonExpression_loop P tokens left current)"

definition parseComparisonExpression_loop ::
  "parsers \<Rightarrow> token list \<Rightarrow> statement \<Rightarrow> nat \<Rightarrow> (statement \<times> nat) result" where
  "parseComparisonExpression_loop P tokens left current =
     (if is_at tokens current [T_ComparisonBinaryOperator] \<or> is_at tokens current [T_In] \<or>
         is_at tokens current [T_NotIn]
      then
        andThen (call_parseAdditiveExpression P tokens (current + 1)) (\<lambda>(right, current').
        call_parseComparisonExpression_loop P tokens
          (BinaryExpression (tokens ! current) left right) current')
      else Return (left, current))"

text \<open>\<open>parseAdditiveExpression\<close> (lines 263-272) and its loop.\<close>

definition parseAdditiveExpression ::
  "parsers \<Rightarrow> token list \<Rightarrow> nat \<Rightarrow> (statement \<times> nat) result" where
  "parseAdditiveExpression P tokens current =
     andThen (call_parseMultiplicativeExpression P tokens current) (\<lambda>(left, current).
     call_parseAdditiveExpression_loop P tokens left current)"

definition parseAdditiveExpression_loop ::
  "parsers \<Rightarrow> token list \<Rightarrow> statement \<Rightarrow> nat \<Rightarrow> (statement \<times> nat) result" where
  "parseAdditiveExpression_loop P tokens left current =
     (if is_at tokens current [T_AdditiveBinaryOperator] then
        andThen (call_parseMultiplicativeExpression P tokens (current + 1)) (\<lambda>(right, current').
        call_parseAdditiveExpression_loop P tokens
          (BinaryExpression (tokens ! current) left right) current')
      else Return (left, current))"

text \<open>
  \<open>parseCallMemberExpression\<close> (lines 274-284), \<open>parseCallExpression\<close> (lines 286-295),
  \<open>parseArgs\<close> (lines 297-305) and \<open>parseArgumentsList\<close> with its loop (lines 306-329).
\<close>

definition parseCallMemberExpression ::
  "parsers \<Rightarrow> token list \<Rightarrow> nat \<Rightarrow> (statement \<times> nat) result" where
  "parseCallMemberExpression P tokens current =
     andThen (call_parseMemberExpression P tokens current) (\<lambda>(member, current).
     if is_at tokens current [T_OpenParen] then call_parseCallExpression P tokens member current
     else Return (member, current))"

definition parseCallExpression ::
  "parsers \<Rightarrow> token list \<Rightarrow> statement \<Rightarrow> nat \<Rightarrow> (statement \<times> nat) result" where
  "parseCallExpression P tokens callee current =
     andThen (call_parseArgs P tokens current) (\<lambda>(args, current).
     if is_at tokens current [T_OpenParen] then
       call_parseCallExpression P tokens (CallExpression callee args) current
     else Return (CallExpression callee args, current))"

definition parseArgs ::
  "parsers \<Rightarrow> token list \<Rightarrow> nat \<Rightarrow> (statement list \<times> nat) result" where
  "parseArgs P tokens current =
     andThen (expect tokens current T_OpenParen ''Expected opening parenthesis for arguments list'')
       (\<lambda>(_, current).
     andThen (call_parseArgumentsList P tokens current) (\<lambda>(args, current).
     andThen (expect tokens current T_CloseParen ''Expected closing parenthesis for arguments list'')
       (\<lambda>(_, current).
     Return (args, current))))"

definition parseArgumentsList ::
  "parsers \<Rightarrow> token list \<Rightarrow> nat \<Rightarrow> (statement list \<times> nat) result" where
  "parseArgumentsList P tokens current = call_parseArgumentsList_loop P tokens [] current"

definition parseArgumentsList_loop ::
  "parsers \<Rightarrow> token list \<Rightarrow> statement list \<Rightarrow> nat \<Rightarrow> (statement list \<times> nat) result" where
  "parseArgumentsList_loop P tokens args current =
     (if \<not> is_at tokens current [T_CloseParen] then
        andThen (call_parseExpression P tokens current) (\<lambda>(argument, current).
        andThen
          (if is_at tokens current [T_Equals] then
             if \<not> instanceof_Identifier argument then
               Throw (SyntaxError ''Expected identifier for keyword argument'')
             else
               andThen (call_parseExpression P tokens (current + 1)) (\<lambda>(v, current).
               Return (KeywordArgumentExpression argument v, current))
           else Return (argument, current))
          (\<lambda>(argument, current).
        call_parseArgumentsList_loop P tokens (args @ [argument])
          (if is_at tokens current [T_Comma] then current + 1 else current)))
      else Return (args, current))"

text \<open>
  \<open>parseMemberExpressionArgumentsList\<close> (lines 331-365); its loop has the variables
  \<open>slices\<close> and \<open>isSlice\<close>. In the last branch \<open>slices[0] as Statement\<close> is read with
  \<open>the\<close>: \<open>undefined\<close> is pushed only together with \<open>isSlice = true\<close>, so the entry is
  an expression there (lemma \<open>index_expression_defined\<close>).
\<close>

definition parseMemberExpressionArgumentsList ::
  "parsers \<Rightarrow> token list \<Rightarrow> nat \<Rightarrow> (statement \<times> nat) result" where
  "parseMemberExpressionArgumentsList P tokens current =
     andThen (call_parseMemberExpressionArgumentsList_loop P tokens [] False current)
       (\<lambda>((slices, isSlice), current).
     if length slices = 0 then
       Throw (SyntaxError ''Expected at least one argument for member/slice expression'')
     else if isSlice then
       if length slices > 3 then
         Throw (SyntaxError ''Expected 0-3 arguments for slice expression'')
       else
         Return (SliceExpression (spread_arg slices 0) (spread_arg slices 1) (spread_arg slices 2),
                 current)
     else Return (the (slices ! 0), current))"

definition parseMemberExpressionArgumentsList_loop ::
  "parsers \<Rightarrow> token list \<Rightarrow> statement option list \<Rightarrow> bool \<Rightarrow> nat \<Rightarrow> ((statement option list \<times> bool) \<times> nat) result" where
  "parseMemberExpressionArgumentsList_loop P tokens slices isSlice current =
     (if \<not> is_at tokens current [T_CloseSquareBracket] then
        if is_at tokens current [T_Colon] then
          call_parseMemberExpressionArgumentsList_loop P tokens (slices @ [None]) True (current + 1)
        else
          andThen (call_parseExpression P tokens current) (\<lambda>(e, current).
          if is_at tokens current [T_Colon] then
            call_parseMemberExpressionArgumentsList_loop P tokens (slices @ [Some e]) True (current + 1)
          else
            call_parseMemberExpressionArgumentsList_loop P tokens (slices @ [Some e]) isSlice current)
      else Return ((slices, isSlice), current))"

text \<open>
  \<open>parseMemberExpression\<close> (lines 367-389) and its loop; \<open>computed\<close> is
  \<open>operator.type !== TOKEN_TYPES.Dot\<close>.
\<close>

definition parseMemberExpression ::
  "parsers \<Rightarrow> token list \<Rightarrow> nat \<Rightarrow> (statement \<times> nat) result" where
  "parseMemberExpression P tokens current =
     andThen (call_parsePrimaryExpression P tokens current) (\<lambda>(object, current).
     call_parseMemberExpression_loop P tokens object current)"

definition parseMemberExpression_loop ::
  "parsers \<Rightarrow> token list \<Rightarrow> statement \<Rightarrow> nat \<Rightarrow> (statement \<times> nat) result" where
  "parseMemberExpression_loop P tokens object current =
     (if is_at tokens current [T_Dot] \<or> is_at tokens current [T_OpenSquareBracket] then
        andThen
          (if tok_type (tokens ! current) \<noteq> T_Dot then
             andThen (call_parseMemberExpressionArgumentsList P tokens (current + 1))
               (\<lambda>(property, current).
             andThen (expect tokens current T_CloseSquareBracket ''Expected closing square bracket'')
               (\<lambda>(_, current).
             Return (property, current)))
           else
             andThen (call_parsePrimaryExpression P tokens (current + 1)) (\<lambda>(property, current).
             if \<not> instanceof_Identifier property then
               Throw (SyntaxError ''Expected identifier following dot operator'')
             else Return (property, current)))
          (\<lambda>(property, current').
        call_parseMemberExpression_loop P tokens
          (MemberExpression object property (tok_type (tokens ! current) \<noteq> T_Dot)) current')
      else Return (object, current))"

text \<open>\<open>parseMultiplicativeExpression\<close> (lines 391-404) and its loop.\<close>

definition parseMultiplicativeExpression ::
  "parsers \<Rightarrow> token list \<Rightarrow> nat \<Rightarrow> (statement \<times> nat) result" where
  "parseMultiplicativeExpression P tokens current =
     andThen (call_parseTestExpression P tokens current) (\<lambda>(left, current).
     call_parseMultiplicativeExpression_loop P tokens left current)"

definition parseMultiplicativeExpression_loop ::
  "parsers \<Rightarrow> token list \<Rightarrow> statement \<Rightarrow> nat \<Rightarrow> (statement \<times> nat) result" where
  "parseMultiplicativeExpression_loop P tokens left current =
     (if is_at tokens current [T_MultiplicativeBinaryOperator] then
        andThen (call_parseTestExpression P tokens (current + 1)) (\<lambda>(right, current').
        call_parseMultiplicativeExpression_loop P tokens
          (BinaryExpression (tokens ! current) left right) current')
      else Return (left, current))"

text \<open>
  \<open>parseTestExpression\<close> (lines 406-429) and its loop. After \<open>is\<close> the cursor is
  \<open>current + 1\<close>, and \<open>negate = is(TOKEN_TYPES.Not)\<close> is read there;
  \<open>filter.value.toString()\<close> of a boolean literal is \<open>true\<close> or \<open>false\<close>.
\<close>

definition parseTestExpression ::
  "parsers \<Rightarrow> token list \<Rightarrow> nat \<Rightarrow> (statement \<times> nat) result" where
  "parseTestExpression P tokens current =
     andThen (call_parseFilterExpression P tokens current) (\<lambda>(operand, current).
     call_parseTestExpression_loop P tokens operand current)"

definition parseTestExpression_loop ::
  "parsers \<Rightarrow> token list \<Rightarrow> statement \<Rightarrow> nat \<Rightarrow> (statement \<times> nat) result" where
  "parseTestExpression_loop P tokens operand current =
     (if is_at tokens current [T_Is] then
        andThen
          (call_parsePrimaryExpression P tokens
             (if is_at tokens (current + 1) [T_Not] then current + 1 + 1 else current + 1))
          (\<lambda>(filter, current').
        andThen
          (case filter of
             BooleanLiteral b \<Rightarrow> Return (Identifier (if b then ''true'' else ''false''))
           | _ \<Rightarrow> Return filter)
          (\<lambda>filter.
        if \<not> instanceof_Identifier filter then
          Throw (SyntaxError ''Expected identifier for the test'')
        else
          call_parseTestExpression_loop P tokens
            (TestExpression operand (is_at tokens (current + 1) [T_Not]) filter) current'))
      else Return (operand, current))"

text \<open>\<open>parseFilterExpression\<close> (lines 431-447) and its loop.\<close>

definition parseFilterExpression ::
  "parsers \<Rightarrow> token list \<Rightarrow> nat \<Rightarrow> (statement \<times> nat) result" where
  "parseFilterExpression P tokens current =
     andThen (call_parseCallMemberExpression P tokens current) (\<lambda>(operand, current).
     call_parseFilterExpression_loop P tokens operand current)"

definition parseFilterExpression_loop ::
  "parsers \<Rightarrow> token list \<Rightarrow> statement \<Rightarrow> nat \<Rightarrow> (statement \<times> nat) result" where
  "parseFilterExpression_loop P tokens operand current =
     (if is_at tokens current [T_Pipe] then
        andThen (call_parsePrimaryExpression P tokens (current + 1)) (\<lambda>(filter, current).
        if \<not> instanceof_Identifier filter then
          Throw (SyntaxError ''Expected identifier for the filter'')
        else
          andThen
            (if is_at tokens current [T_OpenParen] then call_parseCallExpression P tokens filter current
             else Return (filter, current))
            (\<lambda>(filter, current).
          call_parseFilterExpression_loop P tokens (FilterExpression operand filter) current))
      else Return (operand, current))"

text \<open>
  \<open>parsePrimaryExpression\<close> (lines 449-510); \<open>parsePrimaryExpression_array\<close> is the loop
  of lines 478-484 and \<open>parsePrimaryExpression_object\<close> the loop of lines 493-502. Both
  \<open>token.type\<close> (line 452) and \<open>tokens[current].type\<close> (line 468) are read without a
  bounds check.
\<close>

definition parsePrimaryExpression ::
  "parsers \<Rightarrow> token list \<Rightarrow> nat \<Rightarrow> (statement \<times> nat) result" where
  "parsePrimaryExpression P tokens current =
     (case token_at tokens current of
        None \<Rightarrow> Throw TypeError
      | Some t \<Rightarrow>
          if tok_type t = T_NumericLiteral then Return (NumericLiteral (tok_value t), current + 1)
          else if tok_type t = T_StringLiteral then
            Return (StringLiteral (tok_value t), current + 1)
          else if tok_type t = T_BooleanLiteral then
            Return (BooleanLiteral (tok_value t = ''true''), current + 1)
          else if tok_type t = T_Identifier then Return (Identifier (tok_value t), current + 1)
          else if tok_type t = T_OpenParen then
            andThen (call_parseExpression P tokens (current + 1)) (\<lambda>(expression, current).
            case token_at tokens current of
              None \<Rightarrow> Throw TypeError
            | Some t' \<Rightarrow>
                if tok_type t' \<noteq> T_CloseParen then
                  Throw (SyntaxError ''Expected closing parenthesis'')
                else Return (expression, current + 1))
          else if tok_type t = T_OpenSquareBracket then
            andThen (call_parsePrimaryExpression_array P tokens [] (current + 1)) (\<lambda>(values, current).
            Return (ArrayLiteral values, current + 1))
          else if tok_type t = T_OpenCurlyBracket then
            andThen (call_parsePrimaryExpression_object P tokens [] (current + 1)) (\<lambda>(values, current).
            Return (ObjectLiteral values, current + 1))
          else Throw (UnexpectedToken (tok_type t)))"

definition parsePrimaryExpression_array ::
  "parsers \<Rightarrow> token list \<Rightarrow> statement list \<Rightarrow> nat \<Rightarrow> (statement list \<times> nat) result" where
  "parsePrimaryExpression_array P tokens values current =
     (if \<not> is_at tokens current [T_CloseSquareBracket] then
        andThen (call_parseExpression P tokens current) (\<lambda>(v, current).
        call_parsePrimaryExpression_array P tokens (values @ [v])
          (if is_at tokens current [T_Comma] then current + 1 else current))
      else Return (values, current))"

definition parsePrimaryExpression_object ::
  "parsers \<Rightarrow> token list \<Rightarrow> (statement \<times> statement) list \<Rightarrow> nat \<Rightarrow> ((statement \<times> statement) list \<times> nat) result" where
  "parsePrimaryExpression_object P tokens values current =
     (if \<not> is_at tokens current [T_CloseCurlyBracket] then
        andThen (call_parseExpression P tokens current) (\<lambda>(key, current).
        andThen (expect tokens current T_Colon
                   ''Expected colon between key and value in object literal'') (\<lambda>(_, current).
        andThen (call_parseExpression P tokens current) (\<lambda>(v, current).
        call_parsePrimaryExpression_object P tokens (Map_set values key v)
          (if is_at tokens current [T_Comma] then current + 1 else current))))
      else Return (values, current))"

text \<open>
  \<open>fuel n\<close> is the table of the parse functions that may nest calls \<open>n\<close> deep: with
  no fuel every call gives \<open>OutOfFuel\<close>, and a call with fuel \<open>Suc n\<close> runs the body
  of the function with the table \<open>fuel n\<close> for its own calls.
\<close>

definition out_of_fuel :: parsers where
  "out_of_fuel = \<lparr>
     call_parseAny = (\<lambda>_ _. OutOfFuel),
     call_parseJinjaStatement = (\<lambda>_ _. OutOfFuel),
     call_parseJinjaExpression = (\<lambda>_ _. OutOfFuel),
     call_parseSetStatement = (\<lambda>_ _. OutOfFuel),
     call_parseIfStatement = (\<lambda>_ _. OutOfFuel),
     call_parseIfStatement_body = (\<lambda>_ _ _. OutOfFuel),
     call_parseIfStatement_alternate = (\<lambda>_ _ _. OutOfFuel),
     call_parseForStatement = (\<lambda>_ _. OutOfFuel),
     call_parseForStatement_body = (\<lambda>_ _ _. OutOfFuel),
     call_parseExpression = (\<lambda>_ _. OutOfFuel),
     call_parseLogicalOrExpression = (\<lambda>_ _. OutOfFuel),
     call_parseLogicalOrExpression_loop = (\<lambda>_ _ _. OutOfFuel),
     call_parseLogicalAndExpression = (\<lambda>_ _. OutOfFuel),
     call_parseLogicalAndExpression_loop = (\<lambda>_ _ _. OutOfFuel),
     call_parseLogicalNegationExpression = (\<lambda>_ _. OutOfFuel),
     call_parseLogicalNegationExpression_loop = (\<lambda>_ _ _. OutOfFuel),
     call_parseComparisonExpression = (\<lambda>_ _. OutOfFuel),
     call_parseComparisonExpression_loop = (\<lambda>_ _ _. OutOfFuel),
     call_parseAdditiveExpression = (\<lambda>_ _. OutOfFuel),
     call_parseAdditiveExpression_loop = (\<lambda>_ _ _. OutOfFuel),
     call_parseCallMemberExpression = (\<lambda>_ _. OutOfFuel),
     call_parseCallExpression = (\<lambda>_ _ _. OutOfFuel),
     call_parseArgs = (\<lambda>_ _. OutOfFuel),
     call_parseArgumentsList = (\<lambda>_ _. OutOfFuel),
     call_parseArgumentsList_loop = (\<lambda>_ _ _. OutOfFuel),
     call_parseMemberExpressionArgumentsList = (\<lambda>_ _. OutOfFuel),
     call_parseMemberExpressionArgumentsList_loop = (\<lambda>_ _ _ _. OutOfFuel),
     call_parseMemberExpression = (\<lambda>_ _. OutOfFuel),
     call_parseMemberExpression_loop = (\<lambda>_ _ _. OutOfFuel),
     call_parseMultiplicativeExpression = (\<lambda>_ _. OutOfFuel),
     call_parseMultiplicativeExpression_loop = (\<lambda>_ _ _. OutOfFuel),
     call_parseTestExpression = (\<lambda>_ _. OutOfFuel),
     call_parseTestExpression_loop = (\<lambda>_ _ _. OutOfFuel),
     call_parseFilterExpression = (\<lambda>_ _. OutOfFuel),
     call_parseFilterExpression_loop = (\<lambda>_ _ _. OutOfFuel),
     call_parsePrimaryExpression = (\<lambda>_ _. OutOfFuel),
     call_parsePrimaryExpression_array = (\<lambda>_ _ _. OutOfFuel),
     call_parsePrimaryExpression_object = (\<lambda>_ _ _. OutOfFuel) \<rparr>"

definition unfold :: "parsers \<Rightarrow> parsers" where
  "unfold P = \<lparr>
     call_parseAny = parseAny P,
     call_parseJinjaStatement = parseJinjaStatement P,
     call_parseJinjaExpression = parseJinjaExpression P,
     call_parseSetStatement = parseSetStatement P,
     call_parseIfStatement = parseIfStatement P,
     call_parseIfStatement_body = parseIfStatement_body P,
     call_parseIfStatement_alternate = parseIfStatement_alternate P,
     call_parseForStatement = parseForStatement P,
     call_parseForStatement_body = parseForStatement_body P,
     call_parseExpression = parseExpression P,
     call_parseLogicalOrExpression = parseLogicalOrExpression P,
     call_parseLogicalOrExpression_loop = parseLogicalOrExpression_loop P,
     call_parseLogicalAndExpression = parseLogicalAndExpression P,
     call_parseLogicalAndExpression_loop = parseLogicalAndExpression_loop P,
     call_parseLogicalNegationExpression = parseLogicalNegationExpression P,
     call_parseLogicalNegationExpression_loop = parseLogicalNegationExpression_loop P,
     call_parseComparisonExpression = parseComparisonExpression P,
     call_parseComparisonExpression_loop = parseComparisonExpression_loop P,
     call_parseAdditiveExpression = parseAdditiveExpression P,
     call_parseAdditiveExpression_loop = parseAdditiveExpression_loop P,
     call_parseCallMemberExpression = parseCallMemberExpression P,
     call_parseCallExpression = parseCallExpression P,
     call_parseArgs = parseArgs P,
     call_parseArgumentsList = parseArgumentsList P,
     call_parseArgumentsList_loop = parseArgumentsList_loop P,
     call_parseMemberExpressionArgumentsList = parseMemberExpressionArgumentsList P,
     call_parseMemberExpressionArgumentsList_loop = parseMemberExpressionArgumentsList_loop P,
     call_parseMemberExpression = parseMemberExpression P,
     call_parseMemberExpression_loop = parseMemberExpression_loop P,
     call_parseMultiplicativeExpression = parseMultiplicativeExpression P,
     call_parseMultiplicativeExpression_loop = parseMultiplicativeExpression_loop P,
     call_parseTestExpression = parseTestExpression P,
     call_parseTestExpression_loop = parseTestExpression_loop P,
     call_parseFilterExpression = parseFilterExpression P,
     call_parseFilterExpression_loop = parseFilterExpression_loop P,
     call_parsePrimaryExpression = parsePrimaryExpression P,
     call_parsePrimaryExpression_array = parsePrimaryExpression_array P,
     call_parsePrimaryExpression_object = parsePrimaryExpression_object P \<rparr>"

primrec fuel :: "nat \<Rightarrow> parsers" where
  "fuel 0 = out_of_fuel"
| "fuel (Suc n) = unfold (fuel n)"

text \<open>
  \<open>parse(tokens)\<close>: the loop at the end of the function body, and the function.
\<close>

fun parse_loop :: "nat \<Rightarrow> token list \<Rightarrow> statement list \<Rightarrow> nat \<Rightarrow> statement result" where
  "parse_loop 0 tokens body current = OutOfFuel"
| "parse_loop (Suc n) tokens body current =
     (if current < length tokens then
        andThen (parseAny (fuel n) tokens current) (\<lambda>(s, current).
        parse_loop n tokens (body @ [s]) current)
      else Return (Program body))"

definition parse :: "nat \<Rightarrow> token list \<Rightarrow> statement result" where
  "parse n tokens = parse_loop n tokens [] 0"

section \<open>The error taxonomy of the specification\<close>

text \<open>
  The specification names the failures; the source throws them as a \<open>SyntaxError\<close>
  with a fixed message. \<open>ExpectedToken expected e\<close> holds when \<open>e\<close> is the error of
  \<open>expect\<close> for the expected token type, with whatever message and actual type.
\<close>

definition InvalidLoopVariable :: error where
  "InvalidLoopVariable = SyntaxError ''Expected identifier for the loop variable''"

definition InvalidTestName :: error where
  "InvalidTestName = SyntaxError ''Expected identifier for the test''"

definition EmptyIndexExpression :: error where
  "EmptyIndexExpression = SyntaxError ''Expected at least one argument for member/slice expression''"

definition MalformedSlice :: error where
  "MalformedSlice = SyntaxError ''Expected 0-3 arguments for slice expression''"

fun ExpectedToken :: "token_type \<Rightarrow> error \<Rightarrow> bool" where
  "ExpectedToken expected (ParserError msg actual type) = (type = expected)"
| "ExpectedToken expected e = False"

fun instanceof_BooleanLiteral :: "statement \<Rightarrow> bool" where
  "instanceof_BooleanLiteral (BooleanLiteral b) = True"
| "instanceof_BooleanLiteral s = False"

fun instanceof_If :: "statement \<Rightarrow> bool" where
  "instanceof_If (IfNode test body alternate) = True"
| "instanceof_If s = False"

section \<open>More fuel never changes an outcome\<close>

text \<open>
  \<open>le_result r r'\<close>: the outcome \<open>r'\<close> agrees with \<open>r\<close> unless \<open>r\<close> ran out of fuel.
  \<open>le_parsers P Q\<close>: every function of the table \<open>Q\<close> agrees in that sense with the
  same function of \<open>P\<close>.
\<close>

definition le_result :: "'a result \<Rightarrow> 'a result \<Rightarrow> bool" where
  "le_result r r' \<longleftrightarrow> r = OutOfFuel \<or> r = r'"

definition le_parsers :: "parsers \<Rightarrow> parsers \<Rightarrow> bool" where
  "le_parsers P Q \<longleftrightarrow>
     (\<forall>tokens current. le_result (call_parseAny P tokens current) (call_parseAny Q tokens current)) \<and>
     (\<forall>tokens current. le_result (call_parseJinjaStatement P tokens current) (call_parseJinjaStatement Q tokens current)) \<and>
     (\<forall>tokens current. le_result (call_parseJinjaExpression P tokens current) (call_parseJinjaExpression Q tokens current)) \<and>
     (\<forall>tokens current. le_result (call_parseSetStatement P tokens current) (call_parseSetStatement Q tokens current)) \<and>
     (\<forall>tokens current. le_result (call_parseIfStatement P tokens current) (call_parseIfStatement Q tokens current)) \<and>
     (\<forall>tokens x current. le_result (call_parseIfStatement_body P tokens x current) (call_parseIfStatement_body Q tokens x current)) \<and>
     (\<forall>tokens x current. le_result (call_parseIfStatement_alternate P tokens x current) (call_parseIfStatement_alternate Q tokens x current)) \<and>
     (\<forall>tokens current. le_result (call_parseForStatement P tokens current) (call_parseForStatement Q tokens current)) \<and>
     (\<forall>tokens x current. le_result (call_parseForStatement_body P tokens x current) (call_parseForStatement_body Q tokens x current)) \<and>
     (\<forall>tokens current. le_result (call_parseExpression P tokens current) (call_parseExpression Q tokens current)) \<and>
     (\<forall>tokens current. le_result (call_parseLogicalOrExpression P tokens current) (call_parseLogicalOrExpression Q tokens current)) \<and>
     (\<forall>tokens x current. le_result (call_parseLogicalOrExpression_loop P tokens x current) (call_parseLogicalOrExpression_loop Q tokens x current)) \<and>
     (\<forall>tokens current. le_result (call_parseLogicalAndExpression P tokens current) (call_parseLogicalAndExpression Q tokens current)) \<and>
     (\<forall>tokens x current. le_result (call_parseLogicalAndExpression_loop P tokens x current) (call_parseLogicalAndExpression_loop Q tokens x current)) \<and>
     (\<forall>tokens current. le_result (call_parseLogicalNegationExpression P tokens current) (call_parseLogicalNegationExpression Q tokens current)) \<and>
     (\<forall>tokens x current. le_result (call_parseLogicalNegationExpression_loop P tokens x current) (call_parseLogicalNegationExpression_loop Q tokens x current)) \<and>
     (\<forall>tokens current. le_result (call_parseComparisonExpression P tokens current) (call_parseComparisonExpression Q tokens current)) \<and>
     (\<forall>tokens x current. le_result (call_parseComparisonExpression_loop P tokens x current) (call_parseComparisonExpression_loop Q tokens x current)) \<and>
     (\<forall>tokens current. le_result (call_parseAdditiveExpression P tokens current) (call_parseAdditiveExpression Q tokens current)) \<and>
     (\<forall>tokens x current. le_result (call_parseAdditiveExpression_loop P tokens x current) (call_parseAdditiveExpression_loop Q tokens x current)) \<and>
     (\<forall>tokens current. le_result (call_parseCallMemberExpression P tokens current) (call_parseCallMemberExpression Q tokens current)) \<and>
     (\<forall>tokens x current. le_result (call_parseCallExpression P tokens x current) (call_parseCallExpression Q tokens x current)) \<and>
     (\<forall>tokens current. le_result (call_parseArgs P tokens current) (call_parseArgs Q tokens current)) \<and>
     (\<forall>tokens current. le_result (call_parseArgumentsList P tokens current) (call_parseArgumentsList Q tokens current)) \<and>
     (\<forall>tokens x current. le_result (call_parseArgumentsList_loop P tokens x current) (call_parseArgumentsList_loop Q tokens x current)) \<and>
     (\<forall>tokens current. le_result (call_parseMemberExpressionArgumentsList P tokens current) (call_parseMemberExpressionArgumentsList Q tokens current)) \<and>
     (\<forall>tokens x y current. le_result (call_parseMemberExpressionArgumentsList_loop P tokens x y current) (call_parseMemberExpressionArgumentsList_loop Q tokens x y current)) \<and>
     (\<forall>tokens current. le_result (call_parseMemberExpression P tokens current) (call_parseMemberExpression Q tokens current)) \<and>
     (\<forall>tokens x current. le_result (call_parseMemberExpression_loop P tokens x current) (call_parseMemberExpression_loop Q tokens x current)) \<and>
     (\<forall>tokens current. le_result (call_parseMultiplicativeExpression P tokens current) (call_parseMultiplicativeExpression Q tokens current)) \<and>
     (\<forall>tokens x current. le_result (call_parseMultiplicativeExpression_loop P tokens x current) (call_parseMultiplicativeExpression_loop Q tokens x current)) \<and>
     (\<forall>tokens current. le_result (call_parseTestExpression P tokens current) (call_parseTestExpression Q tokens current)) \<and>
     (\<forall>tokens x current. le_result (call_parseTestExpression_loop P tokens x current) (call_parseTestExpression_loop Q tokens x current)) \<and>
     (\<forall>tokens current. le_result (call_parseFilterExpression P tokens current) (call_parseFilterExpression Q tokens current)) \<and>
     (\<forall>tokens x current. le_result (call_parseFilterExpression_loop P tokens x current) (call_parseFilterExpression_loop Q tokens x current)) \<and>
     (\<forall>tokens current. le_result (call_parsePrimaryExpression P tokens current) (call_parsePrimaryExpression Q tokens current)) \<and>
     (\<forall>tokens x current. le_result (call_parsePrimaryExpression_array P tokens x current) (call_parsePrimaryExpression_array Q tokens x current)) \<and>
     (\<forall>tokens x current. le_result (call_parsePrimaryExpression_object P tokens x current) (call_parsePrimaryExpression_object Q tokens x current))"

section \<open>The \<open>endif\<close> error of \<open>expect\<close>\<close>

text \<open>
  \<open>no_endif_error r\<close>: the outcome \<open>r\<close> is not the error of \<open>expect\<close> for an expected
  \<open>endif\<close>. \<open>at_endif tokens c\<close>: the tokens at \<open>c\<close> are \<open>{%\<close> and \<open>endif\<close>.
  \<open>at_branch_end tokens c\<close>: the tokens at \<open>c\<close> are \<open>{%\<close> and one of \<open>elif\<close>, \<open>else\<close>,
  \<open>endif\<close>. \<open>endif_inv P\<close>: no function of the table \<open>P\<close> gives that error, and the
  functions of an \<open>if\<close> statement return with the cursor where their loops stop.
\<close>

definition no_endif_error :: "'a result \<Rightarrow> bool" where
  "no_endif_error r = (case r of Throw e \<Rightarrow> \<not> ExpectedToken T_EndIf e | _ \<Rightarrow> True)"

definition at_endif :: "token list \<Rightarrow> nat \<Rightarrow> bool" where
  "at_endif tokens c \<longleftrightarrow>
     type_at tokens c = Some T_OpenStatement \<and> type_at tokens (c + 1) = Some T_EndIf"

definition at_branch_end :: "token list \<Rightarrow> nat \<Rightarrow> bool" where
  "at_branch_end tokens c \<longleftrightarrow>
     type_at tokens c = Some T_OpenStatement \<and>
     (type_at tokens (c + 1) = Some T_ElseIf \<or> type_at tokens (c + 1) = Some T_Else \<or>
      type_at tokens (c + 1) = Some T_EndIf)"

definition endif_inv :: "parsers \<Rightarrow> bool" where
  "endif_inv P \<longleftrightarrow>
     (\<forall>tokens current. no_endif_error (call_parseAny P tokens current)) \<and>
     (\<forall>tokens current. no_endif_error (call_parseJinjaStatement P tokens current)) \<and>
     (\<forall>tokens current. no_endif_error (call_parseJinjaExpression P tokens current)) \<and>
     (\<forall>tokens current. no_endif_error (call_parseSetStatement P tokens current)) \<and>
     (\<forall>tokens current. no_endif_error (call_parseIfStatement P tokens current)) \<and>
     (\<forall>tokens x current. no_endif_error (call_parseIfStatement_body P tokens x current)) \<and>
     (\<forall>tokens x current. no_endif_error (call_parseIfStatement_alternate P tokens x current)) \<and>
     (\<forall>tokens current. no_endif_error (call_parseForStatement P tokens current)) \<and>
     (\<forall>tokens x current. no_endif_error (call_parseForStatement_body P tokens x current)) \<and>
     (\<forall>tokens current. no_endif_error (call_parseExpression P tokens current)) \<and>
     (\<forall>tokens current. no_endif_error (call_parseLogicalOrExpression P tokens current)) \<and>
     (\<forall>tokens x current. no_endif_error (call_parseLogicalOrExpression_loop P tokens x current)) \<and>
     (\<forall>tokens current. no_endif_error (call_parseLogicalAndExpression P tokens current)) \<and>
     (\<forall>tokens x current. no_endif_error (call_parseLogicalAndExpression_loop P tokens x current)) \<and>
     (\<forall>tokens current. no_endif_error (call_parseLogicalNegationExpression P tokens current)) \<and>
     (\<forall>tokens x current. no_endif_error (call_parseLogicalNegationExpression_loop P tokens x current)) \<and>
     (\<forall>tokens current. no_endif_error (call_parseComparisonExpression P tokens current)) \<and>
     (\<forall>tokens x current. no_endif_error (call_parseComparisonExpression_loop P tokens x current)) \<and>
     (\<forall>tokens current. no_endif_error (call_parseAdditiveExpression P tokens current)) \<and>
     (\<forall>tokens x current. no_endif_error (call_parseAdditiveExpression_loop P tokens x current)) \<and>
     (\<forall>tokens current. no_endif_error (call_parseCallMemberExpression P tokens current)) \<and>
     (\<forall>tokens x current. no_endif_error (call_parseCallExpression P tokens x current)) \<and>
     (\<forall>tokens current. no_endif_error (call_parseArgs P tokens current)) \<and>
     (\<forall>tokens current. no_endif_error (call_parseArgumentsList P tokens current)) \<and>
     (\<forall>tokens x current. no_endif_error (call_parseArgumentsList_loop P tokens x current)) \<and>
     (\<forall>tokens current. no_endif_error (call_parseMemberExpressionArgumentsList P tokens current)) \<and>
     (\<forall>tokens x y current. no_endif_error (call_parseMemberExpressionArgumentsList_loop P tokens x y current)) \<and>
     (\<forall>tokens current. no_endif_error (call_parseMemberExpression P tokens current)) \<and>
     (\<forall>tokens x current. no_endif_error (call_parseMemberExpression_loop P tokens x current)) \<and>
     (\<forall>tokens current. no_endif_error (call_parseMultiplicativeExpression P tokens current)) \<and>
     (\<forall>tokens x current. no_endif_error (call_parseMultiplicativeExpression_loop P tokens x current)) \<and>
     (\<forall>tokens current. no_endif_error (call_parseTestExpression P tokens current)) \<and>
     (\<forall>tokens x current. no_endif_error (call_parseTestExpression_loop P tokens x current)) \<and>
     (\<forall>tokens current. no_endif_error (call_parseFilterExpression P tokens current)) \<and>
     (\<forall>tokens x current. no_endif_error (call_parseFilterExpression_loop P tokens x current)) \<and>
     (\<forall>tokens current. no_endif_error (call_parsePrimaryExpression P tokens current)) \<and>
     (\<forall>tokens x current. no_endif_error (call_parsePrimaryExpression_array P tokens x current)) \<and>
     (\<forall>tokens x current. no_endif_error (call_parsePrimaryExpression_object P tokens x current)) \<and>
     (\<forall>tokens current s c. call_parseIfStatement P tokens current = Return (s, c)
        \<longrightarrow> at_endif tokens c) \<and>
     (\<forall>tokens x current s c.
        call_parseIfStatement_alternate P tokens x current = Return (s, c)
        \<longrightarrow> at_endif tokens c) \<and>
     (\<forall>tokens x current s c. call_parseIfStatement_body P tokens x current = Return (s, c)
        \<longrightarrow> at_branch_end tokens c)"

section \<open>The cursor only moves forward\<close>

text \<open>
  \<open>advanced tokens current c\<close>: the cursor \<open>c\<close> is past \<open>current\<close> and not past the end
  of the tokens. \<open>not_behind tokens current c\<close>: it is \<open>current\<close> itself or advanced.
  \<open>progress_inv P\<close>: a function of the table \<open>P\<close> that parses at least one token returns
  an advanced cursor, and a loop returns a cursor that is not behind; the loops of an
  array or object literal return with the cursor on a token, the closing bracket.
\<close>

definition advanced :: "token list \<Rightarrow> nat \<Rightarrow> nat \<Rightarrow> bool" where
  "advanced tokens current c \<longleftrightarrow> current < c \<and> c \<le> length tokens"

definition not_behind :: "token list \<Rightarrow> nat \<Rightarrow> nat \<Rightarrow> bool" where
  "not_behind tokens current c \<longleftrightarrow> c = current \<or> advanced tokens current c"

definition progress_inv :: "parsers \<Rightarrow> bool" where
  "progress_inv P \<longleftrightarrow>
     (\<forall>tokens current v c. call_parseAny P tokens current = Return (v, c)
        \<longrightarrow> advanced tokens current c) \<and>
     (\<forall>tokens current v c. call_parseJinjaStatement P tokens current = Return (v, c)
        \<longrightarrow> advanced tokens current c) \<and>
     (\<forall>tokens current v c. call_parseJinjaExpression P tokens current = Return (v, c)
        \<longrightarrow> advanced tokens current c) \<and>
     (\<forall>tokens current v c. call_parseSetStatement P tokens current = Return (v, c)
        \<longrightarrow> advanced tokens current c) \<and>
     (\<forall>tokens current v c. call_parseIfStatement P tokens current = Return (v, c)
        \<longrightarrow> advanced tokens current c) \<and>
     (\<forall>tokens x current v c. call_parseIfStatement_body P tokens x current = Return (v, c)
        \<longrightarrow> not_behind tokens current c) \<and>
     (\<forall>tokens x current v c. call_parseIfStatement_alternate P tokens x current = Return (v, c)
        \<longrightarrow> not_behind tokens current c) \<and>
     (\<forall>tokens current v c. call_parseForStatement P tokens current = Return (v, c)
        \<longrightarrow> advanced tokens current c) \<and>
     (\<forall>tokens x current v c. call_parseForStatement_body P tokens x current = Return (v, c)
        \<longrightarrow> not_behind tokens current c) \<and>
     (\<forall>tokens current v c. call_parseExpression P tokens current = Return (v, c)
        \<longrightarrow> advanced tokens current c) \<and>
     (\<forall>tokens current v c. call_parseLogicalOrExpression P tokens current = Return (v, c)
        \<longrightarrow> advanced tokens current c) \<and>
     (\<forall>tokens x current v c. call_parseLogicalOrExpression_loop P tokens x current = Return (v, c)
        \<longrightarrow> not_behind tokens current c) \<and>
     (\<forall>tokens current v c. call_parseLogicalAndExpression P tokens current = Return (v, c)
        \<longrightarrow> advanced tokens current c) \<and>
     (\<forall>tokens x current v c. call_parseLogicalAndExpression_loop P tokens x current = Return (v, c)
        \<longrightarrow> not_behind tokens current c) \<and>
     (\<forall>tokens current v c. call_parseLogicalNegationExpression P tokens current = Return (v, c)
        \<longrightarrow> advanced tokens current c) \<and>
     (\<forall>tokens x current v c. call_parseLogicalNegationExpression_loop P tokens x current = Return (v, c)
        \<longrightarrow> (if x = None then advanced tokens current c else not_behind tokens current c)) \<and>
     (\<forall>tokens current v c. call_parseComparisonExpression P tokens current = Return (v, c)
        \<longrightarrow> advanced tokens current c) \<and>
     (\<forall>tokens x current v c. call_parseComparisonExpression_loop P tokens x current = Return (v, c)
        \<longrightarrow> not_behind tokens current c) \<and>
     (\<forall>tokens current v c. call_parseAdditiveExpression P tokens current = Return (v, c)
        \<longrightarrow> advanced tokens current c) \<and>
     (\<forall>tokens x current v c. call_parseAdditiveExpression_loop P tokens x current = Return (v, c)
        \<longrightarrow> not_behind tokens current c) \<and>
     (\<forall>tokens current v c. call_parseCallMemberExpression P tokens current = Return (v, c)
        \<longrightarrow> advanced tokens current c) \<and>
     (\<forall>tokens x current v c. call_parseCallExpression P tokens x current = Return (v, c)
        \<longrightarrow> advanced tokens current c) \<and>
     (\<forall>tokens current v c. call_parseArgs P tokens current = Return (v, c)
        \<longrightarrow> advanced tokens current c) \<and>
     (\<forall>tokens current v c. call_parseArgumentsList P tokens current = Return (v, c)
        \<longrightarrow> not_behind tokens current c) \<and>
     (\<forall>tokens x current v c. call_parseArgumentsList_loop P tokens x current = Return (v, c)
        \<longrightarrow> not_behind tokens current c) \<and>
     (\<forall>tokens current v c. call_parseMemberExpressionArgumentsList P tokens current = Return (v, c)
        \<longrightarrow> not_behind tokens current c) \<and>
     (\<forall>tokens x y current v c. call_parseMemberExpressionArgumentsList_loop P tokens x y current = Return (v, c)
        \<longrightarrow> not_behind tokens current c) \<and>
     (\<forall>tokens current v c. call_parseMemberExpression P tokens current = Return (v, c)
        \<longrightarrow> advanced tokens current c) \<and>
     (\<forall>tokens x current v c. call_parseMemberExpression_loop P tokens x current = Return (v, c)
        \<longrightarrow> not_behind tokens current c) \<and>
     (\<forall>tokens current v c. call_parseMultiplicativeExpression P tokens current = Return (v, c)
        \<longrightarrow> advanced tokens current c) \<and>
     (\<forall>tokens x current v c. call_parseMultiplicativeExpression_loop P tokens x current = Return (v, c)
        \<longrightarrow> not_behind tokens current c) \<and>
     (\<forall>tokens current v c. call_parseTestExpression P tokens current = Return (v, c)
        \<longrightarrow> advanced tokens current c) \<and>
     (\<forall>tokens x current v c. call_parseTestExpression_loop P tokens x current = Return (v, c)
        \<longrightarrow> not_behind tokens current c) \<and>
     (\<forall>tokens current v c. call_parseFilterExpression P tokens current = Return (v, c)
        \<longrightarrow> advanced tokens current c) \<and>
     (\<forall>tokens x current v c. call_parseFilterExpression_loop P tokens x current = Return (v, c)
        \<longrightarrow> not_behind tokens current c) \<and>
     (\<forall>tokens current v c. call_parsePrimaryExpression P tokens current = Return (v, c)
        \<longrightarrow> advanced tokens current c) \<and>
     (\<forall>tokens x current v c. call_parsePrimaryExpression_array P tokens x current = Return (v, c)
        \<longrightarrow> not_behind tokens current c \<and> c < length tokens) \<and>
     (\<forall>tokens x current v c. call_parsePrimaryExpression_object P tokens x current = Return (v, c)
        \<longrightarrow> not_behind tokens current c \<and> c < length tokens)"

section \<open>Fuel that is enough\<close>

text \<open>
  \<open>needs tokens current rank\<close> bounds the depth of calls of a parse function at the
  cursor \<open>current\<close>: sixteen for every token that is left, and the rank of the
  function, which counts the calls that it can nest before a token is consumed.
  \<open>total_inv P n\<close>: every function of the table \<open>P\<close> has an outcome other than
  \<open>OutOfFuel\<close> wherever it needs at most \<open>n\<close>.
\<close>

definition needs :: "token list \<Rightarrow> nat \<Rightarrow> nat \<Rightarrow> nat" where
  "needs tokens current rank = 16 * (length tokens - current) + rank"

definition total_inv :: "parsers \<Rightarrow> nat \<Rightarrow> bool" where
  "total_inv P n \<longleftrightarrow>
     (\<forall>tokens current. needs tokens current 2 \<le> n
        \<longrightarrow> call_parseAny P tokens current \<noteq> OutOfFuel) \<and>
     (\<forall>tokens current. needs tokens current 1 \<le> n
        \<longrightarrow> call_parseJinjaStatement P tokens current \<noteq> OutOfFuel) \<and>
     (\<forall>tokens current. needs tokens current 1 \<le> n
        \<longrightarrow> call_parseJinjaExpression P tokens current \<noteq> OutOfFuel) \<and>
     (\<forall>tokens current. needs tokens current 14 \<le> n
        \<longrightarrow> call_parseSetStatement P tokens current \<noteq> OutOfFuel) \<and>
     (\<forall>tokens current. needs tokens current 14 \<le> n
        \<longrightarrow> call_parseIfStatement P tokens current \<noteq> OutOfFuel) \<and>
     (\<forall>tokens x current. needs tokens current 3 \<le> n
        \<longrightarrow> call_parseIfStatement_body P tokens x current \<noteq> OutOfFuel) \<and>
     (\<forall>tokens x current. needs tokens current 3 \<le> n
        \<longrightarrow> call_parseIfStatement_alternate P tokens x current \<noteq> OutOfFuel) \<and>
     (\<forall>tokens current. needs tokens current 2 \<le> n
        \<longrightarrow> call_parseForStatement P tokens current \<noteq> OutOfFuel) \<and>
     (\<forall>tokens x current. needs tokens current 3 \<le> n
        \<longrightarrow> call_parseForStatement_body P tokens x current \<noteq> OutOfFuel) \<and>
     (\<forall>tokens current. needs tokens current 13 \<le> n
        \<longrightarrow> call_parseExpression P tokens current \<noteq> OutOfFuel) \<and>
     (\<forall>tokens current. needs tokens current 12 \<le> n
        \<longrightarrow> call_parseLogicalOrExpression P tokens current \<noteq> OutOfFuel) \<and>
     (\<forall>tokens x current. needs tokens current 1 \<le> n
        \<longrightarrow> call_parseLogicalOrExpression_loop P tokens x current \<noteq> OutOfFuel) \<and>
     (\<forall>tokens current. needs tokens current 11 \<le> n
        \<longrightarrow> call_parseLogicalAndExpression P tokens current \<noteq> OutOfFuel) \<and>
     (\<forall>tokens x current. needs tokens current 1 \<le> n
        \<longrightarrow> call_parseLogicalAndExpression_loop P tokens x current \<noteq> OutOfFuel) \<and>
     (\<forall>tokens current. needs tokens current 10 \<le> n
        \<longrightarrow> call_parseLogicalNegationExpression P tokens current \<noteq> OutOfFuel) \<and>
     (\<forall>tokens x current. needs tokens current 9 \<le> n
        \<longrightarrow> call_parseLogicalNegationExpression_loop P tokens x current \<noteq> OutOfFuel) \<and>
     (\<forall>tokens current. needs tokens current 8 \<le> n
        \<longrightarrow> call_parseComparisonExpression P tokens current \<noteq> OutOfFuel) \<and>
     (\<forall>tokens x current. needs tokens current 1 \<le> n
        \<longrightarrow> call_parseComparisonExpression_loop P tokens x current \<noteq> OutOfFuel) \<and>
     (\<forall>tokens current. needs tokens current 7 \<le> n
        \<longrightarrow> call_parseAdditiveExpression P tokens current \<noteq> OutOfFuel) \<and>
     (\<forall>tokens x current. needs tokens current 1 \<le> n
        \<longrightarrow> call_parseAdditiveExpression_loop P tokens x current \<noteq> OutOfFuel) \<and>
     (\<forall>tokens current. needs tokens current 3 \<le> n
        \<longrightarrow> call_parseCallMemberExpression P tokens current \<noteq> OutOfFuel) \<and>
     (\<forall>tokens x current. needs tokens current 2 \<le> n
        \<longrightarrow> call_parseCallExpression P tokens x current \<noteq> OutOfFuel) \<and>
     (\<forall>tokens current. needs tokens current 1 \<le> n
        \<longrightarrow> call_parseArgs P tokens current \<noteq> OutOfFuel) \<and>
     (\<forall>tokens current. needs tokens current 15 \<le> n
        \<longrightarrow> call_parseArgumentsList P tokens current \<noteq> OutOfFuel) \<and>
     (\<forall>tokens x current. needs tokens current 14 \<le> n
        \<longrightarrow> call_parseArgumentsList_loop P tokens x current \<noteq> OutOfFuel) \<and>
     (\<forall>tokens current. needs tokens current 15 \<le> n
        \<longrightarrow> call_parseMemberExpressionArgumentsList P tokens current \<noteq> OutOfFuel) \<and>
     (\<forall>tokens x y current. needs tokens current 14 \<le> n
        \<longrightarrow> call_parseMemberExpressionArgumentsList_loop P tokens x y current \<noteq> OutOfFuel) \<and>
     (\<forall>tokens current. needs tokens current 2 \<le> n
        \<longrightarrow> call_parseMemberExpression P tokens current \<noteq> OutOfFuel) \<and>
     (\<forall>tokens x current. needs tokens current 1 \<le> n
        \<longrightarrow> call_parseMemberExpression_loop P tokens x current \<noteq> OutOfFuel) \<and>
     (\<forall>tokens current. needs tokens current 6 \<le> n
        \<longrightarrow> call_parseMultiplicativeExpression P tokens current \<noteq> OutOfFuel) \<and>
     (\<forall>tokens x current. needs tokens current 1 \<le> n
        \<longrightarrow> call_parseMultiplicativeExpression_loop P tokens x current \<noteq> OutOfFuel) \<and>
     (\<forall>tokens current. needs tokens current 5 \<le> n
        \<longrightarrow> call_parseTestExpression P tokens current \<noteq> OutOfFuel) \<and>
     (\<forall>tokens x current. needs tokens current 1 \<le> n
        \<longrightarrow> call_parseTestExpression_loop P tokens x current \<noteq> OutOfFuel) \<and>
     (\<forall>tokens current. needs tokens current 4 \<le> n
        \<longrightarrow> call_parseFilterExpression P tokens current \<noteq> OutOfFuel) \<and>
     (\<forall>tokens x current. needs tokens current 1 \<le> n
        \<longrightarrow> call_parseFilterExpression_loop P tokens x current \<noteq> OutOfFuel) \<and>
     (\<forall>tokens current. needs tokens current 1 \<le> n
        \<longrightarrow> call_parsePrimaryExpression P tokens current \<noteq> OutOfFuel) \<and>
     (\<forall>tokens x current. needs tokens current 14 \<le> n
        \<longrightarrow> call_parsePrimaryExpression_array P tokens x current \<noteq> OutOfFuel) \<and>
     (\<forall>tokens x current. needs tokens current 14 \<le> n
        \<longrightarrow> call_parsePrimaryExpression_object P tokens x current \<noteq> OutOfFuel)"

section \<open>Tokens of the examples\<close>

text \<open>
  The examples are written as the token sequences that the templates lex to; a token
  of a fixed lexeme has a name, and \<open>tIdentifier v\<close>, \<open>tNumericLiteral v\<close>, ... carry
  their payload.
\<close>

abbreviation tOpenStatement :: token where "tOpenStatement \<equiv> Token ''{%'' T_OpenStatement"
abbreviation tCloseStatement :: token where "tCloseStatement \<equiv> Token ''%}'' T_CloseStatement"
abbreviation tOpenExpression :: token where "tOpenExpression \<equiv> Token ''{{'' T_OpenExpression"
abbreviation tCloseExpression :: token where "tCloseExpression \<equiv> Token ''}}'' T_CloseExpression"
abbreviation tIf :: token where "tIf \<equiv> Token ''if'' T_If"
abbreviation tElseIf :: token where "tElseIf \<equiv> Token ''elif'' T_ElseIf"
abbreviation tElse :: token where "tElse \<equiv> Token ''else'' T_Else"
abbreviation tEndIf :: token where "tEndIf \<equiv> Token ''endif'' T_EndIf"
abbreviation tFor :: token where "tFor \<equiv> Token ''for'' T_For"
abbreviation tIn :: token where "tIn \<equiv> Token ''in'' T_In"
abbreviation tEndFor :: token where "tEndFor \<equiv> Token ''endfor'' T_EndFor"
abbreviation tIs :: token where "tIs \<equiv> Token ''is'' T_Is"
abbreviation tNot :: token where "tNot \<equiv> Token ''not'' T_Not"
abbreviation tOpenParen :: token where "tOpenParen \<equiv> Token ''('' T_OpenParen"
abbreviation tCloseParen :: token where "tCloseParen \<equiv> Token '')'' T_CloseParen"
abbreviation tOpenSquareBracket :: token where "tOpenSquareBracket \<equiv> Token ''['' T_OpenSquareBracket"
abbreviation tCloseSquareBracket :: token where "tCloseSquareBracket \<equiv> Token '']'' T_CloseSquareBracket"
abbreviation tComma :: token where "tComma \<equiv> Token '','' T_Comma"
abbreviation tColon :: token where "tColon \<equiv> Token '':'' T_Colon"
abbreviation tDot :: token where "tDot \<equiv> Token ''.'' T_Dot"
abbreviation tIdentifier :: "string \<Rightarrow> token" where "tIdentifier v \<equiv> Token v T_Identifier"
abbreviation tNumericLiteral :: "string \<Rightarrow> token" where "tNumericLiteral v \<equiv> Token v T_NumericLiteral"
abbreviation tStringLiteral :: "string \<Rightarrow> token" where "tStringLiteral v \<equiv> Token v T_StringLiteral"
abbreviation tBooleanLiteral :: "string \<Rightarrow> token" where "tBooleanLiteral v \<equiv> Token v T_BooleanLiteral"
abbreviation tText :: "string \<Rightarrow> token" where "tText v \<equiv> Token v T_Text"
abbreviation tTimes :: token where "tTimes \<equiv> Token ''*'' T_MultiplicativeBinaryOperator"
abbreviation tEquals :: token where "tEquals \<equiv> Token ''='' T_Equals"
abbreviation tPipe :: token where "tPipe \<equiv> Token ''|'' T_Pipe"


abbreviation example_a_is_true :: "token list" where
  "example_a_is_true \<equiv>
     [tOpenExpression, tIdentifier ''a'', tIs, tBooleanLiteral ''true'', tCloseExpression]"


text \<open>
  The token sequence of \<open>{% if a %}X{% elif b %}Y{% else %}Z{% endif %}\<close>.
\<close>

abbreviation example_if_elif_else :: "token list" where
  "example_if_elif_else \<equiv>
     [tOpenStatement, tIf, tIdentifier ''a'', tCloseStatement, tText ''X'',
      tOpenStatement, tElseIf, tIdentifier ''b'', tCloseStatement, tText ''Y'',
      tOpenStatement, tElse, tCloseStatement, tText ''Z'',
      tOpenStatement, tEndIf, tCloseStatement]"

text \<open>
  The token sequences of \<open>{{ x[:2] }}\<close>, \<open>{{ x[1:] }}\<close>, \<open>{{ x[] }}\<close>, \<open>{{ x[1:2:3:4] }}\<close> and
  \<open>{{ x[1:2:3:] }}\<close>.
\<close>

abbreviation example_slice_from_start :: "token list" where
  "example_slice_from_start \<equiv>
     [tOpenExpression, tIdentifier ''x'', tOpenSquareBracket, tColon, tNumericLiteral ''2'',
      tCloseSquareBracket, tCloseExpression]"

abbreviation example_slice_to_end :: "token list" where
  "example_slice_to_end \<equiv>
     [tOpenExpression, tIdentifier ''x'', tOpenSquareBracket, tNumericLiteral ''1'', tColon,
      tCloseSquareBracket, tCloseExpression]"

abbreviation example_empty_index :: "token list" where
  "example_empty_index \<equiv>
     [tOpenExpression, tIdentifier ''x'', tOpenSquareBracket, tCloseSquareBracket,
      tCloseExpression]"

abbreviation example_four_components :: "token list" where
  "example_four_components \<equiv>
     [tOpenExpression, tIdentifier ''x'', tOpenSquareBracket, tNumericLiteral ''1'', tColon,
      tNumericLiteral ''2'', tColon, tNumericLiteral ''3'', tColon, tNumericLiteral ''4'',
      tCloseSquareBracket, tCloseExpression]"

abbreviation example_trailing_colon :: "token list" where
  "example_trailing_colon \<equiv>
     [tOpenExpression, tIdentifier ''x'', tOpenSquareBracket, tNumericLiteral ''1'', tColon,
      tNumericLiteral ''2'', tColon, tNumericLiteral ''3'', tColon,
      tCloseSquareBracket, tCloseExpression]"

text \<open>
  The token sequences of \<open>{{ f(a b) }}\<close>, \<open>{{ f(x = 1 y = 2) }}\<close> and \<open>{{ [1, 2] }}\<close>.
\<close>

abbreviation example_call_without_comma :: "token list" where
  "example_call_without_comma \<equiv>
     [tOpenExpression, tIdentifier ''f'', tOpenParen, tIdentifier ''a'', tIdentifier ''b'',
      tCloseParen, tCloseExpression]"

abbreviation example_keyword_arguments :: "token list" where
  "example_keyword_arguments \<equiv>
     [tOpenExpression, tIdentifier ''f'', tOpenParen, tIdentifier ''x'', tEquals,
      tNumericLiteral ''1'', tIdentifier ''y'', tEquals, tNumericLiteral ''2'',
      tCloseParen, tCloseExpression]"

abbreviation example_array_with_comma :: "token list" where
  "example_array_with_comma \<equiv>
     [tOpenExpression, tOpenSquareBracket, tNumericLiteral ''1'', tComma, tNumericLiteral ''2'',
      tCloseSquareBracket, tCloseExpression]"

section \<open>Evaluating the parser\<close>

lemma andThen_simps:
  "andThen (Return x) f = f x"
  "andThen (Throw e) f = Throw e"
  "andThen OutOfFuel f = OutOfFuel"
  by (simp_all add: andThen_def)

text \<open>
  With this congruence rule the simplifier evaluates the first computation of a
  sequence before it looks at the rest.
\<close>

lemma andThen_weak_cong: "m = m' \<Longrightarrow> andThen m f = andThen m' f"
  by simp

lemma call_unfold:
  "call_parseAny (unfold P) = parseAny P"
  "call_parseJinjaStatement (unfold P) = parseJinjaStatement P"
  "call_parseJinjaExpression (unfold P) = parseJinjaExpression P"
  "call_parseSetStatement (unfold P) = parseSetStatement P"
  "call_parseIfStatement (unfold P) = parseIfStatement P"
  "call_parseIfStatement_body (unfold P) = parseIfStatement_body P"
  "call_parseIfStatement_alternate (unfold P) = parseIfStatement_alternate P"
  "call_parseForStatement (unfold P) = parseForStatement P"
  "call_parseForStatement_body (unfold P) = parseForStatement_body P"
  "call_parseExpression (unfold P) = parseExpression P"
  "call_parseLogicalOrExpression (unfold P) = parseLogicalOrExpression P"
  "call_parseLogicalOrExpression_loop (unfold P) = parseLogicalOrExpression_loop P"
  "call_parseLogicalAndExpression (unfold P) = parseLogicalAndExpression P"
  "call_parseLogicalAndExpression_loop (unfold P) = parseLogicalAndExpression_loop P"
  "call_parseLogicalNegationExpression (unfold P) = parseLogicalNegationExpression P"
  "call_parseLogicalNegationExpression_loop (unfold P) = parseLogicalNegationExpression_loop P"
  "call_parseComparisonExpression (unfold P) = parseComparisonExpression P"
  "call_parseComparisonExpression_loop (unfold P) = parseComparisonExpression_loop P"
  "call_parseAdditiveExpression (unfold P) = parseAdditiveExpression P"
  "call_parseAdditiveExpression_loop (unfold P) = parseAdditiveExpression_loop P"
  "call_parseCallMemberExpression (unfold P) = parseCallMemberExpression P"
  "call_parseCallExpression (unfold P) = parseCallExpression P"
  "call_parseArgs (unfold P) = parseArgs P"
  "call_parseArgumentsList (unfold P) = parseArgumentsList P"
  "call_parseArgumentsList_loop (unfold P) = parseArgumentsList_loop P"
  "call_parseMemberExpressionArgumentsList (unfold P) = parseMemberExpressionArgumentsList P"
  "call_parseMemberExpressionArgumentsList_loop (unfold P) = parseMemberExpressionArgumentsList_loop P"
  "call_parseMemberExpression (unfold P) = parseMemberExpression P"
  "call_parseMemberExpression_loop (unfold P) = parseMemberExpression_loop P"
  "call_parseMultiplicativeExpression (unfold P) = parseMultiplicativeExpression P"
  "call_parseMultiplicativeExpression_loop (unfold P) = parseMultiplicativeExpression_loop P"
  "call_parseTestExpression (unfold P) = parseTestExpression P"
  "call_parseTestExpression_loop (unfold P) = parseTestExpression_loop P"
  "call_parseFilterExpression (unfold P) = parseFilterExpression P"
  "call_parseFilterExpression_loop (unfold P) = parseFilterExpression_loop P"
  "call_parsePrimaryExpression (unfold P) = parsePrimaryExpression P"
  "call_parsePrimaryExpression_array (unfold P) = parsePrimaryExpression_array P"
  "call_parsePrimaryExpression_object (unfold P) = parsePrimaryExpression_object P"
  by (simp_all add: unfold_def)

lemma call_out_of_fuel:
  "call_parseAny out_of_fuel tokens current = OutOfFuel"
  "call_parseJinjaStatement out_of_fuel tokens current = OutOfFuel"
  "call_parseJinjaExpression out_of_fuel tokens current = OutOfFuel"
  "call_parseSetStatement out_of_fuel tokens current = OutOfFuel"
  "call_parseIfStatement out_of_fuel tokens current = OutOfFuel"
  "call_parseIfStatement_body out_of_fuel tokens x6 current = OutOfFuel"
  "call_parseIfStatement_alternate out_of_fuel tokens x7 current = OutOfFuel"
  "call_parseForStatement out_of_fuel tokens current = OutOfFuel"
  "call_parseForStatement_body out_of_fuel tokens x9 current = OutOfFuel"
  "call_parseExpression out_of_fuel tokens current = OutOfFuel"
  "call_parseLogicalOrExpression out_of_fuel tokens current = OutOfFuel"
  "call_parseLogicalOrExpression_loop out_of_fuel tokens x12 current = OutOfFuel"
  "call_parseLogicalAndExpression out_of_fuel tokens current = OutOfFuel"
  "call_parseLogicalAndExpression_loop out_of_fuel tokens x14 current = OutOfFuel"
  "call_parseLogicalNegationExpression out_of_fuel tokens current = OutOfFuel"
  "call_parseLogicalNegationExpression_loop out_of_fuel tokens x16 current = OutOfFuel"
  "call_parseComparisonExpression out_of_fuel tokens current = OutOfFuel"
  "call_parseComparisonExpression_loop out_of_fuel tokens x18 current = OutOfFuel"
  "call_parseAdditiveExpression out_of_fuel tokens current = OutOfFuel"
  "call_parseAdditiveExpression_loop out_of_fuel tokens x20 current = OutOfFuel"
  "call_parseCallMemberExpression out_of_fuel tokens current = OutOfFuel"
  "call_parseCallExpression out_of_fuel tokens x22 current = OutOfFuel"
  "call_parseArgs out_of_fuel tokens current = OutOfFuel"
  "call_parseArgumentsList out_of_fuel tokens current = OutOfFuel"
  "call_parseArgumentsList_loop out_of_fuel tokens x25 current = OutOfFuel"
  "call_parseMemberExpressionArgumentsList out_of_fuel tokens current = OutOfFuel"
  "call_parseMemberExpressionArgumentsList_loop out_of_fuel tokens x27 y27 current = OutOfFuel"
  "call_parseMemberExpression out_of_fuel tokens current = OutOfFuel"
  "call_parseMemberExpression_loop out_of_fuel tokens x29 current = OutOfFuel"
  "call_parseMultiplicativeExpression out_of_fuel tokens current = OutOfFuel"
  "call_parseMultiplicativeExpression_loop out_of_fuel tokens x31 current = OutOfFuel"
  "call_parseTestExpression out_of_fuel tokens current = OutOfFuel"
  "call_parseTestExpression_loop out_of_fuel tokens x33 current = OutOfFuel"
  "call_parseFilterExpression out_of_fuel tokens current = OutOfFuel"
  "call_parseFilterExpression_loop out_of_fuel tokens x35 current = OutOfFuel"
  "call_parsePrimaryExpression out_of_fuel tokens current = OutOfFuel"
  "call_parsePrimaryExpression_array out_of_fuel tokens x37 current = OutOfFuel"
  "call_parsePrimaryExpression_object out_of_fuel tokens x38 current = OutOfFuel"
  by (simp_all add: out_of_fuel_def)

lemma call_fuel_Suc:
  "call_parseAny (fuel (Suc n)) = parseAny (fuel n)"
  "call_parseJinjaStatement (fuel (Suc n)) = parseJinjaStatement (fuel n)"
  "call_parseJinjaExpression (fuel (Suc n)) = parseJinjaExpression (fuel n)"
  "call_parseSetStatement (fuel (Suc n)) = parseSetStatement (fuel n)"
  "call_parseIfStatement (fuel (Suc n)) = parseIfStatement (fuel n)"
  "call_parseIfStatement_body (fuel (Suc n)) = parseIfStatement_body (fuel n)"
  "call_parseIfStatement_alternate (fuel (Suc n)) = parseIfStatement_alternate (fuel n)"
  "call_parseForStatement (fuel (Suc n)) = parseForStatement (fuel n)"
  "call_parseForStatement_body (fuel (Suc n)) = parseForStatement_body (fuel n)"
  "call_parseExpression (fuel (Suc n)) = parseExpression (fuel n)"
  "call_parseLogicalOrExpression (fuel (Suc n)) = parseLogicalOrExpression (fuel n)"
  "call_parseLogicalOrExpression_loop (fuel (Suc n)) = parseLogicalOrExpression_loop (fuel n)"
  "call_parseLogicalAndExpression (fuel (Suc n)) = parseLogicalAndExpression (fuel n)"
  "call_parseLogicalAndExpression_loop (fuel (Suc n)) = parseLogicalAndExpression_loop (fuel n)"
  "call_parseLogicalNegationExpression (fuel (Suc n)) = parseLogicalNegationExpression (fuel n)"
  "call_parseLogicalNegationExpression_loop (fuel (Suc n)) = parseLogicalNegationExpression_loop (fuel n)"
  "call_parseComparisonExpression (fuel (Suc n)) = parseComparisonExpression (fuel n)"
  "call_parseComparisonExpression_loop (fuel (Suc n)) = parseComparisonExpression_loop (fuel n)"
  "call_parseAdditiveExpression (fuel (Suc n)) = parseAdditiveExpression (fuel n)"
  "call_parseAdditiveExpression_loop (fuel (Suc n)) = parseAdditiveExpression_loop (fuel n)"
  "call_parseCallMemberExpression (fuel (Suc n)) = parseCallMemberExpression (fuel n)"
  "call_parseCallExpression (fuel (Suc n)) = parseCallExpression (fuel n)"
  "call_parseArgs (fuel (Suc n)) = parseArgs (fuel n)"
  "call_parseArgumentsList (fuel (Suc n)) = parseArgumentsList (fuel n)"
  "call_parseArgumentsList_loop (fuel (Suc n)) = parseArgumentsList_loop (fuel n)"
  "call_parseMemberExpressionArgumentsList (fuel (Suc n)) = parseMemberExpressionArgumentsList (fuel n)"
  "call_parseMemberExpressionArgumentsList_loop (fuel (Suc n)) = parseMemberExpressionArgumentsList_loop (fuel n)"
  "call_parseMemberExpression (fuel (Suc n)) = parseMemberExpression (fuel n)"
  "call_parseMemberExpression_loop (fuel (Suc n)) = parseMemberExpression_loop (fuel n)"
  "call_parseMultiplicativeExpression (fuel (Suc n)) = parseMultiplicativeExpression (fuel n)"
  "call_parseMultiplicativeExpression_loop (fuel (Suc n)) = parseMultiplicativeExpression_loop (fuel n)"
  "call_parseTestExpression (fuel (Suc n)) = parseTestExpression (fuel n)"
  "call_parseTestExpression_loop (fuel (Suc n)) = parseTestExpression_loop (fuel n)"
  "call_parseFilterExpression (fuel (Suc n)) = parseFilterExpression (fuel n)"
  "call_parseFilterExpression_loop (fuel (Suc n)) = parseFilterExpression_loop (fuel n)"
  "call_parsePrimaryExpression (fuel (Suc n)) = parsePrimaryExpression (fuel n)"
  "call_parsePrimaryExpression_array (fuel (Suc n)) = parsePrimaryExpression_array (fuel n)"
  "call_parsePrimaryExpression_object (fuel (Suc n)) = parsePrimaryExpression_object (fuel n)"
  by (simp_all add: call_unfold)

lemma fuel_numeral: "fuel (numeral k) = unfold (fuel (pred_numeral k))"
  by (simp add: numeral_eq_Suc)

lemma fuel_numeral_add: "fuel (numeral k + n) = unfold (fuel (pred_numeral k + n))"
  by (simp add: numeral_eq_Suc)

lemma fuel_Suc_add: "fuel (Suc m + n) = unfold (fuel (m + n))"
  by simp

lemma parse_loop_numeral:
  "parse_loop (numeral k) tokens body current =
     (if current < length tokens then
        andThen (parseAny (fuel (pred_numeral k)) tokens current) (\<lambda>(s, current).
        parse_loop (pred_numeral k) tokens (body @ [s]) current)
      else Return (Program body))"
  by (simp add: numeral_eq_Suc)

lemma parse_loop_numeral_add:
  "parse_loop (numeral k + n) tokens body current =
     (if current < length tokens then
        andThen (parseAny (fuel (pred_numeral k + n)) tokens current) (\<lambda>(s, current).
        parse_loop (pred_numeral k + n) tokens (body @ [s]) current)
      else Return (Program body))"
  by (simp add: numeral_eq_Suc)

lemmas parser_defs =
  parseAny_def parseJinjaStatement_def parseJinjaExpression_def parseSetStatement_def
  parseIfStatement_def parseIfStatement_body_def parseIfStatement_alternate_def
  parseForStatement_def parseForStatement_body_def parseExpression_def
  parseLogicalOrExpression_def parseLogicalOrExpression_loop_def parseLogicalAndExpression_def
  parseLogicalAndExpression_loop_def parseLogicalNegationExpression_def
  parseLogicalNegationExpression_loop_def parseComparisonExpression_def
  parseComparisonExpression_loop_def parseAdditiveExpression_def
  parseAdditiveExpression_loop_def parseCallMemberExpression_def parseCallExpression_def
  parseArgs_def parseArgumentsList_def parseArgumentsList_loop_def
  parseMemberExpressionArgumentsList_def parseMemberExpressionArgumentsList_loop_def
  parseMemberExpression_def parseMemberExpression_loop_def parseMultiplicativeExpression_def
  parseMultiplicativeExpression_loop_def parseTestExpression_def parseTestExpression_loop_def
  parseFilterExpression_def parseFilterExpression_loop_def parsePrimaryExpression_def
  parsePrimaryExpression_array_def parsePrimaryExpression_object_def

lemmas cursor_defs =
  parseText_def expect_def token_at_def type_at_def is_at_def not_at_def spread_arg_def
  Map_set_def

lemmas eval_simps =
  parse_def parse_loop_numeral parse_loop_numeral_add fuel_numeral fuel_numeral_add
  call_unfold call_out_of_fuel parser_defs andThen_simps cursor_defs

section \<open>Monotonicity in the fuel\<close>

lemma le_result_refl: "le_result r r"
  by (simp add: le_result_def)

lemma le_result_trans: "le_result a b \<Longrightarrow> le_result b c \<Longrightarrow> le_result a c"
  by (auto simp: le_result_def)

lemma le_resultD: "le_result r r' \<Longrightarrow> r \<noteq> OutOfFuel \<Longrightarrow> r' = r"
  by (auto simp: le_result_def)

lemma le_andThen:
  "le_result m m' \<Longrightarrow> (\<And>x. le_result (f x) (f' x))
   \<Longrightarrow> le_result (andThen m f) (andThen m' f')"
  by (auto simp: le_result_def andThen_def split: result.splits)

lemma le_if:
  "(c \<Longrightarrow> le_result a a') \<Longrightarrow> (\<not> c \<Longrightarrow> le_result b b')
   \<Longrightarrow> le_result (if c then a else b) (if c then a' else b')"
  by simp

lemma le_case_option:
  "le_result a a' \<Longrightarrow> (\<And>x. le_result (f x) (f' x))
   \<Longrightarrow> le_result (case_option a f v) (case_option a' f' v)"
  by (cases v) simp_all

lemma le_case_prod:
  "(\<And>a b. le_result (f a b) (f' a b)) \<Longrightarrow> le_result (case_prod f p) (case_prod f' p)"
  by (cases p) simp

lemmas le_rules = le_andThen le_if le_case_option le_case_prod le_result_refl

lemma le_parsersD:
  assumes "le_parsers P Q"
  shows
    "le_result (call_parseAny P tokens current) (call_parseAny Q tokens current)"
    "le_result (call_parseJinjaStatement P tokens current) (call_parseJinjaStatement Q tokens current)"
    "le_result (call_parseJinjaExpression P tokens current) (call_parseJinjaExpression Q tokens current)"
    "le_result (call_parseSetStatement P tokens current) (call_parseSetStatement Q tokens current)"
    "le_result (call_parseIfStatement P tokens current) (call_parseIfStatement Q tokens current)"
    "le_result (call_parseIfStatement_body P tokens x6 current) (call_parseIfStatement_body Q tokens x6 current)"
    "le_result (call_parseIfStatement_alternate P tokens x7 current) (call_parseIfStatement_alternate Q tokens x7 current)"
    "le_result (call_parseForStatement P tokens current) (call_parseForStatement Q tokens current)"
    "le_result (call_parseForStatement_body P tokens x9 current) (call_parseForStatement_body Q tokens x9 current)"
    "le_result (call_parseExpression P tokens current) (call_parseExpression Q tokens current)"
    "le_result (call_parseLogicalOrExpression P tokens current) (call_parseLogicalOrExpression Q tokens current)"
    "le_result (call_parseLogicalOrExpression_loop P tokens x12 current) (call_parseLogicalOrExpression_loop Q tokens x12 current)"
    "le_result (call_parseLogicalAndExpression P tokens current) (call_parseLogicalAndExpression Q tokens current)"
    "le_result (call_parseLogicalAndExpression_loop P tokens x14 current) (call_parseLogicalAndExpression_loop Q tokens x14 current)"
    "le_result (call_parseLogicalNegationExpression P tokens current) (call_parseLogicalNegationExpression Q tokens current)"
    "le_result (call_parseLogicalNegationExpression_loop P tokens x16 current) (call_parseLogicalNegationExpression_loop Q tokens x16 current)"
    "le_result (call_parseComparisonExpression P tokens current) (call_parseComparisonExpression Q tokens current)"
    "le_result (call_parseComparisonExpression_loop P tokens x18 current) (call_parseComparisonExpression_loop Q tokens x18 current)"
    "le_result (call_parseAdditiveExpression P tokens current) (call_parseAdditiveExpression Q tokens current)"
    "le_result (call_parseAdditiveExpression_loop P tokens x20 current) (call_parseAdditiveExpression_loop Q tokens x20 current)"
    "le_result (call_parseCallMemberExpression P tokens current) (call_parseCallMemberExpression Q tokens current)"
    "le_result (call_parseCallExpression P tokens x22 current) (call_parseCallExpression Q tokens x22 current)"
    "le_result (call_parseArgs P tokens current) (call_parseArgs Q tokens current)"
    "le_result (call_parseArgumentsList P tokens current) (call_parseArgumentsList Q tokens current)"
    "le_result (call_parseArgumentsList_loop P tokens x25 current) (call_parseArgumentsList_loop Q tokens x25 current)"
    "le_result (call_parseMemberExpressionArgumentsList P tokens current) (call_parseMemberExpressionArgumentsList Q tokens current)"
    "le_result (call_parseMemberExpressionArgumentsList_loop P tokens x27 y27 current) (call_parseMemberExpressionArgumentsList_loop Q tokens x27 y27 current)"
    "le_result (call_parseMemberExpression P tokens current) (call_parseMemberExpression Q tokens current)"
    "le_result (call_parseMemberExpression_loop P tokens x29 current) (call_parseMemberExpression_loop Q tokens x29 current)"
    "le_result (call_parseMultiplicativeExpression P tokens current) (call_parseMultiplicativeExpression Q tokens current)"
    "le_result (call_parseMultiplicativeExpression_loop P tokens x31 current) (call_parseMultiplicativeExpression_loop Q tokens x31 current)"
    "le_result (call_parseTestExpression P tokens current) (call_parseTestExpression Q tokens current)"
    "le_result (call_parseTestExpression_loop P tokens x33 current) (call_parseTestExpression_loop Q tokens x33 current)"
    "le_result (call_parseFilterExpression P tokens current) (call_parseFilterExpression Q tokens current)"
    "le_result (call_parseFilterExpression_loop P tokens x35 current) (call_parseFilterExpression_loop Q tokens x35 current)"
    "le_result (call_parsePrimaryExpression P tokens current) (call_parsePrimaryExpression Q tokens current)"
    "le_result (call_parsePrimaryExpression_array P tokens x37 current) (call_parsePrimaryExpression_array Q tokens x37 current)"
    "le_result (call_parsePrimaryExpression_object P tokens x38 current) (call_parsePrimaryExpression_object Q tokens x38 current)"
  using assms by (simp_all add: le_parsers_def)

text \<open>The body of every parse function is monotone in the table of its callees.\<close>

lemma parseAny_mono:
  assumes "le_parsers P Q"
  shows "le_result (parseAny P tokens current) (parseAny Q tokens current)"
  unfolding parseAny_def
  by (intro le_rules le_parsersD [OF assms])

lemma parseJinjaStatement_mono:
  assumes "le_parsers P Q"
  shows "le_result (parseJinjaStatement P tokens current) (parseJinjaStatement Q tokens current)"
  unfolding parseJinjaStatement_def
  by (intro le_rules le_parsersD [OF assms])

lemma parseJinjaExpression_mono:
  assumes "le_parsers P Q"
  shows "le_result (parseJinjaExpression P tokens current) (parseJinjaExpression Q tokens current)"
  unfolding parseJinjaExpression_def
  by (intro le_rules le_parsersD [OF assms])

lemma parseSetStatement_mono:
  assumes "le_parsers P Q"
  shows "le_result (parseSetStatement P tokens current) (parseSetStatement Q tokens current)"
  unfolding parseSetStatement_def
  by (intro le_rules le_parsersD [OF assms])

lemma parseIfStatement_mono:
  assumes "le_parsers P Q"
  shows "le_result (parseIfStatement P tokens current) (parseIfStatement Q tokens current)"
  unfolding parseIfStatement_def
  by (intro le_rules le_parsersD [OF assms])

lemma parseIfStatement_body_mono:
  assumes "le_parsers P Q"
  shows "le_result (parseIfStatement_body P tokens x current) (parseIfStatement_body Q tokens x current)"
  unfolding parseIfStatement_body_def
  by (intro le_rules le_parsersD [OF assms])

lemma parseIfStatement_alternate_mono:
  assumes "le_parsers P Q"
  shows "le_result (parseIfStatement_alternate P tokens x current) (parseIfStatement_alternate Q tokens x current)"
  unfolding parseIfStatement_alternate_def
  by (intro le_rules le_parsersD [OF assms])

lemma parseForStatement_mono:
  assumes "le_parsers P Q"
  shows "le_result (parseForStatement P tokens current) (parseForStatement Q tokens current)"
  unfolding parseForStatement_def
  by (intro le_rules le_parsersD [OF assms])

lemma parseForStatement_body_mono:
  assumes "le_parsers P Q"
  shows "le_result (parseForStatement_body P tokens x current) (parseForStatement_body Q tokens x current)"
  unfolding parseForStatement_body_def
  by (intro le_rules le_parsersD [OF assms])

lemma parseExpression_mono:
  assumes "le_parsers P Q"
  shows "le_result (parseExpression P tokens current) (parseExpression Q tokens current)"
  unfolding parseExpression_def
  by (intro le_rules le_parsersD [OF assms])

lemma parseLogicalOrExpression_mono:
  assumes "le_parsers P Q"
  shows "le_result (parseLogicalOrExpression P tokens current) (parseLogicalOrExpression Q tokens current)"
  unfolding parseLogicalOrExpression_def
  by (intro le_rules le_parsersD [OF assms])

lemma parseLogicalOrExpression_loop_mono:
  assumes "le_parsers P Q"
  shows "le_result (parseLogicalOrExpression_loop P tokens x current) (parseLogicalOrExpression_loop Q tokens x current)"
  unfolding parseLogicalOrExpression_loop_def
  by (intro le_rules le_parsersD [OF assms])

lemma parseLogicalAndExpression_mono:
  assumes "le_parsers P Q"
  shows "le_result (parseLogicalAndExpression P tokens current) (parseLogicalAndExpression Q tokens current)"
  unfolding parseLogicalAndExpression_def
  by (intro le_rules le_parsersD [OF assms])

lemma parseLogicalAndExpression_loop_mono:
  assumes "le_parsers P Q"
  shows "le_result (parseLogicalAndExpression_loop P tokens x current) (parseLogicalAndExpression_loop Q tokens x current)"
  unfolding parseLogicalAndExpression_loop_def
  by (intro le_rules le_parsersD [OF assms])

lemma parseLogicalNegationExpression_mono:
  assumes "le_parsers P Q"
  shows "le_result (parseLogicalNegationExpression P tokens current) (parseLogicalNegationExpression Q tokens current)"
  unfolding parseLogicalNegationExpression_def
  by (intro le_rules le_parsersD [OF assms])

lemma parseLogicalNegationExpression_loop_mono:
  assumes "le_parsers P Q"
  shows "le_result (parseLogicalNegationExpression_loop P tokens x current) (parseLogicalNegationExpression_loop Q tokens x current)"
  unfolding parseLogicalNegationExpression_loop_def
  by (intro le_rules le_parsersD [OF assms])

lemma parseComparisonExpression_mono:
  assumes "le_parsers P Q"
  shows "le_result (parseComparisonExpression P tokens current) (parseComparisonExpression Q tokens current)"
  unfolding parseComparisonExpression_def
  by (intro le_rules le_parsersD [OF assms])

lemma parseComparisonExpression_loop_mono:
  assumes "le_parsers P Q"
  shows "le_result (parseComparisonExpression_loop P tokens x current) (parseComparisonExpression_loop Q tokens x current)"
  unfolding parseComparisonExpression_loop_def
  by (intro le_rules le_parsersD [OF assms])

lemma parseAdditiveExpression_mono:
  assumes "le_parsers P Q"
  shows "le_result (parseAdditiveExpression P tokens current) (parseAdditiveExpression Q tokens current)"
  unfolding parseAdditiveExpression_def
  by (intro le_rules le_parsersD [OF assms])

lemma parseAdditiveExpression_loop_mono:
  assumes "le_parsers P Q"
  shows "le_result (parseAdditiveExpression_loop P tokens x current) (parseAdditiveExpression_loop Q tokens x current)"
  unfolding parseAdditiveExpression_loop_def
  by (intro le_rules le_parsersD [OF assms])

lemma parseCallMemberExpression_mono:
  assumes "le_parsers P Q"
  shows "le_result (parseCallMemberExpression P tokens current) (parseCallMemberExpression Q tokens current)"
  unfolding parseCallMemberExpression_def
  by (intro le_rules le_parsersD [OF assms])

lemma parseCallExpression_mono:
  assumes "le_parsers P Q"
  shows "le_result (parseCallExpression P tokens x current) (parseCallExpression Q tokens x current)"
  unfolding parseCallExpression_def
  by (intro le_rules le_parsersD [OF assms])

lemma parseArgs_mono:
  assumes "le_parsers P Q"
  shows "le_result (parseArgs P tokens current) (parseArgs Q tokens current)"
  unfolding parseArgs_def
  by (intro le_rules le_parsersD [OF assms])

lemma parseArgumentsList_mono:
  assumes "le_parsers P Q"
  shows "le_result (parseArgumentsList P tokens current) (parseArgumentsList Q tokens current)"
  unfolding parseArgumentsList_def
  by (intro le_rules le_parsersD [OF assms])

lemma parseArgumentsList_loop_mono:
  assumes "le_parsers P Q"
  shows "le_result (parseArgumentsList_loop P tokens x current) (parseArgumentsList_loop Q tokens x current)"
  unfolding parseArgumentsList_loop_def
  by (intro le_rules le_parsersD [OF assms])

lemma parseMemberExpressionArgumentsList_mono:
  assumes "le_parsers P Q"
  shows "le_result (parseMemberExpressionArgumentsList P tokens current) (parseMemberExpressionArgumentsList Q tokens current)"
  unfolding parseMemberExpressionArgumentsList_def
  by (intro le_rules le_parsersD [OF assms])

lemma parseMemberExpressionArgumentsList_loop_mono:
  assumes "le_parsers P Q"
  shows "le_result (parseMemberExpressionArgumentsList_loop P tokens x y current) (parseMemberExpressionArgumentsList_loop Q tokens x y current)"
  unfolding parseMemberExpressionArgumentsList_loop_def
  by (intro le_rules le_parsersD [OF assms])

lemma parseMemberExpression_mono:
  assumes "le_parsers P Q"
  shows "le_result (parseMemberExpression P tokens current) (parseMemberExpression Q tokens current)"
  unfolding parseMemberExpression_def
  by (intro le_rules le_parsersD [OF assms])

lemma parseMemberExpression_loop_mono:
  assumes "le_parsers P Q"
  shows "le_result (parseMemberExpression_loop P tokens x current) (parseMemberExpression_loop Q tokens x current)"
  unfolding parseMemberExpression_loop_def
  by (intro le_rules le_parsersD [OF assms])

lemma parseMultiplicativeExpression_mono:
  assumes "le_parsers P Q"
  shows "le_result (parseMultiplicativeExpression P tokens current) (parseMultiplicativeExpression Q tokens current)"
  unfolding parseMultiplicativeExpression_def
  by (intro le_rules le_parsersD [OF assms])

lemma parseMultiplicativeExpression_loop_mono:
  assumes "le_parsers P Q"
  shows "le_result (parseMultiplicativeExpression_loop P tokens x current) (parseMultiplicativeExpression_loop Q tokens x current)"
  unfolding parseMultiplicativeExpression_loop_def
  by (intro le_rules le_parsersD [OF assms])

lemma parseTestExpression_mono:
  assumes "le_parsers P Q"
  shows "le_result (parseTestExpression P tokens current) (parseTestExpression Q tokens current)"
  unfolding parseTestExpression_def
  by (intro le_rules le_parsersD [OF assms])

lemma parseTestExpression_loop_mono:
  assumes "le_parsers P Q"
  shows "le_result (parseTestExpression_loop P tokens x current) (parseTestExpression_loop Q tokens x current)"
  unfolding parseTestExpression_loop_def
  by (intro le_rules le_parsersD [OF assms])

lemma parseFilterExpression_mono:
  assumes "le_parsers P Q"
  shows "le_result (parseFilterExpression P tokens current) (parseFilterExpression Q tokens current)"
  unfolding parseFilterExpression_def
  by (intro le_rules le_parsersD [OF assms])

lemma parseFilterExpression_loop_mono:
  assumes "le_parsers P Q"
  shows "le_result (parseFilterExpression_loop P tokens x current) (parseFilterExpression_loop Q tokens x current)"
  unfolding parseFilterExpression_loop_def
  by (intro le_rules le_parsersD [OF assms])

lemma parsePrimaryExpression_mono:
  assumes "le_parsers P Q"
  shows "le_result (parsePrimaryExpression P tokens current) (parsePrimaryExpression Q tokens current)"
  unfolding parsePrimaryExpression_def
  by (intro le_rules le_parsersD [OF assms])

lemma parsePrimaryExpression_array_mono:
  assumes "le_parsers P Q"
  shows "le_result (parsePrimaryExpression_array P tokens x current) (parsePrimaryExpression_array Q tokens x current)"
  unfolding parsePrimaryExpression_array_def
  by (intro le_rules le_parsersD [OF assms])

lemma parsePrimaryExpression_object_mono:
  assumes "le_parsers P Q"
  shows "le_result (parsePrimaryExpression_object P tokens x current) (parsePrimaryExpression_object Q tokens x current)"
  unfolding parsePrimaryExpression_object_def
  by (intro le_rules le_parsersD [OF assms])


lemmas body_mono =
  parseAny_mono parseJinjaStatement_mono parseJinjaExpression_mono parseSetStatement_mono
  parseIfStatement_mono parseIfStatement_body_mono parseIfStatement_alternate_mono
  parseForStatement_mono parseForStatement_body_mono parseExpression_mono
  parseLogicalOrExpression_mono parseLogicalOrExpression_loop_mono
  parseLogicalAndExpression_mono parseLogicalAndExpression_loop_mono
  parseLogicalNegationExpression_mono parseLogicalNegationExpression_loop_mono
  parseComparisonExpression_mono parseComparisonExpression_loop_mono
  parseAdditiveExpression_mono parseAdditiveExpression_loop_mono
  parseCallMemberExpression_mono parseCallExpression_mono parseArgs_mono
  parseArgumentsList_mono parseArgumentsList_loop_mono parseMemberExpressionArgumentsList_mono
  parseMemberExpressionArgumentsList_loop_mono parseMemberExpression_mono
  parseMemberExpression_loop_mono parseMultiplicativeExpression_mono
  parseMultiplicativeExpression_loop_mono parseTestExpression_mono
  parseTestExpression_loop_mono parseFilterExpression_mono parseFilterExpression_loop_mono
  parsePrimaryExpression_mono parsePrimaryExpression_array_mono
  parsePrimaryExpression_object_mono

lemma unfold_mono:
  assumes "le_parsers P Q"
  shows "le_parsers (unfold P) (unfold Q)"
  unfolding le_parsers_def [of "unfold P" "unfold Q"] call_unfold
  by (intro conjI allI body_mono [OF assms])

lemma out_of_fuel_least: "le_parsers out_of_fuel Q"
  by (simp add: le_parsers_def call_out_of_fuel le_result_def)

lemma fuel_add_mono: "le_parsers (fuel n) (fuel (n + k))"
proof (induction n)
  case 0
  show ?case by (simp add: out_of_fuel_least)
next
  case (Suc n)
  then show ?case by (simp add: unfold_mono)
qed

lemma fuel_mono: "n \<le> m \<Longrightarrow> le_parsers (fuel n) (fuel m)"
  using fuel_add_mono [of n "m - n"] by simp

lemma parse_loop_add_mono:
  "le_result (parse_loop n tokens body current) (parse_loop (n + k) tokens body current)"
proof (induction n arbitrary: body current)
  case 0
  show ?case by (simp add: le_result_def)
next
  case (Suc n)
  show ?case
    unfolding add_Suc parse_loop.simps
    by (intro le_rules parseAny_mono fuel_add_mono Suc.IH)
qed

lemma parse_mono:
  assumes "parse n tokens = r" and "r \<noteq> OutOfFuel" and "n \<le> m"
  shows "parse m tokens = r"
proof -
  have "le_result (parse n tokens) (parse (n + (m - n)) tokens)"
    unfolding parse_def by (rule parse_loop_add_mono)
  with assms show ?thesis by (auto dest: le_resultD)
qed

lemmas eval_cong = andThen_weak_cong old.prod.case_cong_weak

section \<open>The parser never reports a missing \<open>endif\<close>\<close>

text \<open>
  \<open>parseIfStatement\<close> returns only with the cursor on \<open>{%\<close> \<open>endif\<close>, so the two calls
  \<open>expect(OpenStatement)\<close> and \<open>expect(EndIf)\<close> that follow it in
  \<open>parseJinjaStatement\<close> cannot fail, and no other call of \<open>expect\<close> asks for \<open>endif\<close>.
\<close>

lemma ne_Return: "no_endif_error (Return x)"
  by (simp add: no_endif_error_def)

lemma ne_Throw: "\<not> ExpectedToken T_EndIf e \<Longrightarrow> no_endif_error (Throw e)"
  by (simp add: no_endif_error_def)

lemma ne_andThen:
  "no_endif_error m \<Longrightarrow> (\<And>x. m = Return x \<Longrightarrow> no_endif_error (f x))
   \<Longrightarrow> no_endif_error (andThen m f)"
  by (auto simp: no_endif_error_def andThen_def split: result.splits)

lemma ne_if:
  "(c \<Longrightarrow> no_endif_error a) \<Longrightarrow> (\<not> c \<Longrightarrow> no_endif_error b)
   \<Longrightarrow> no_endif_error (if c then a else b)"
  by simp

lemma ne_case_option:
  "(v = None \<Longrightarrow> no_endif_error a) \<Longrightarrow> (\<And>x. v = Some x \<Longrightarrow> no_endif_error (f x))
   \<Longrightarrow> no_endif_error (case_option a f v)"
  by (cases v) simp_all

lemma ne_case_prod:
  "(\<And>a b. p = (a, b) \<Longrightarrow> no_endif_error (f a b)) \<Longrightarrow> no_endif_error (case_prod f p)"
  by (cases p) simp

lemma ne_expect:
  "type \<noteq> T_EndIf \<Longrightarrow> no_endif_error (expect tokens current type err)"
  by (simp add: no_endif_error_def expect_def split: option.splits)

lemma ne_parseText: "no_endif_error (parseText tokens current)"
  by (simp add: parseText_def no_endif_error_def expect_def andThen_def split: option.splits)

lemma ne_case_statement:
  "no_endif_error (case e of BooleanLiteral b \<Rightarrow> Return (g b) | _ \<Rightarrow> Return e)"
  by (cases e) (simp_all add: ne_Return)

lemmas ne_rules = ne_andThen ne_if ne_case_option ne_case_prod ne_Return ne_Throw ne_parseText
  ne_case_statement

lemma endif_invD:
  assumes "endif_inv P"
  shows
    "no_endif_error (call_parseAny P tokens current)"
    "no_endif_error (call_parseJinjaStatement P tokens current)"
    "no_endif_error (call_parseJinjaExpression P tokens current)"
    "no_endif_error (call_parseSetStatement P tokens current)"
    "no_endif_error (call_parseIfStatement P tokens current)"
    "no_endif_error (call_parseIfStatement_body P tokens x6 current)"
    "no_endif_error (call_parseIfStatement_alternate P tokens x7 current)"
    "no_endif_error (call_parseForStatement P tokens current)"
    "no_endif_error (call_parseForStatement_body P tokens x9 current)"
    "no_endif_error (call_parseExpression P tokens current)"
    "no_endif_error (call_parseLogicalOrExpression P tokens current)"
    "no_endif_error (call_parseLogicalOrExpression_loop P tokens x12 current)"
    "no_endif_error (call_parseLogicalAndExpression P tokens current)"
    "no_endif_error (call_parseLogicalAndExpression_loop P tokens x14 current)"
    "no_endif_error (call_parseLogicalNegationExpression P tokens current)"
    "no_endif_error (call_parseLogicalNegationExpression_loop P tokens x16 current)"
    "no_endif_error (call_parseComparisonExpression P tokens current)"
    "no_endif_error (call_parseComparisonExpression_loop P tokens x18 current)"
    "no_endif_error (call_parseAdditiveExpression P tokens current)"
    "no_endif_error (call_parseAdditiveExpression_loop P tokens x20 current)"
    "no_endif_error (call_parseCallMemberExpression P tokens current)"
    "no_endif_error (call_parseCallExpression P tokens x22 current)"
    "no_endif_error (call_parseArgs P tokens current)"
    "no_endif_error (call_parseArgumentsList P tokens current)"
    "no_endif_error (call_parseArgumentsList_loop P tokens x25 current)"
    "no_endif_error (call_parseMemberExpressionArgumentsList P tokens current)"
    "no_endif_error (call_parseMemberExpressionArgumentsList_loop P tokens x27 y27 current)"
    "no_endif_error (call_parseMemberExpression P tokens current)"
    "no_endif_error (call_parseMemberExpression_loop P tokens x29 current)"
    "no_endif_error (call_parseMultiplicativeExpression P tokens current)"
    "no_endif_error (call_parseMultiplicativeExpression_loop P tokens x31 current)"
    "no_endif_error (call_parseTestExpression P tokens current)"
    "no_endif_error (call_parseTestExpression_loop P tokens x33 current)"
    "no_endif_error (call_parseFilterExpression P tokens current)"
    "no_endif_error (call_parseFilterExpression_loop P tokens x35 current)"
    "no_endif_error (call_parsePrimaryExpression P tokens current)"
    "no_endif_error (call_parsePrimaryExpression_array P tokens x37 current)"
    "no_endif_error (call_parsePrimaryExpression_object P tokens x38 current)"
  using assms by (simp_all add: endif_inv_def)

lemma endif_inv_post:
  assumes "endif_inv P"
  shows "call_parseIfStatement P tokens current = Return (s, c) \<Longrightarrow> at_endif tokens c"
    and "call_parseIfStatement_alternate P tokens x current = Return (s', c') \<Longrightarrow> at_endif tokens c'"
    and "call_parseIfStatement_body P tokens y current = Return (s'', c'')
         \<Longrightarrow> at_branch_end tokens c''"
  using assms by (simp_all add: endif_inv_def)

lemma parseAny_no_endif_error:
  assumes "endif_inv P"
  shows "no_endif_error (parseAny P tokens current)"
  unfolding parseAny_def
  by (intro ne_rules endif_invD [OF assms]; simp add: ne_expect)

lemma parseJinjaExpression_no_endif_error:
  assumes "endif_inv P"
  shows "no_endif_error (parseJinjaExpression P tokens current)"
  unfolding parseJinjaExpression_def
  by (intro ne_rules endif_invD [OF assms]; simp add: ne_expect)

lemma parseSetStatement_no_endif_error:
  assumes "endif_inv P"
  shows "no_endif_error (parseSetStatement P tokens current)"
  unfolding parseSetStatement_def
  by (intro ne_rules endif_invD [OF assms]; simp add: ne_expect)

lemma parseIfStatement_no_endif_error:
  assumes "endif_inv P"
  shows "no_endif_error (parseIfStatement P tokens current)"
  unfolding parseIfStatement_def
  by (intro ne_rules endif_invD [OF assms]; simp add: ne_expect)

lemma parseIfStatement_body_no_endif_error:
  assumes "endif_inv P"
  shows "no_endif_error (parseIfStatement_body P tokens x current)"
  unfolding parseIfStatement_body_def
  by (intro ne_rules endif_invD [OF assms]; simp add: ne_expect)

lemma parseIfStatement_alternate_no_endif_error:
  assumes "endif_inv P"
  shows "no_endif_error (parseIfStatement_alternate P tokens x current)"
  unfolding parseIfStatement_alternate_def
  by (intro ne_rules endif_invD [OF assms]; simp add: ne_expect)

lemma parseForStatement_no_endif_error:
  assumes "endif_inv P"
  shows "no_endif_error (parseForStatement P tokens current)"
  unfolding parseForStatement_def
  by (intro ne_rules endif_invD [OF assms]; simp add: ne_expect)

lemma parseForStatement_body_no_endif_error:
  assumes "endif_inv P"
  shows "no_endif_error (parseForStatement_body P tokens x current)"
  unfolding parseForStatement_body_def
  by (intro ne_rules endif_invD [OF assms]; simp add: ne_expect)

lemma parseExpression_no_endif_error:
  assumes "endif_inv P"
  shows "no_endif_error (parseExpression P tokens current)"
  unfolding parseExpression_def
  by (intro ne_rules endif_invD [OF assms]; simp add: ne_expect)

lemma parseLogicalOrExpression_no_endif_error:
  assumes "endif_inv P"
  shows "no_endif_error (parseLogicalOrExpression P tokens current)"
  unfolding parseLogicalOrExpression_def
  by (intro ne_rules endif_invD [OF assms]; simp add: ne_expect)

lemma parseLogicalOrExpression_loop_no_endif_error:
  assumes "endif_inv P"
  shows "no_endif_error (parseLogicalOrExpression_loop P tokens x current)"
  unfolding parseLogicalOrExpression_loop_def
  by (intro ne_rules endif_invD [OF assms]; simp add: ne_expect)

lemma parseLogicalAndExpression_no_endif_error:
  assumes "endif_inv P"
  shows "no_endif_error (parseLogicalAndExpression P tokens current)"
  unfolding parseLogicalAndExpression_def
  by (intro ne_rules endif_invD [OF assms]; simp add: ne_expect)

lemma parseLogicalAndExpression_loop_no_endif_error:
  assumes "endif_inv P"
  shows "no_endif_error (parseLogicalAndExpression_loop P tokens x current)"
  unfolding parseLogicalAndExpression_loop_def
  by (intro ne_rules endif_invD [OF assms]; simp add: ne_expect)

lemma parseLogicalNegationExpression_no_endif_error:
  assumes "endif_inv P"
  shows "no_endif_error (parseLogicalNegationExpression P tokens current)"
  unfolding parseLogicalNegationExpression_def
  by (intro ne_rules endif_invD [OF assms]; simp add: ne_expect)

lemma parseLogicalNegationExpression_loop_no_endif_error:
  assumes "endif_inv P"
  shows "no_endif_error (parseLogicalNegationExpression_loop P tokens x current)"
  unfolding parseLogicalNegationExpression_loop_def
  by (intro ne_rules endif_invD [OF assms]; simp add: ne_expect)

lemma parseComparisonExpression_no_endif_error:
  assumes "endif_inv P"
  shows "no_endif_error (parseComparisonExpression P tokens current)"
  unfolding parseComparisonExpression_def
  by (intro ne_rules endif_invD [OF assms]; simp add: ne_expect)

lemma parseComparisonExpression_loop_no_endif_error:
  assumes "endif_inv P"
  shows "no_endif_error (parseComparisonExpression_loop P tokens x current)"
  unfolding parseComparisonExpression_loop_def
  by (intro ne_rules endif_invD [OF assms]; simp add: ne_expect)

lemma parseAdditiveExpression_no_endif_error:
  assumes "endif_inv P"
  shows "no_endif_error (parseAdditiveExpression P tokens current)"
  unfolding parseAdditiveExpression_def
  by (intro ne_rules endif_invD [OF assms]; simp add: ne_expect)

lemma parseAdditiveExpression_loop_no_endif_error:
  assumes "endif_inv P"
  shows "no_endif_error (parseAdditiveExpression_loop P tokens x current)"
  unfolding parseAdditiveExpression_loop_def
  by (intro ne_rules endif_invD [OF assms]; simp add: ne_expect)

lemma parseCallMemberExpression_no_endif_error:
  assumes "endif_inv P"
  shows "no_endif_error (parseCallMemberExpression P tokens current)"
  unfolding parseCallMemberExpression_def
  by (intro ne_rules endif_invD [OF assms]; simp add: ne_expect)

lemma parseCallExpression_no_endif_error:
  assumes "endif_inv P"
  shows "no_endif_error (parseCallExpression P tokens x current)"
  unfolding parseCallExpression_def
  by (intro ne_rules endif_invD [OF assms]; simp add: ne_expect)

lemma parseArgs_no_endif_error:
  assumes "endif_inv P"
  shows "no_endif_error (parseArgs P tokens current)"
  unfolding parseArgs_def
  by (intro ne_rules endif_invD [OF assms]; simp add: ne_expect)

lemma parseArgumentsList_no_endif_error:
  assumes "endif_inv P"
  shows "no_endif_error (parseArgumentsList P tokens current)"
  unfolding parseArgumentsList_def
  by (intro ne_rules endif_invD [OF assms]; simp add: ne_expect)

lemma parseArgumentsList_loop_no_endif_error:
  assumes "endif_inv P"
  shows "no_endif_error (parseArgumentsList_loop P tokens x current)"
  unfolding parseArgumentsList_loop_def
  by (intro ne_rules endif_invD [OF assms]; simp add: ne_expect)

lemma parseMemberExpressionArgumentsList_no_endif_error:
  assumes "endif_inv P"
  shows "no_endif_error (parseMemberExpressionArgumentsList P tokens current)"
  unfolding parseMemberExpressionArgumentsList_def
  by (intro ne_rules endif_invD [OF assms]; simp add: no_endif_error_def split: prod.splits)

lemma parseMemberExpressionArgumentsList_loop_no_endif_error:
  assumes "endif_inv P"
  shows "no_endif_error (parseMemberExpressionArgumentsList_loop P tokens x y current)"
  unfolding parseMemberExpressionArgumentsList_loop_def
  by (intro ne_rules endif_invD [OF assms]; simp add: ne_expect)

lemma parseMemberExpression_no_endif_error:
  assumes "endif_inv P"
  shows "no_endif_error (parseMemberExpression P tokens current)"
  unfolding parseMemberExpression_def
  by (intro ne_rules endif_invD [OF assms]; simp add: ne_expect)

lemma parseMemberExpression_loop_no_endif_error:
  assumes "endif_inv P"
  shows "no_endif_error (parseMemberExpression_loop P tokens x current)"
  unfolding parseMemberExpression_loop_def
  by (intro ne_rules endif_invD [OF assms]; simp add: ne_expect)

lemma parseMultiplicativeExpression_no_endif_error:
  assumes "endif_inv P"
  shows "no_endif_error (parseMultiplicativeExpression P tokens current)"
  unfolding parseMultiplicativeExpression_def
  by (intro ne_rules endif_invD [OF assms]; simp add: ne_expect)

lemma parseMultiplicativeExpression_loop_no_endif_error:
  assumes "endif_inv P"
  shows "no_endif_error (parseMultiplicativeExpression_loop P tokens x current)"
  unfolding parseMultiplicativeExpression_loop_def
  by (intro ne_rules endif_invD [OF assms]; simp add: ne_expect)

lemma parseTestExpression_no_endif_error:
  assumes "endif_inv P"
  shows "no_endif_error (parseTestExpression P tokens current)"
  unfolding parseTestExpression_def
  by (intro ne_rules endif_invD [OF assms]; simp add: ne_expect)

lemma parseTestExpression_loop_no_endif_error:
  assumes "endif_inv P"
  shows "no_endif_error (parseTestExpression_loop P tokens x current)"
  unfolding parseTestExpression_loop_def
  by (intro ne_rules endif_invD [OF assms]; simp add: ne_expect)

lemma parseFilterExpression_no_endif_error:
  assumes "endif_inv P"
  shows "no_endif_error (parseFilterExpression P tokens current)"
  unfolding parseFilterExpression_def
  by (intro ne_rules endif_invD [OF assms]; simp add: ne_expect)

lemma parseFilterExpression_loop_no_endif_error:
  assumes "endif_inv P"
  shows "no_endif_error (parseFilterExpression_loop P tokens x current)"
  unfolding parseFilterExpression_loop_def
  by (intro ne_rules endif_invD [OF assms]; simp add: ne_expect)

lemma parsePrimaryExpression_no_endif_error:
  assumes "endif_inv P"
  shows "no_endif_error (parsePrimaryExpression P tokens current)"
  unfolding parsePrimaryExpression_def
  by (intro ne_rules endif_invD [OF assms]; simp add: ne_expect)

lemma parsePrimaryExpression_array_no_endif_error:
  assumes "endif_inv P"
  shows "no_endif_error (parsePrimaryExpression_array P tokens x current)"
  unfolding parsePrimaryExpression_array_def
  by (intro ne_rules endif_invD [OF assms]; simp add: ne_expect)

lemma parsePrimaryExpression_object_no_endif_error:
  assumes "endif_inv P"
  shows "no_endif_error (parsePrimaryExpression_object P tokens x current)"
  unfolding parsePrimaryExpression_object_def
  by (intro ne_rules endif_invD [OF assms]; simp add: ne_expect)

lemma ne_endif_triad:
  assumes "no_endif_error m"
    and "\<And>s c. m = Return (s, c) \<Longrightarrow> at_endif tokens c"
  shows "no_endif_error
    (andThen m (\<lambda>(result, current).
     andThen (expect tokens current T_OpenStatement e1) (\<lambda>(_, current).
     andThen (expect tokens current T_EndIf e2) (\<lambda>(_, current).
     andThen (expect tokens current T_CloseStatement e3) (\<lambda>(_, current).
     Return (result, current))))))"
proof (cases m)
  case (Return x)
  obtain s c where x: "x = (s, c)"
    by (cases x)
  from assms(2) [of s c] Return x have "at_endif tokens c"
    by simp
  then obtain t0 t1 where "token_at tokens c = Some t0" "tok_type t0 = T_OpenStatement"
    "token_at tokens (Suc c) = Some t1" "tok_type t1 = T_EndIf"
    by (auto simp: at_endif_def type_at_def)
  with Return x show ?thesis
    by (simp add: andThen_simps expect_def no_endif_error_def split: option.splits)
next
  case (Throw e)
  with assms(1) show ?thesis
    by (simp add: andThen_simps)
next
  case OutOfFuel
  then show ?thesis
    by (simp add: andThen_simps no_endif_error_def)
qed

lemma parseJinjaStatement_no_endif_error:
  assumes "endif_inv P"
  shows "no_endif_error (parseJinjaStatement P tokens current)"
  unfolding parseJinjaStatement_def
  by (intro ne_endif_triad ne_rules endif_invD [OF assms]; (simp add: ne_expect)?)
     (auto dest: endif_inv_post(1) [OF assms])

lemma parseIfStatement_body_post:
  assumes "endif_inv P"
    and "parseIfStatement_body P tokens body current = Return (s, c)"
  shows "at_branch_end tokens c"
  using assms(2)
  by (auto simp: parseIfStatement_body_def andThen_def at_branch_end_def
      split: result.splits prod.splits if_splits
      dest: endif_inv_post(3) [OF assms(1)])

lemma parseIfStatement_alternate_post:
  assumes "endif_inv P"
    and "parseIfStatement_alternate P tokens alternate current = Return (s, c)"
  shows "at_endif tokens c"
  using assms(2)
  by (auto simp: parseIfStatement_alternate_def andThen_def at_endif_def
      split: result.splits prod.splits if_splits
      dest: endif_inv_post(2) [OF assms(1)])

lemma parseIfStatement_post:
  assumes "endif_inv P"
    and "parseIfStatement P tokens current = Return (s, c)"
  shows "at_endif tokens c"
  using assms(2)
  by (auto simp: parseIfStatement_def andThen_def at_endif_def at_branch_end_def
      split: result.splits prod.splits if_splits
      dest: endif_inv_post [OF assms(1)])

lemmas body_no_endif_error =
  parseAny_no_endif_error parseJinjaStatement_no_endif_error
  parseJinjaExpression_no_endif_error parseSetStatement_no_endif_error
  parseIfStatement_no_endif_error parseIfStatement_body_no_endif_error
  parseIfStatement_alternate_no_endif_error parseForStatement_no_endif_error
  parseForStatement_body_no_endif_error parseExpression_no_endif_error
  parseLogicalOrExpression_no_endif_error parseLogicalOrExpression_loop_no_endif_error
  parseLogicalAndExpression_no_endif_error parseLogicalAndExpression_loop_no_endif_error
  parseLogicalNegationExpression_no_endif_error
  parseLogicalNegationExpression_loop_no_endif_error parseComparisonExpression_no_endif_error
  parseComparisonExpression_loop_no_endif_error parseAdditiveExpression_no_endif_error
  parseAdditiveExpression_loop_no_endif_error parseCallMemberExpression_no_endif_error
  parseCallExpression_no_endif_error parseArgs_no_endif_error
  parseArgumentsList_no_endif_error parseArgumentsList_loop_no_endif_error
  parseMemberExpressionArgumentsList_no_endif_error
  parseMemberExpressionArgumentsList_loop_no_endif_error parseMemberExpression_no_endif_error
  parseMemberExpression_loop_no_endif_error parseMultiplicativeExpression_no_endif_error
  parseMultiplicativeExpression_loop_no_endif_error parseTestExpression_no_endif_error
  parseTestExpression_loop_no_endif_error parseFilterExpression_no_endif_error
  parseFilterExpression_loop_no_endif_error parsePrimaryExpression_no_endif_error
  parsePrimaryExpression_array_no_endif_error parsePrimaryExpression_object_no_endif_error

lemma unfold_endif_inv:
  assumes "endif_inv P"
  shows "endif_inv (unfold P)"
  unfolding endif_inv_def [of "unfold P"] call_unfold
  by (intro conjI allI impI body_no_endif_error [OF assms]
        parseIfStatement_post [OF assms] parseIfStatement_alternate_post [OF assms]
        parseIfStatement_body_post [OF assms])

lemma fuel_endif_inv: "endif_inv (fuel n)"
proof (induction n)
  case 0
  show ?case
    by (simp add: endif_inv_def call_out_of_fuel no_endif_error_def)
next
  case (Suc n)
  then show ?case
    by (simp add: unfold_endif_inv)
qed

lemma parse_loop_no_endif_error: "no_endif_error (parse_loop n tokens body current)"
proof (induction n arbitrary: body current)
  case 0
  show ?case by (simp add: no_endif_error_def)
next
  case (Suc n)
  show ?case
    unfolding parse_loop.simps
    by (intro ne_rules parseAny_no_endif_error fuel_endif_inv Suc.IH)
qed

lemma parse_never_expects_endif:
  "parse n tokens = Throw e \<Longrightarrow> \<not> ExpectedToken T_EndIf e"
  using parse_loop_no_endif_error [of n tokens "[]" 0]
  by (simp add: parse_def no_endif_error_def)

section \<open>Every parse function moves the cursor forward\<close>

lemma andThen_eq_Return:
  "andThen m f = Return y \<longleftrightarrow> (\<exists>x. m = Return x \<and> f x = Return y)"
  by (cases m) (simp_all add: andThen_def)

lemma expect_ReturnD:
  "expect tokens current type err = Return (t, c)
   \<Longrightarrow> c = current + 1 \<and> current < length tokens \<and> tok_type (tokens ! current) = type"
  by (auto simp: expect_def token_at_def split: if_splits)

lemma token_at_SomeD: "token_at tokens i = Some t \<Longrightarrow> i < length tokens \<and> t = tokens ! i"
  by (auto simp: token_at_def split: if_splits)

lemma is_at_singleton:
  "is_at tokens current [type] \<longleftrightarrow> current < length tokens \<and> tok_type (tokens ! current) = type"
  by (auto simp: is_at_def)

lemma progress_invD:
  assumes "progress_inv P"
  shows
    "call_parseAny P tokens current = Return (v1, c1)
     \<Longrightarrow> advanced tokens current c1"
    "call_parseJinjaStatement P tokens current = Return (v2, c2)
     \<Longrightarrow> advanced tokens current c2"
    "call_parseJinjaExpression P tokens current = Return (v3, c3)
     \<Longrightarrow> advanced tokens current c3"
    "call_parseSetStatement P tokens current = Return (v4, c4)
     \<Longrightarrow> advanced tokens current c4"
    "call_parseIfStatement P tokens current = Return (v5, c5)
     \<Longrightarrow> advanced tokens current c5"
    "call_parseIfStatement_body P tokens x6 current = Return (v6, c6)
     \<Longrightarrow> not_behind tokens current c6"
    "call_parseIfStatement_alternate P tokens x7 current = Return (v7, c7)
     \<Longrightarrow> not_behind tokens current c7"
    "call_parseForStatement P tokens current = Return (v8, c8)
     \<Longrightarrow> advanced tokens current c8"
    "call_parseForStatement_body P tokens x9 current = Return (v9, c9)
     \<Longrightarrow> not_behind tokens current c9"
    "call_parseExpression P tokens current = Return (v10, c10)
     \<Longrightarrow> advanced tokens current c10"
    "call_parseLogicalOrExpression P tokens current = Return (v11, c11)
     \<Longrightarrow> advanced tokens current c11"
    "call_parseLogicalOrExpression_loop P tokens x12 current = Return (v12, c12)
     \<Longrightarrow> not_behind tokens current c12"
    "call_parseLogicalAndExpression P tokens current = Return (v13, c13)
     \<Longrightarrow> advanced tokens current c13"
    "call_parseLogicalAndExpression_loop P tokens x14 current = Return (v14, c14)
     \<Longrightarrow> not_behind tokens current c14"
    "call_parseLogicalNegationExpression P tokens current = Return (v15, c15)
     \<Longrightarrow> advanced tokens current c15"
    "call_parseLogicalNegationExpression_loop P tokens x16 current = Return (v16, c16)
     \<Longrightarrow> (if x16 = None then advanced tokens current c16 else not_behind tokens current c16)"
    "call_parseComparisonExpression P tokens current = Return (v17, c17)
     \<Longrightarrow> advanced tokens current c17"
    "call_parseComparisonExpression_loop P tokens x18 current = Return (v18, c18)
     \<Longrightarrow> not_behind tokens current c18"
    "call_parseAdditiveExpression P tokens current = Return (v19, c19)
     \<Longrightarrow> advanced tokens current c19"
    "call_parseAdditiveExpression_loop P tokens x20 current = Return (v20, c20)
     \<Longrightarrow> not_behind tokens current c20"
    "call_parseCallMemberExpression P tokens current = Return (v21, c21)
     \<Longrightarrow> advanced tokens current c21"
    "call_parseCallExpression P tokens x22 current = Return (v22, c22)
     \<Longrightarrow> advanced tokens current c22"
    "call_parseArgs P tokens current = Return (v23, c23)
     \<Longrightarrow> advanced tokens current c23"
    "call_parseArgumentsList P tokens current = Return (v24, c24)
     \<Longrightarrow> not_behind tokens current c24"
    "call_parseArgumentsList_loop P tokens x25 current = Return (v25, c25)
     \<Longrightarrow> not_behind tokens current c25"
    "call_parseMemberExpressionArgumentsList P tokens current = Return (v26, c26)
     \<Longrightarrow> not_behind tokens current c26"
    "call_parseMemberExpressionArgumentsList_loop P tokens x27 y27 current = Return (v27, c27)
     \<Longrightarrow> not_behind tokens current c27"
    "call_parseMemberExpression P tokens current = Return (v28, c28)
     \<Longrightarrow> advanced tokens current c28"
    "call_parseMemberExpression_loop P tokens x29 current = Return (v29, c29)
     \<Longrightarrow> not_behind tokens current c29"
    "call_parseMultiplicativeExpression P tokens current = Return (v30, c30)
     \<Longrightarrow> advanced tokens current c30"
    "call_parseMultiplicativeExpression_loop P tokens x31 current = Return (v31, c31)
     \<Longrightarrow> not_behind tokens current c31"
    "call_parseTestExpression P tokens current = Return (v32, c32)
     \<Longrightarrow> advanced tokens current c32"
    "call_parseTestExpression_loop P tokens x33 current = Return (v33, c33)
     \<Longrightarrow> not_behind tokens current c33"
    "call_parseFilterExpression P tokens current = Return (v34, c34)
     \<Longrightarrow> advanced tokens current c34"
    "call_parseFilterExpression_loop P tokens x35 current = Return (v35, c35)
     \<Longrightarrow> not_behind tokens current c35"
    "call_parsePrimaryExpression P tokens current = Return (v36, c36)
     \<Longrightarrow> advanced tokens current c36"
    "call_parsePrimaryExpression_array P tokens x37 current = Return (v37, c37)
     \<Longrightarrow> not_behind tokens current c37 \<and> c37 < length tokens"
    "call_parsePrimaryExpression_object P tokens x38 current = Return (v38, c38)
     \<Longrightarrow> not_behind tokens current c38 \<and> c38 < length tokens"
  using assms by (simp_all add: progress_inv_def del: split_paired_All)

lemma closing_triad:
  "andThen (expect tokens c0 ty1 e1) (\<lambda>(_, c). andThen (expect tokens c ty2 e2) (\<lambda>(_, c).
     andThen (expect tokens c ty3 e3) (\<lambda>(_, c). Return (r, c)))) = Return (v, c')
   \<Longrightarrow> c' = c0 + 3 \<and> c0 + 3 \<le> length tokens"
  by (auto simp: andThen_eq_Return dest!: expect_ReturnD)

lemma closing_one:
  "andThen (expect tokens c0 ty1 e1) (\<lambda>(_, c). Return (r, c)) = Return (v, c')
   \<Longrightarrow> c' = c0 + 1 \<and> c0 + 1 \<le> length tokens"
  by (auto simp: andThen_eq_Return dest!: expect_ReturnD)

lemma parseJinjaStatement_progress:
  assumes "progress_inv P" and "parseJinjaStatement P tokens current = Return (v, c)"
  shows "advanced tokens current c"
proof -
  from assms(2) obtain t0 where
    lt: "current < length tokens" and
    rest: "(case token_at tokens (current + 1) of
       None \<Rightarrow> Throw TypeError
     | Some t \<Rightarrow>
         if tok_type t = T_Set then
           andThen (call_parseSetStatement P tokens (current + 1 + 1)) (\<lambda>(result, current).
           andThen (expect tokens current T_CloseStatement ''Expected closing statement token'')
             (\<lambda>(_, current).
           Return (result, current)))
         else if tok_type t = T_If then
           andThen (call_parseIfStatement P tokens (current + 1 + 1)) (\<lambda>(result, current).
           andThen (expect tokens current T_OpenStatement ''Expected {% token'') (\<lambda>(_, current).
           andThen (expect tokens current T_EndIf ''Expected endif token'') (\<lambda>(_, current).
           andThen (expect tokens current T_CloseStatement ''Expected %} token'') (\<lambda>(_, current).
           Return (result, current)))))
         else if tok_type t = T_For then
           andThen (call_parseForStatement P tokens (current + 1 + 1)) (\<lambda>(result, current).
           andThen (expect tokens current T_OpenStatement ''Expected {% token'') (\<lambda>(_, current).
           andThen (expect tokens current T_EndFor ''Expected endfor token'') (\<lambda>(_, current).
           andThen (expect tokens current T_CloseStatement ''Expected %} token'') (\<lambda>(_, current).
           Return (result, current)))))
         else Throw (UnknownStatementType (tok_type t))) = Return (v, c)"
    unfolding parseJinjaStatement_def
    by (cases "expect tokens current T_OpenStatement ''Expected opening statement token''")
       (auto simp: andThen_simps dest!: expect_ReturnD)
  from rest obtain t where t: "token_at tokens (current + 1) = Some t"
    by (cases "token_at tokens (current + 1)") simp_all
  from t have lt1: "current + 1 < length tokens"
    by (simp add: token_at_SomeD)
  consider (is_set) "tok_type t = T_Set" | (is_if) "tok_type t = T_If" | (is_for) "tok_type t = T_For"
    | (other) "tok_type t \<noteq> T_Set" "tok_type t \<noteq> T_If" "tok_type t \<noteq> T_For"
    by blast
  then show ?thesis
  proof cases
    case is_set
    with rest t lt1 show ?thesis
      by (auto simp: andThen_eq_Return advanced_def
          dest!: progress_invD(4) [OF assms(1)] expect_ReturnD)
  next
    case is_if
    with rest t lt1 show ?thesis
      by (auto simp: andThen_eq_Return advanced_def
          dest!: progress_invD(5) [OF assms(1)] expect_ReturnD)
  next
    case is_for
    with rest t lt1 show ?thesis
      by (auto simp: andThen_eq_Return advanced_def
          dest!: progress_invD(8) [OF assms(1)] expect_ReturnD)
  next
    case other
    with rest t show ?thesis
      by simp
  qed
qed

lemma parseAny_progress:
  assumes "progress_inv P" and "parseAny P tokens current = Return (v, c)"
  shows "advanced tokens current c"
  using assms(2) unfolding parseAny_def
  by (auto simp: andThen_eq_Return advanced_def not_behind_def is_at_singleton parseText_def
      split: if_splits option.splits prod.splits
      dest!: progress_invD [OF assms(1)] expect_ReturnD token_at_SomeD)

lemma parseJinjaExpression_progress:
  assumes "progress_inv P" and "parseJinjaExpression P tokens current = Return (v, c)"
  shows "advanced tokens current c"
  using assms(2) unfolding parseJinjaExpression_def
  by (auto simp: andThen_eq_Return advanced_def not_behind_def is_at_singleton parseText_def
      split: if_splits option.splits prod.splits
      dest!: progress_invD [OF assms(1)] expect_ReturnD token_at_SomeD)

lemma parseSetStatement_progress:
  assumes "progress_inv P" and "parseSetStatement P tokens current = Return (v, c)"
  shows "advanced tokens current c"
  using assms(2) unfolding parseSetStatement_def
  by (auto simp: andThen_eq_Return advanced_def not_behind_def is_at_singleton parseText_def
      split: if_splits option.splits prod.splits
      dest!: progress_invD [OF assms(1)] expect_ReturnD token_at_SomeD)

lemma parseIfStatement_progress:
  assumes "progress_inv P" and "parseIfStatement P tokens current = Return (v, c)"
  shows "advanced tokens current c"
  using assms(2) unfolding parseIfStatement_def
  by (auto simp: andThen_eq_Return advanced_def not_behind_def is_at_singleton parseText_def
      split: if_splits option.splits prod.splits
      dest!: progress_invD [OF assms(1)] expect_ReturnD token_at_SomeD)

lemma parseIfStatement_body_progress:
  assumes "progress_inv P" and "parseIfStatement_body P tokens x current = Return (v, c)"
  shows "not_behind tokens current c"
  using assms(2) unfolding parseIfStatement_body_def
  by (auto simp: andThen_eq_Return advanced_def not_behind_def is_at_singleton parseText_def
      split: if_splits option.splits prod.splits
      dest!: progress_invD [OF assms(1)] expect_ReturnD token_at_SomeD)

lemma parseIfStatement_alternate_progress:
  assumes "progress_inv P" and "parseIfStatement_alternate P tokens x current = Return (v, c)"
  shows "not_behind tokens current c"
  using assms(2) unfolding parseIfStatement_alternate_def
  by (auto simp: andThen_eq_Return advanced_def not_behind_def is_at_singleton parseText_def
      split: if_splits option.splits prod.splits
      dest!: progress_invD [OF assms(1)] expect_ReturnD token_at_SomeD)

lemma parseForStatement_progress:
  assumes "progress_inv P" and "parseForStatement P tokens current = Return (v, c)"
  shows "advanced tokens current c"
  using assms(2) unfolding parseForStatement_def
  by (auto simp: andThen_eq_Return advanced_def not_behind_def is_at_singleton parseText_def
      split: if_splits option.splits prod.splits
      dest!: progress_invD [OF assms(1)] expect_ReturnD token_at_SomeD)

lemma parseForStatement_body_progress:
  assumes "progress_inv P" and "parseForStatement_body P tokens x current = Return (v, c)"
  shows "not_behind tokens current c"
  using assms(2) unfolding parseForStatement_body_def
  by (auto simp: andThen_eq_Return advanced_def not_behind_def is_at_singleton parseText_def
      split: if_splits option.splits prod.splits
      dest!: progress_invD [OF assms(1)] expect_ReturnD token_at_SomeD)

lemma parseExpression_progress:
  assumes "progress_inv P" and "parseExpression P tokens current = Return (v, c)"
  shows "advanced tokens current c"
  using assms(2) unfolding parseExpression_def
  by (auto simp: andThen_eq_Return advanced_def not_behind_def is_at_singleton parseText_def
      split: if_splits option.splits prod.splits
      dest!: progress_invD [OF assms(1)] expect_ReturnD token_at_SomeD)

lemma parseLogicalOrExpression_progress:
  assumes "progress_inv P" and "parseLogicalOrExpression P tokens current = Return (v, c)"
  shows "advanced tokens current c"
  using assms(2) unfolding parseLogicalOrExpression_def
  by (auto simp: andThen_eq_Return advanced_def not_behind_def is_at_singleton parseText_def
      split: if_splits option.splits prod.splits
      dest!: progress_invD [OF assms(1)] expect_ReturnD token_at_SomeD)

lemma parseLogicalOrExpression_loop_progress:
  assumes "progress_inv P" and "parseLogicalOrExpression_loop P tokens x current = Return (v, c)"
  shows "not_behind tokens current c"
  using assms(2) unfolding parseLogicalOrExpression_loop_def
  by (auto simp: andThen_eq_Return advanced_def not_behind_def is_at_singleton parseText_def
      split: if_splits option.splits prod.splits
      dest!: progress_invD [OF assms(1)] expect_ReturnD token_at_SomeD)

lemma parseLogicalAndExpression_progress:
  assumes "progress_inv P" and "parseLogicalAndExpression P tokens current = Return (v, c)"
  shows "advanced tokens current c"
  using assms(2) unfolding parseLogicalAndExpression_def
  by (auto simp: andThen_eq_Return advanced_def not_behind_def is_at_singleton parseText_def
      split: if_splits option.splits prod.splits
      dest!: progress_invD [OF assms(1)] expect_ReturnD token_at_SomeD)

lemma parseLogicalAndExpression_loop_progress:
  assumes "progress_inv P" and "parseLogicalAndExpression_loop P tokens x current = Return (v, c)"
  shows "not_behind tokens current c"
  using assms(2) unfolding parseLogicalAndExpression_loop_def
  by (auto simp: andThen_eq_Return advanced_def not_behind_def is_at_singleton parseText_def
      split: if_splits option.splits prod.splits
      dest!: progress_invD [OF assms(1)] expect_ReturnD token_at_SomeD)

lemma parseLogicalNegationExpression_progress:
  assumes "progress_inv P" and "parseLogicalNegationExpression P tokens current = Return (v, c)"
  shows "advanced tokens current c"
  using assms(2) unfolding parseLogicalNegationExpression_def
  by (auto simp: andThen_eq_Return advanced_def not_behind_def is_at_singleton parseText_def
      split: if_splits option.splits prod.splits
      dest!: progress_invD [OF assms(1)] expect_ReturnD token_at_SomeD)

lemma parseLogicalNegationExpression_loop_progress:
  assumes "progress_inv P" and "parseLogicalNegationExpression_loop P tokens x current = Return (v, c)"
  shows "(if x = None then advanced tokens current c else not_behind tokens current c)"
  using assms(2) unfolding parseLogicalNegationExpression_loop_def
  by (auto simp: andThen_eq_Return advanced_def not_behind_def is_at_singleton parseText_def
      split: if_splits option.splits prod.splits
      dest!: progress_invD [OF assms(1)] expect_ReturnD token_at_SomeD)

lemma parseComparisonExpression_progress:
  assumes "progress_inv P" and "parseComparisonExpression P tokens current = Return (v, c)"
  shows "advanced tokens current c"
  using assms(2) unfolding parseComparisonExpression_def
  by (auto simp: andThen_eq_Return advanced_def not_behind_def is_at_singleton parseText_def
      split: if_splits option.splits prod.splits
      dest!: progress_invD [OF assms(1)] expect_ReturnD token_at_SomeD)

lemma parseComparisonExpression_loop_progress:
  assumes "progress_inv P" and "parseComparisonExpression_loop P tokens x current = Return (v, c)"
  shows "not_behind tokens current c"
  using assms(2) unfolding parseComparisonExpression_loop_def
  by (auto simp: andThen_eq_Return advanced_def not_behind_def is_at_singleton parseText_def
      split: if_splits option.splits prod.splits
      dest!: progress_invD [OF assms(1)] expect_ReturnD token_at_SomeD)

lemma parseAdditiveExpression_progress:
  assumes "progress_inv P" and "parseAdditiveExpression P tokens current = Return (v, c)"
  shows "advanced tokens current c"
  using assms(2) unfolding parseAdditiveExpression_def
  by (auto simp: andThen_eq_Return advanced_def not_behind_def is_at_singleton parseText_def
      split: if_splits option.splits prod.splits
      dest!: progress_invD [OF assms(1)] expect_ReturnD token_at_SomeD)

lemma parseAdditiveExpression_loop_progress:
  assumes "progress_inv P" and "parseAdditiveExpression_loop P tokens x current = Return (v, c)"
  shows "not_behind tokens current c"
  using assms(2) unfolding parseAdditiveExpression_loop_def
  by (auto simp: andThen_eq_Return advanced_def not_behind_def is_at_singleton parseText_def
      split: if_splits option.splits prod.splits
      dest!: progress_invD [OF assms(1)] expect_ReturnD token_at_SomeD)

lemma parseCallMemberExpression_progress:
  assumes "progress_inv P" and "parseCallMemberExpression P tokens current = Return (v, c)"
  shows "advanced tokens current c"
  using assms(2) unfolding parseCallMemberExpression_def
  by (auto simp: andThen_eq_Return advanced_def not_behind_def is_at_singleton parseText_def
      split: if_splits option.splits prod.splits
      dest!: progress_invD [OF assms(1)] expect_ReturnD token_at_SomeD)

lemma parseCallExpression_progress:
  assumes "progress_inv P" and "parseCallExpression P tokens x current = Return (v, c)"
  shows "advanced tokens current c"
  using assms(2) unfolding parseCallExpression_def
  by (auto simp: andThen_eq_Return advanced_def not_behind_def is_at_singleton parseText_def
      split: if_splits option.splits prod.splits
      dest!: progress_invD [OF assms(1)] expect_ReturnD token_at_SomeD)

lemma parseArgs_progress:
  assumes "progress_inv P" and "parseArgs P tokens current = Return (v, c)"
  shows "advanced tokens current c"
  using assms(2) unfolding parseArgs_def
  by (auto simp: andThen_eq_Return advanced_def not_behind_def is_at_singleton parseText_def
      split: if_splits option.splits prod.splits
      dest!: progress_invD [OF assms(1)] expect_ReturnD token_at_SomeD)

lemma parseArgumentsList_progress:
  assumes "progress_inv P" and "parseArgumentsList P tokens current = Return (v, c)"
  shows "not_behind tokens current c"
  using assms(2) unfolding parseArgumentsList_def
  by (auto simp: andThen_eq_Return advanced_def not_behind_def is_at_singleton parseText_def
      split: if_splits option.splits prod.splits
      dest!: progress_invD [OF assms(1)] expect_ReturnD token_at_SomeD)

lemma parseArgumentsList_loop_progress:
  assumes "progress_inv P" and "parseArgumentsList_loop P tokens x current = Return (v, c)"
  shows "not_behind tokens current c"
  using assms(2) unfolding parseArgumentsList_loop_def
  by (auto simp: andThen_eq_Return advanced_def not_behind_def is_at_singleton parseText_def
      split: if_splits option.splits prod.splits
      dest!: progress_invD [OF assms(1)] expect_ReturnD token_at_SomeD)

lemma parseMemberExpressionArgumentsList_progress:
  assumes "progress_inv P" and "parseMemberExpressionArgumentsList P tokens current = Return (v, c)"
  shows "not_behind tokens current c"
  using assms(2) unfolding parseMemberExpressionArgumentsList_def
  by (auto simp: andThen_eq_Return advanced_def not_behind_def is_at_singleton parseText_def
      split: if_splits option.splits prod.splits
      dest!: progress_invD [OF assms(1)] expect_ReturnD token_at_SomeD)

lemma parseMemberExpressionArgumentsList_loop_progress:
  assumes "progress_inv P" and "parseMemberExpressionArgumentsList_loop P tokens x y current = Return (v, c)"
  shows "not_behind tokens current c"
  using assms(2) unfolding parseMemberExpressionArgumentsList_loop_def
  by (auto simp: andThen_eq_Return advanced_def not_behind_def is_at_singleton parseText_def
      split: if_splits option.splits prod.splits
      dest!: progress_invD [OF assms(1)] expect_ReturnD token_at_SomeD)

lemma parseMemberExpression_progress:
  assumes "progress_inv P" and "parseMemberExpression P tokens current = Return (v, c)"
  shows "advanced tokens current c"
  using assms(2) unfolding parseMemberExpression_def
  by (auto simp: andThen_eq_Return advanced_def not_behind_def is_at_singleton parseText_def
      split: if_splits option.splits prod.splits
      dest!: progress_invD [OF assms(1)] expect_ReturnD token_at_SomeD)

lemma parseMemberExpression_loop_progress:
  assumes "progress_inv P" and "parseMemberExpression_loop P tokens x current = Return (v, c)"
  shows "not_behind tokens current c"
  using assms(2) unfolding parseMemberExpression_loop_def
  by (auto simp: andThen_eq_Return advanced_def not_behind_def is_at_singleton parseText_def
      split: if_splits option.splits prod.splits
      dest!: progress_invD [OF assms(1)] expect_ReturnD token_at_SomeD)

lemma parseMultiplicativeExpression_progress:
  assumes "progress_inv P" and "parseMultiplicativeExpression P tokens current = Return (v, c)"
  shows "advanced tokens current c"
  using assms(2) unfolding parseMultiplicativeExpression_def
  by (auto simp: andThen_eq_Return advanced_def not_behind_def is_at_singleton parseText_def
      split: if_splits option.splits prod.splits
      dest!: progress_invD [OF assms(1)] expect_ReturnD token_at_SomeD)

lemma parseMultiplicativeExpression_loop_progress:
  assumes "progress_inv P" and "parseMultiplicativeExpression_loop P tokens x current = Return (v, c)"
  shows "not_behind tokens current c"
  using assms(2) unfolding parseMultiplicativeExpression_loop_def
  by (auto simp: andThen_eq_Return advanced_def not_behind_def is_at_singleton parseText_def
      split: if_splits option.splits prod.splits
      dest!: progress_invD [OF assms(1)] expect_ReturnD token_at_SomeD)

lemma parseTestExpression_progress:
  assumes "progress_inv P" and "parseTestExpression P tokens current = Return (v, c)"
  shows "advanced tokens current c"
  using assms(2) unfolding parseTestExpression_def
  by (auto simp: andThen_eq_Return advanced_def not_behind_def is_at_singleton parseText_def
      split: if_splits option.splits prod.splits
      dest!: progress_invD [OF assms(1)] expect_ReturnD token_at_SomeD)

lemma parseTestExpression_loop_progress:
  assumes "progress_inv P" and "parseTestExpression_loop P tokens x current = Return (v, c)"
  shows "not_behind tokens current c"
  using assms(2) unfolding parseTestExpression_loop_def
  by (auto simp: andThen_eq_Return advanced_def not_behind_def is_at_singleton parseText_def
      split: if_splits option.splits prod.splits
      dest!: progress_invD [OF assms(1)] expect_ReturnD token_at_SomeD)

lemma parseFilterExpression_progress:
  assumes "progress_inv P" and "parseFilterExpression P tokens current = Return (v, c)"
  shows "advanced tokens current c"
  using assms(2) unfolding parseFilterExpression_def
  by (auto simp: andThen_eq_Return advanced_def not_behind_def is_at_singleton parseText_def
      split: if_splits option.splits prod.splits
      dest!: progress_invD [OF assms(1)] expect_ReturnD token_at_SomeD)

lemma parseFilterExpression_loop_progress:
  assumes "progress_inv P" and "parseFilterExpression_loop P tokens x current = Return (v, c)"
  shows "not_behind tokens current c"
  using assms(2) unfolding parseFilterExpression_loop_def
  by (auto simp: andThen_eq_Return advanced_def not_behind_def is_at_singleton parseText_def
      split: if_splits option.splits prod.splits
      dest!: progress_invD [OF assms(1)] expect_ReturnD token_at_SomeD)

lemma parsePrimaryExpression_progress:
  assumes "progress_inv P" and "parsePrimaryExpression P tokens current = Return (v, c)"
  shows "advanced tokens current c"
  using assms(2) unfolding parsePrimaryExpression_def
  by (auto simp: andThen_eq_Return advanced_def not_behind_def is_at_singleton parseText_def
      split: if_splits option.splits prod.splits
      dest!: progress_invD [OF assms(1)] expect_ReturnD token_at_SomeD)

lemma parsePrimaryExpression_array_progress:
  assumes "progress_inv P" and "parsePrimaryExpression_array P tokens x current = Return (v, c)"
  shows "not_behind tokens current c \<and> c < length tokens"
  using assms(2) unfolding parsePrimaryExpression_array_def
  by (auto simp: andThen_eq_Return advanced_def not_behind_def is_at_singleton parseText_def
      split: if_splits option.splits prod.splits
      dest!: progress_invD [OF assms(1)] expect_ReturnD token_at_SomeD)

lemma parsePrimaryExpression_object_progress:
  assumes "progress_inv P" and "parsePrimaryExpression_object P tokens x current = Return (v, c)"
  shows "not_behind tokens current c \<and> c < length tokens"
  using assms(2) unfolding parsePrimaryExpression_object_def
  by (auto simp: andThen_eq_Return advanced_def not_behind_def is_at_singleton parseText_def
      split: if_splits option.splits prod.splits
      dest!: progress_invD [OF assms(1)] expect_ReturnD token_at_SomeD)

lemmas body_progress =
  parseAny_progress parseJinjaStatement_progress parseJinjaExpression_progress
  parseSetStatement_progress parseIfStatement_progress parseIfStatement_body_progress
  parseIfStatement_alternate_progress parseForStatement_progress
  parseForStatement_body_progress parseExpression_progress parseLogicalOrExpression_progress
  parseLogicalOrExpression_loop_progress parseLogicalAndExpression_progress
  parseLogicalAndExpression_loop_progress parseLogicalNegationExpression_progress
  parseLogicalNegationExpression_loop_progress parseComparisonExpression_progress
  parseComparisonExpression_loop_progress parseAdditiveExpression_progress
  parseAdditiveExpression_loop_progress parseCallMemberExpression_progress
  parseCallExpression_progress parseArgs_progress parseArgumentsList_progress
  parseArgumentsList_loop_progress parseMemberExpressionArgumentsList_progress
  parseMemberExpressionArgumentsList_loop_progress parseMemberExpression_progress
  parseMemberExpression_loop_progress parseMultiplicativeExpression_progress
  parseMultiplicativeExpression_loop_progress parseTestExpression_progress
  parseTestExpression_loop_progress parseFilterExpression_progress
  parseFilterExpression_loop_progress parsePrimaryExpression_progress
  parsePrimaryExpression_array_progress parsePrimaryExpression_object_progress

lemma unfold_progress_inv:
  assumes "progress_inv P"
  shows "progress_inv (unfold P)"
  unfolding progress_inv_def [of "unfold P"] call_unfold
  by (intro conjI allI impI; (drule body_progress [OF assms], simp))

lemma fuel_progress_inv: "progress_inv (fuel n)"
proof (induction n)
  case 0
  show ?case
    by (simp add: progress_inv_def call_out_of_fuel)
next
  case (Suc n)
  then show ?case
    by (simp add: unfold_progress_inv)
qed

section \<open>The parser ends on every input\<close>

text \<open>
  Every call parses at least one token or is one of at most sixteen calls nested at the
  same cursor, so a depth of sixteen calls for every token is enough: with that much
  fuel no parse function runs out of it.
\<close>

lemma andThen_eq_OutOfFuel:
  "andThen m f = OutOfFuel \<longleftrightarrow> m = OutOfFuel \<or> (\<exists>x. m = Return x \<and> f x = OutOfFuel)"
  by (cases m) (simp_all add: andThen_def)

lemma expect_not_OutOfFuel: "expect tokens current type err \<noteq> OutOfFuel"
  by (simp add: expect_def split: option.splits)

lemma test_name_not_OutOfFuel:
  "(case e of BooleanLiteral b \<Rightarrow> Return (g b) | _ \<Rightarrow> Return e) \<noteq> OutOfFuel"
  by (cases e) simp_all

lemma parseText_not_OutOfFuel: "parseText tokens current \<noteq> OutOfFuel"
  by (simp add: parseText_def andThen_eq_OutOfFuel expect_not_OutOfFuel split: prod.splits)

lemma total_invD:
  assumes "total_inv P n"
  shows
    "call_parseAny P tokens current = OutOfFuel
     \<Longrightarrow> n < needs tokens current 2"
    "call_parseJinjaStatement P tokens current = OutOfFuel
     \<Longrightarrow> n < needs tokens current 1"
    "call_parseJinjaExpression P tokens current = OutOfFuel
     \<Longrightarrow> n < needs tokens current 1"
    "call_parseSetStatement P tokens current = OutOfFuel
     \<Longrightarrow> n < needs tokens current 14"
    "call_parseIfStatement P tokens current = OutOfFuel
     \<Longrightarrow> n < needs tokens current 14"
    "call_parseIfStatement_body P tokens x6 current = OutOfFuel
     \<Longrightarrow> n < needs tokens current 3"
    "call_parseIfStatement_alternate P tokens x7 current = OutOfFuel
     \<Longrightarrow> n < needs tokens current 3"
    "call_parseForStatement P tokens current = OutOfFuel
     \<Longrightarrow> n < needs tokens current 2"
    "call_parseForStatement_body P tokens x9 current = OutOfFuel
     \<Longrightarrow> n < needs tokens current 3"
    "call_parseExpression P tokens current = OutOfFuel
     \<Longrightarrow> n < needs tokens current 13"
    "call_parseLogicalOrExpression P tokens current = OutOfFuel
     \<Longrightarrow> n < needs tokens current 12"
    "call_parseLogicalOrExpression_loop P tokens x12 current = OutOfFuel
     \<Longrightarrow> n < needs tokens current 1"
    "call_parseLogicalAndExpression P tokens current = OutOfFuel
     \<Longrightarrow> n < needs tokens current 11"
    "call_parseLogicalAndExpression_loop P tokens x14 current = OutOfFuel
     \<Longrightarrow> n < needs tokens current 1"
    "call_parseLogicalNegationExpression P tokens current = OutOfFuel
     \<Longrightarrow> n < needs tokens current 10"
    "call_parseLogicalNegationExpression_loop P tokens x16 current = OutOfFuel
     \<Longrightarrow> n < needs tokens current 9"
    "call_parseComparisonExpression P tokens current = OutOfFuel
     \<Longrightarrow> n < needs tokens current 8"
    "call_parseComparisonExpression_loop P tokens x18 current = OutOfFuel
     \<Longrightarrow> n < needs tokens current 1"
    "call_parseAdditiveExpression P tokens current = OutOfFuel
     \<Longrightarrow> n < needs tokens current 7"
    "call_parseAdditiveExpression_loop P tokens x20 current = OutOfFuel
     \<Longrightarrow> n < needs tokens current 1"
    "call_parseCallMemberExpression P tokens current = OutOfFuel
     \<Longrightarrow> n < needs tokens current 3"
    "call_parseCallExpression P tokens x22 current = OutOfFuel
     \<Longrightarrow> n < needs tokens current 2"
    "call_parseArgs P tokens current = OutOfFuel
     \<Longrightarrow> n < needs tokens current 1"
    "call_parseArgumentsList P tokens current = OutOfFuel
     \<Longrightarrow> n < needs tokens current 15"
    "call_parseArgumentsList_loop P tokens x25 current = OutOfFuel
     \<Longrightarrow> n < needs tokens current 14"
    "call_parseMemberExpressionArgumentsList P tokens current = OutOfFuel
     \<Longrightarrow> n < needs tokens current 15"
    "call_parseMemberExpressionArgumentsList_loop P tokens x27 y27 current = OutOfFuel
     \<Longrightarrow> n < needs tokens current 14"
    "call_parseMemberExpression P tokens current = OutOfFuel
     \<Longrightarrow> n < needs tokens current 2"
    "call_parseMemberExpression_loop P tokens x29 current = OutOfFuel
     \<Longrightarrow> n < needs tokens current 1"
    "call_parseMultiplicativeExpression P tokens current = OutOfFuel
     \<Longrightarrow> n < needs tokens current 6"
    "call_parseMultiplicativeExpression_loop P tokens x31 current = OutOfFuel
     \<Longrightarrow> n < needs tokens current 1"
    "call_parseTestExpression P tokens current = OutOfFuel
     \<Longrightarrow> n < needs tokens current 5"
    "call_parseTestExpression_loop P tokens x33 current = OutOfFuel
     \<Longrightarrow> n < needs tokens current 1"
    "call_parseFilterExpression P tokens current = OutOfFuel
     \<Longrightarrow> n < needs tokens current 4"
    "call_parseFilterExpression_loop P tokens x35 current = OutOfFuel
     \<Longrightarrow> n < needs tokens current 1"
    "call_parsePrimaryExpression P tokens current = OutOfFuel
     \<Longrightarrow> n < needs tokens current 1"
    "call_parsePrimaryExpression_array P tokens x37 current = OutOfFuel
     \<Longrightarrow> n < needs tokens current 14"
    "call_parsePrimaryExpression_object P tokens x38 current = OutOfFuel
     \<Longrightarrow> n < needs tokens current 14"
  using assms by (auto simp: total_inv_def not_le [symmetric])

lemma parseAny_total:
  assumes "progress_inv P" and "total_inv P n"
    and "needs tokens current 2 \<le> Suc n"
  shows "parseAny P tokens current \<noteq> OutOfFuel"
  proof
  assume "parseAny P tokens current = OutOfFuel"
  with assms(3) show False
    unfolding parseAny_def
    by (auto simp: andThen_eq_OutOfFuel andThen_eq_Return expect_not_OutOfFuel
        parseText_not_OutOfFuel test_name_not_OutOfFuel needs_def
        advanced_def not_behind_def is_at_singleton
        split: if_splits option.splits prod.splits
        dest!: total_invD [OF assms(2)] progress_invD [OF assms(1)] expect_ReturnD
          token_at_SomeD)
qed

lemma parseJinjaStatement_total:
  assumes "progress_inv P" and "total_inv P n"
    and "needs tokens current 1 \<le> Suc n"
  shows "parseJinjaStatement P tokens current \<noteq> OutOfFuel"
proof
  assume "parseJinjaStatement P tokens current = OutOfFuel"
  then have lt: "current < length tokens" and
    rest: "(case token_at tokens (current + 1) of
       None \<Rightarrow> Throw TypeError
     | Some t \<Rightarrow>
         if tok_type t = T_Set then
           andThen (call_parseSetStatement P tokens (current + 1 + 1)) (\<lambda>(result, current).
           andThen (expect tokens current T_CloseStatement ''Expected closing statement token'')
             (\<lambda>(_, current).
           Return (result, current)))
         else if tok_type t = T_If then
           andThen (call_parseIfStatement P tokens (current + 1 + 1)) (\<lambda>(result, current).
           andThen (expect tokens current T_OpenStatement ''Expected {% token'') (\<lambda>(_, current).
           andThen (expect tokens current T_EndIf ''Expected endif token'') (\<lambda>(_, current).
           andThen (expect tokens current T_CloseStatement ''Expected %} token'') (\<lambda>(_, current).
           Return (result, current)))))
         else if tok_type t = T_For then
           andThen (call_parseForStatement P tokens (current + 1 + 1)) (\<lambda>(result, current).
           andThen (expect tokens current T_OpenStatement ''Expected {% token'') (\<lambda>(_, current).
           andThen (expect tokens current T_EndFor ''Expected endfor token'') (\<lambda>(_, current).
           andThen (expect tokens current T_CloseStatement ''Expected %} token'') (\<lambda>(_, current).
           Return (result, current)))))
         else Throw (UnknownStatementType (tok_type t))) = OutOfFuel"
    unfolding parseJinjaStatement_def
    by (cases "expect tokens current T_OpenStatement ''Expected opening statement token''";
        auto simp: andThen_simps expect_not_OutOfFuel dest!: expect_ReturnD)+
  from rest obtain t where t: "token_at tokens (current + 1) = Some t"
    by (cases "token_at tokens (current + 1)") simp_all
  from t have lt1: "current + 1 < length tokens"
    by (simp add: token_at_SomeD)
  consider (is_set) "tok_type t = T_Set" | (is_if) "tok_type t = T_If"
    | (is_for) "tok_type t = T_For"
    | (other) "tok_type t \<noteq> T_Set" "tok_type t \<noteq> T_If" "tok_type t \<noteq> T_For"
    by blast
  then show False
  proof cases
    case is_set
    with rest t lt1 assms(3) show False
      by (auto simp: andThen_eq_OutOfFuel expect_not_OutOfFuel needs_def
          dest!: total_invD(4) [OF assms(2)])
  next
    case is_if
    with rest t lt1 assms(3) show False
      by (auto simp: andThen_eq_OutOfFuel expect_not_OutOfFuel needs_def
          dest!: total_invD(5) [OF assms(2)])
  next
    case is_for
    with rest t lt1 assms(3) show False
      by (auto simp: andThen_eq_OutOfFuel expect_not_OutOfFuel needs_def
          dest!: total_invD(8) [OF assms(2)])
  next
    case other
    with rest t show False
      by simp
  qed
qed

lemma parseJinjaExpression_total:
  assumes "progress_inv P" and "total_inv P n"
    and "needs tokens current 1 \<le> Suc n"
  shows "parseJinjaExpression P tokens current \<noteq> OutOfFuel"
  proof
  assume "parseJinjaExpression P tokens current = OutOfFuel"
  with assms(3) show False
    unfolding parseJinjaExpression_def
    by (auto simp: andThen_eq_OutOfFuel andThen_eq_Return expect_not_OutOfFuel
        parseText_not_OutOfFuel test_name_not_OutOfFuel needs_def
        advanced_def not_behind_def is_at_singleton
        split: if_splits option.splits prod.splits
        dest!: total_invD [OF assms(2)] progress_invD [OF assms(1)] expect_ReturnD
          token_at_SomeD)
qed

lemma parseSetStatement_total:
  assumes "progress_inv P" and "total_inv P n"
    and "needs tokens current 14 \<le> Suc n"
  shows "parseSetStatement P tokens current \<noteq> OutOfFuel"
  proof
  assume "parseSetStatement P tokens current = OutOfFuel"
  with assms(3) show False
    unfolding parseSetStatement_def
    by (auto simp: andThen_eq_OutOfFuel andThen_eq_Return expect_not_OutOfFuel
        parseText_not_OutOfFuel test_name_not_OutOfFuel needs_def
        advanced_def not_behind_def is_at_singleton
        split: if_splits option.splits prod.splits
        dest!: total_invD [OF assms(2)] progress_invD [OF assms(1)] expect_ReturnD
          token_at_SomeD)
qed

lemma parseIfStatement_total:
  assumes "progress_inv P" and "total_inv P n"
    and "needs tokens current 14 \<le> Suc n"
  shows "parseIfStatement P tokens current \<noteq> OutOfFuel"
  proof
  assume "parseIfStatement P tokens current = OutOfFuel"
  with assms(3) show False
    unfolding parseIfStatement_def
    by (auto simp: andThen_eq_OutOfFuel andThen_eq_Return expect_not_OutOfFuel
        parseText_not_OutOfFuel test_name_not_OutOfFuel needs_def
        advanced_def not_behind_def is_at_singleton
        split: if_splits option.splits prod.splits
        dest!: total_invD [OF assms(2)] progress_invD [OF assms(1)] expect_ReturnD
          token_at_SomeD)
qed

lemma parseIfStatement_body_total:
  assumes "progress_inv P" and "total_inv P n"
    and "needs tokens current 3 \<le> Suc n"
  shows "parseIfStatement_body P tokens x current \<noteq> OutOfFuel"
  proof
  assume "parseIfStatement_body P tokens x current = OutOfFuel"
  with assms(3) show False
    unfolding parseIfStatement_body_def
    by (auto simp: andThen_eq_OutOfFuel andThen_eq_Return expect_not_OutOfFuel
        parseText_not_OutOfFuel test_name_not_OutOfFuel needs_def
        advanced_def not_behind_def is_at_singleton
        split: if_splits option.splits prod.splits
        dest!: total_invD [OF assms(2)] progress_invD [OF assms(1)] expect_ReturnD
          token_at_SomeD)
qed

lemma parseIfStatement_alternate_total:
  assumes "progress_inv P" and "total_inv P n"
    and "needs tokens current 3 \<le> Suc n"
  shows "parseIfStatement_alternate P tokens x current \<noteq> OutOfFuel"
  proof
  assume "parseIfStatement_alternate P tokens x current = OutOfFuel"
  with assms(3) show False
    unfolding parseIfStatement_alternate_def
    by (auto simp: andThen_eq_OutOfFuel andThen_eq_Return expect_not_OutOfFuel
        parseText_not_OutOfFuel test_name_not_OutOfFuel needs_def
        advanced_def not_behind_def is_at_singleton
        split: if_splits option.splits prod.splits
        dest!: total_invD [OF assms(2)] progress_invD [OF assms(1)] expect_ReturnD
          token_at_SomeD)
qed

lemma parseForStatement_total:
  assumes "progress_inv P" and "total_inv P n"
    and "needs tokens current 2 \<le> Suc n"
  shows "parseForStatement P tokens current \<noteq> OutOfFuel"
  proof
  assume "parseForStatement P tokens current = OutOfFuel"
  with assms(3) show False
    unfolding parseForStatement_def
    by (auto simp: andThen_eq_OutOfFuel andThen_eq_Return expect_not_OutOfFuel
        parseText_not_OutOfFuel test_name_not_OutOfFuel needs_def
        advanced_def not_behind_def is_at_singleton
        split: if_splits option.splits prod.splits
        dest!: total_invD [OF assms(2)] progress_invD [OF assms(1)] expect_ReturnD
          token_at_SomeD)
qed

lemma parseForStatement_body_total:
  assumes "progress_inv P" and "total_inv P n"
    and "needs tokens current 3 \<le> Suc n"
  shows "parseForStatement_body P tokens x current \<noteq> OutOfFuel"
  proof
  assume "parseForStatement_body P tokens x current = OutOfFuel"
  with assms(3) show False
    unfolding parseForStatement_body_def
    by (auto simp: andThen_eq_OutOfFuel andThen_eq_Return expect_not_OutOfFuel
        parseText_not_OutOfFuel test_name_not_OutOfFuel needs_def
        advanced_def not_behind_def is_at_singleton
        split: if_splits option.splits prod.splits
        dest!: total_invD [OF assms(2)] progress_invD [OF assms(1)] expect_ReturnD
          token_at_SomeD)
qed

lemma parseExpression_total:
  assumes "progress_inv P" and "total_inv P n"
    and "needs tokens current 13 \<le> Suc n"
  shows "parseExpression P tokens current \<noteq> OutOfFuel"
  proof
  assume "parseExpression P tokens current = OutOfFuel"
  with assms(3) show False
    unfolding parseExpression_def
    by (auto simp: andThen_eq_OutOfFuel andThen_eq_Return expect_not_OutOfFuel
        parseText_not_OutOfFuel test_name_not_OutOfFuel needs_def
        advanced_def not_behind_def is_at_singleton
        split: if_splits option.splits prod.splits
        dest!: total_invD [OF assms(2)] progress_invD [OF assms(1)] expect_ReturnD
          token_at_SomeD)
qed

lemma parseLogicalOrExpression_total:
  assumes "progress_inv P" and "total_inv P n"
    and "needs tokens current 12 \<le> Suc n"
  shows "parseLogicalOrExpression P tokens current \<noteq> OutOfFuel"
  proof
  assume "parseLogicalOrExpression P tokens current = OutOfFuel"
  with assms(3) show False
    unfolding parseLogicalOrExpression_def
    by (auto simp: andThen_eq_OutOfFuel andThen_eq_Return expect_not_OutOfFuel
        parseText_not_OutOfFuel test_name_not_OutOfFuel needs_def
        advanced_def not_behind_def is_at_singleton
        split: if_splits option.splits prod.splits
        dest!: total_invD [OF assms(2)] progress_invD [OF assms(1)] expect_ReturnD
          token_at_SomeD)
qed

lemma parseLogicalOrExpression_loop_total:
  assumes "progress_inv P" and "total_inv P n"
    and "needs tokens current 1 \<le> Suc n"
  shows "parseLogicalOrExpression_loop P tokens x current \<noteq> OutOfFuel"
  proof
  assume "parseLogicalOrExpression_loop P tokens x current = OutOfFuel"
  with assms(3) show False
    unfolding parseLogicalOrExpression_loop_def
    by (auto simp: andThen_eq_OutOfFuel andThen_eq_Return expect_not_OutOfFuel
        parseText_not_OutOfFuel test_name_not_OutOfFuel needs_def
        advanced_def not_behind_def is_at_singleton
        split: if_splits option.splits prod.splits
        dest!: total_invD [OF assms(2)] progress_invD [OF assms(1)] expect_ReturnD
          token_at_SomeD)
qed

lemma parseLogicalAndExpression_total:
  assumes "progress_inv P" and "total_inv P n"
    and "needs tokens current 11 \<le> Suc n"
  shows "parseLogicalAndExpression P tokens current \<noteq> OutOfFuel"
  proof
  assume "parseLogicalAndExpression P tokens current = OutOfFuel"
  with assms(3) show False
    unfolding parseLogicalAndExpression_def
    by (auto simp: andThen_eq_OutOfFuel andThen_eq_Return expect_not_OutOfFuel
        parseText_not_OutOfFuel test_name_not_OutOfFuel needs_def
        advanced_def not_behind_def is_at_singleton
        split: if_splits option.splits prod.splits
        dest!: total_invD [OF assms(2)] progress_invD [OF assms(1)] expect_ReturnD
          token_at_SomeD)
qed

lemma parseLogicalAndExpression_loop_total:
  assumes "progress_inv P" and "total_inv P n"
    and "needs tokens current 1 \<le> Suc n"
  shows "parseLogicalAndExpression_loop P tokens x current \<noteq> OutOfFuel"
  proof
  assume "parseLogicalAndExpression_loop P tokens x current = OutOfFuel"
  with assms(3) show False
    unfolding parseLogicalAndExpression_loop_def
    by (auto simp: andThen_eq_OutOfFuel andThen_eq_Return expect_not_OutOfFuel
        parseText_not_OutOfFuel test_name_not_OutOfFuel needs_def
        advanced_def not_behind_def is_at_singleton
        split: if_splits option.splits prod.splits
        dest!: total_invD [OF assms(2)] progress_invD [OF assms(1)] expect_ReturnD
          token_at_SomeD)
qed

lemma parseLogicalNegationExpression_total:
  assumes "progress_inv P" and "total_inv P n"
    and "needs tokens current 10 \<le> Suc n"
  shows "parseLogicalNegationExpression P tokens current \<noteq> OutOfFuel"
  proof
  assume "parseLogicalNegationExpression P tokens current = OutOfFuel"
  with assms(3) show False
    unfolding parseLogicalNegationExpression_def
    by (auto simp: andThen_eq_OutOfFuel andThen_eq_Return expect_not_OutOfFuel
        parseText_not_OutOfFuel test_name_not_OutOfFuel needs_def
        advanced_def not_behind_def is_at_singleton
        split: if_splits option.splits prod.splits
        dest!: total_invD [OF assms(2)] progress_invD [OF assms(1)] expect_ReturnD
          token_at_SomeD)
qed

lemma parseLogicalNegationExpression_loop_total:
  assumes "progress_inv P" and "total_inv P n"
    and "needs tokens current 9 \<le> Suc n"
  shows "parseLogicalNegationExpression_loop P tokens x current \<noteq> OutOfFuel"
  proof
  assume "parseLogicalNegationExpression_loop P tokens x current = OutOfFuel"
  with assms(3) show False
    unfolding parseLogicalNegationExpression_loop_def
    by (auto simp: andThen_eq_OutOfFuel andThen_eq_Return expect_not_OutOfFuel
        parseText_not_OutOfFuel test_name_not_OutOfFuel needs_def
        advanced_def not_behind_def is_at_singleton
        split: if_splits option.splits prod.splits
        dest!: total_invD [OF assms(2)] progress_invD [OF assms(1)] expect_ReturnD
          token_at_SomeD)
qed

lemma parseComparisonExpression_total:
  assumes "progress_inv P" and "total_inv P n"
    and "needs tokens current 8 \<le> Suc n"
  shows "parseComparisonExpression P tokens current \<noteq> OutOfFuel"
  proof
  assume "parseComparisonExpression P tokens current = OutOfFuel"
  with assms(3) show False
    unfolding parseComparisonExpression_def
    by (auto simp: andThen_eq_OutOfFuel andThen_eq_Return expect_not_OutOfFuel
        parseText_not_OutOfFuel test_name_not_OutOfFuel needs_def
        advanced_def not_behind_def is_at_singleton
        split: if_splits option.splits prod.splits
        dest!: total_invD [OF assms(2)] progress_invD [OF assms(1)] expect_ReturnD
          token_at_SomeD)
qed

lemma parseComparisonExpression_loop_total:
  assumes "progress_inv P" and "total_inv P n"
    and "needs tokens current 1 \<le> Suc n"
  shows "parseComparisonExpression_loop P tokens x current \<noteq> OutOfFuel"
  proof
  assume "parseComparisonExpression_loop P tokens x current = OutOfFuel"
  with assms(3) show False
    unfolding parseComparisonExpression_loop_def
    by (auto simp: andThen_eq_OutOfFuel andThen_eq_Return expect_not_OutOfFuel
        parseText_not_OutOfFuel test_name_not_OutOfFuel needs_def
        advanced_def not_behind_def is_at_singleton
        split: if_splits option.splits prod.splits
        dest!: total_invD [OF assms(2)] progress_invD [OF assms(1)] expect_ReturnD
          token_at_SomeD)
qed

lemma parseAdditiveExpression_total:
  assumes "progress_inv P" and "total_inv P n"
    and "needs tokens current 7 \<le> Suc n"
  shows "parseAdditiveExpression P tokens current \<noteq> OutOfFuel"
  proof
  assume "parseAdditiveExpression P tokens current = OutOfFuel"
  with assms(3) show False
    unfolding parseAdditiveExpression_def
    by (auto simp: andThen_eq_OutOfFuel andThen_eq_Return expect_not_OutOfFuel
        parseText_not_OutOfFuel test_name_not_OutOfFuel needs_def
        advanced_def not_behind_def is_at_singleton
        split: if_splits option.splits prod.splits
        dest!: total_invD [OF assms(2)] progress_invD [OF assms(1)] expect_ReturnD
          token_at_SomeD)
qed

lemma parseAdditiveExpression_loop_total:
  assumes "progress_inv P" and "total_inv P n"
    and "needs tokens current 1 \<le> Suc n"
  shows "parseAdditiveExpression_loop P tokens x current \<noteq> OutOfFuel"
  proof
  assume "parseAdditiveExpression_loop P tokens x current = OutOfFuel"
  with assms(3) show False
    unfolding parseAdditiveExpression_loop_def
    by (auto simp: andThen_eq_OutOfFuel andThen_eq_Return expect_not_OutOfFuel
        parseText_not_OutOfFuel test_name_not_OutOfFuel needs_def
        advanced_def not_behind_def is_at_singleton
        split: if_splits option.splits prod.splits
        dest!: total_invD [OF assms(2)] progress_invD [OF assms(1)] expect_ReturnD
          token_at_SomeD)
qed

lemma parseCallMemberExpression_total:
  assumes "progress_inv P" and "total_inv P n"
    and "needs tokens current 3 \<le> Suc n"
  shows "parseCallMemberExpression P tokens current \<noteq> OutOfFuel"
  proof
  assume "parseCallMemberExpression P tokens current = OutOfFuel"
  with assms(3) show False
    unfolding parseCallMemberExpression_def
    by (auto simp: andThen_eq_OutOfFuel andThen_eq_Return expect_not_OutOfFuel
        parseText_not_OutOfFuel test_name_not_OutOfFuel needs_def
        advanced_def not_behind_def is_at_singleton
        split: if_splits option.splits prod.splits
        dest!: total_invD [OF assms(2)] progress_invD [OF assms(1)] expect_ReturnD
          token_at_SomeD)
qed

lemma parseCallExpression_total:
  assumes "progress_inv P" and "total_inv P n"
    and "needs tokens current 2 \<le> Suc n"
  shows "parseCallExpression P tokens x current \<noteq> OutOfFuel"
  proof
  assume "parseCallExpression P tokens x current = OutOfFuel"
  with assms(3) show False
    unfolding parseCallExpression_def
    by (auto simp: andThen_eq_OutOfFuel andThen_eq_Return expect_not_OutOfFuel
        parseText_not_OutOfFuel test_name_not_OutOfFuel needs_def
        advanced_def not_behind_def is_at_singleton
        split: if_splits option.splits prod.splits
        dest!: total_invD [OF assms(2)] progress_invD [OF assms(1)] expect_ReturnD
          token_at_SomeD)
qed

lemma parseArgs_total:
  assumes "progress_inv P" and "total_inv P n"
    and "needs tokens current 1 \<le> Suc n"
  shows "parseArgs P tokens current \<noteq> OutOfFuel"
  proof
  assume "parseArgs P tokens current = OutOfFuel"
  with assms(3) show False
    unfolding parseArgs_def
    by (auto simp: andThen_eq_OutOfFuel andThen_eq_Return expect_not_OutOfFuel
        parseText_not_OutOfFuel test_name_not_OutOfFuel needs_def
        advanced_def not_behind_def is_at_singleton
        split: if_splits option.splits prod.splits
        dest!: total_invD [OF assms(2)] progress_invD [OF assms(1)] expect_ReturnD
          token_at_SomeD)
qed

lemma parseArgumentsList_total:
  assumes "progress_inv P" and "total_inv P n"
    and "needs tokens current 15 \<le> Suc n"
  shows "parseArgumentsList P tokens current \<noteq> OutOfFuel"
  proof
  assume "parseArgumentsList P tokens current = OutOfFuel"
  with assms(3) show False
    unfolding parseArgumentsList_def
    by (auto simp: andThen_eq_OutOfFuel andThen_eq_Return expect_not_OutOfFuel
        parseText_not_OutOfFuel test_name_not_OutOfFuel needs_def
        advanced_def not_behind_def is_at_singleton
        split: if_splits option.splits prod.splits
        dest!: total_invD [OF assms(2)] progress_invD [OF assms(1)] expect_ReturnD
          token_at_SomeD)
qed

lemma parseArgumentsList_loop_total:
  assumes "progress_inv P" and "total_inv P n"
    and "needs tokens current 14 \<le> Suc n"
  shows "parseArgumentsList_loop P tokens x current \<noteq> OutOfFuel"
  proof
  assume "parseArgumentsList_loop P tokens x current = OutOfFuel"
  with assms(3) show False
    unfolding parseArgumentsList_loop_def
    by (auto simp: andThen_eq_OutOfFuel andThen_eq_Return expect_not_OutOfFuel
        parseText_not_OutOfFuel test_name_not_OutOfFuel needs_def
        advanced_def not_behind_def is_at_singleton
        split: if_splits option.splits prod.splits
        dest!: total_invD [OF assms(2)] progress_invD [OF assms(1)] expect_ReturnD
          token_at_SomeD)
qed

lemma parseMemberExpressionArgumentsList_total:
  assumes "progress_inv P" and "total_inv P n"
    and "needs tokens current 15 \<le> Suc n"
  shows "parseMemberExpressionArgumentsList P tokens current \<noteq> OutOfFuel"
  proof
  assume "parseMemberExpressionArgumentsList P tokens current = OutOfFuel"
  with assms(3) show False
    unfolding parseMemberExpressionArgumentsList_def
    by (auto simp: andThen_eq_OutOfFuel andThen_eq_Return expect_not_OutOfFuel
        parseText_not_OutOfFuel test_name_not_OutOfFuel needs_def
        advanced_def not_behind_def is_at_singleton
        split: if_splits option.splits prod.splits
        dest!: total_invD [OF assms(2)] progress_invD [OF assms(1)] expect_ReturnD
          token_at_SomeD)
qed

lemma parseMemberExpressionArgumentsList_loop_total:
  assumes "progress_inv P" and "total_inv P n"
    and "needs tokens current 14 \<le> Suc n"
  shows "parseMemberExpressionArgumentsList_loop P tokens x y current \<noteq> OutOfFuel"
  proof
  assume "parseMemberExpressionArgumentsList_loop P tokens x y current = OutOfFuel"
  with assms(3) show False
    unfolding parseMemberExpressionArgumentsList_loop_def
    by (auto simp: andThen_eq_OutOfFuel andThen_eq_Return expect_not_OutOfFuel
        parseText_not_OutOfFuel test_name_not_OutOfFuel needs_def
        advanced_def not_behind_def is_at_singleton
        split: if_splits option.splits prod.splits
        dest!: total_invD [OF assms(2)] progress_invD [OF assms(1)] expect_ReturnD
          token_at_SomeD)
qed

lemma parseMemberExpression_total:
  assumes "progress_inv P" and "total_inv P n"
    and "needs tokens current 2 \<le> Suc n"
  shows "parseMemberExpression P tokens current \<noteq> OutOfFuel"
  proof
  assume "parseMemberExpression P tokens current = OutOfFuel"
  with assms(3) show False
    unfolding parseMemberExpression_def
    by (auto simp: andThen_eq_OutOfFuel andThen_eq_Return expect_not_OutOfFuel
        parseText_not_OutOfFuel test_name_not_OutOfFuel needs_def
        advanced_def not_behind_def is_at_singleton
        split: if_splits option.splits prod.splits
        dest!: total_invD [OF assms(2)] progress_invD [OF assms(1)] expect_ReturnD
          token_at_SomeD)
qed

lemma parseMemberExpression_loop_total:
  assumes "progress_inv P" and "total_inv P n"
    and "needs tokens current 1 \<le> Suc n"
  shows "parseMemberExpression_loop P tokens x current \<noteq> OutOfFuel"
  proof
  assume "parseMemberExpression_loop P tokens x current = OutOfFuel"
  with assms(3) show False
    unfolding parseMemberExpression_loop_def
    by (auto simp: andThen_eq_OutOfFuel andThen_eq_Return expect_not_OutOfFuel
        parseText_not_OutOfFuel test_name_not_OutOfFuel needs_def
        advanced_def not_behind_def is_at_singleton
        split: if_splits option.splits prod.splits
        dest!: total_invD [OF assms(2)] progress_invD [OF assms(1)] expect_ReturnD
          token_at_SomeD)
qed

lemma parseMultiplicativeExpression_total:
  assumes "progress_inv P" and "total_inv P n"
    and "needs tokens current 6 \<le> Suc n"
  shows "parseMultiplicativeExpression P tokens current \<noteq> OutOfFuel"
  proof
  assume "parseMultiplicativeExpression P tokens current = OutOfFuel"
  with assms(3) show False
    unfolding parseMultiplicativeExpression_def
    by (auto simp: andThen_eq_OutOfFuel andThen_eq_Return expect_not_OutOfFuel
        parseText_not_OutOfFuel test_name_not_OutOfFuel needs_def
        advanced_def not_behind_def is_at_singleton
        split: if_splits option.splits prod.splits
        dest!: total_invD [OF assms(2)] progress_invD [OF assms(1)] expect_ReturnD
          token_at_SomeD)
qed

lemma parseMultiplicativeExpression_loop_total:
  assumes "progress_inv P" and "total_inv P n"
    and "needs tokens current 1 \<le> Suc n"
  shows "parseMultiplicativeExpression_loop P tokens x current \<noteq> OutOfFuel"
  proof
  assume "parseMultiplicativeExpression_loop P tokens x current = OutOfFuel"
  with assms(3) show False
    unfolding parseMultiplicativeExpression_loop_def
    by (auto simp: andThen_eq_OutOfFuel andThen_eq_Return expect_not_OutOfFuel
        parseText_not_OutOfFuel test_name_not_OutOfFuel needs_def
        advanced_def not_behind_def is_at_singleton
        split: if_splits option.splits prod.splits
        dest!: total_invD [OF assms(2)] progress_invD [OF assms(1)] expect_ReturnD
          token_at_SomeD)
qed

lemma parseTestExpression_total:
  assumes "progress_inv P" and "total_inv P n"
    and "needs tokens current 5 \<le> Suc n"
  shows "parseTestExpression P tokens current \<noteq> OutOfFuel"
  proof
  assume "parseTestExpression P tokens current = OutOfFuel"
  with assms(3) show False
    unfolding parseTestExpression_def
    by (auto simp: andThen_eq_OutOfFuel andThen_eq_Return expect_not_OutOfFuel
        parseText_not_OutOfFuel test_name_not_OutOfFuel needs_def
        advanced_def not_behind_def is_at_singleton
        split: if_splits option.splits prod.splits
        dest!: total_invD [OF assms(2)] progress_invD [OF assms(1)] expect_ReturnD
          token_at_SomeD)
qed

lemma parseTestExpression_loop_total:
  assumes "progress_inv P" and "total_inv P n"
    and "needs tokens current 1 \<le> Suc n"
  shows "parseTestExpression_loop P tokens x current \<noteq> OutOfFuel"
  proof
  assume "parseTestExpression_loop P tokens x current = OutOfFuel"
  with assms(3) show False
    unfolding parseTestExpression_loop_def
    by (auto simp: andThen_eq_OutOfFuel andThen_eq_Return expect_not_OutOfFuel
        parseText_not_OutOfFuel test_name_not_OutOfFuel needs_def
        advanced_def not_behind_def is_at_singleton
        split: if_splits option.splits prod.splits
        dest!: total_invD [OF assms(2)] progress_invD [OF assms(1)] expect_ReturnD
          token_at_SomeD)
qed

lemma parseFilterExpression_total:
  assumes "progress_inv P" and "total_inv P n"
    and "needs tokens current 4 \<le> Suc n"
  shows "parseFilterExpression P tokens current \<noteq> OutOfFuel"
  proof
  assume "parseFilterExpression P tokens current = OutOfFuel"
  with assms(3) show False
    unfolding parseFilterExpression_def
    by (auto simp: andThen_eq_OutOfFuel andThen_eq_Return expect_not_OutOfFuel
        parseText_not_OutOfFuel test_name_not_OutOfFuel needs_def
        advanced_def not_behind_def is_at_singleton
        split: if_splits option.splits prod.splits
        dest!: total_invD [OF assms(2)] progress_invD [OF assms(1)] expect_ReturnD
          token_at_SomeD)
qed

lemma parseFilterExpression_loop_total:
  assumes "progress_inv P" and "total_inv P n"
    and "needs tokens current 1 \<le> Suc n"
  shows "parseFilterExpression_loop P tokens x current \<noteq> OutOfFuel"
  proof
  assume "parseFilterExpression_loop P tokens x current = OutOfFuel"
  with assms(3) show False
    unfolding parseFilterExpression_loop_def
    by (auto simp: andThen_eq_OutOfFuel andThen_eq_Return expect_not_OutOfFuel
        parseText_not_OutOfFuel test_name_not_OutOfFuel needs_def
        advanced_def not_behind_def is_at_singleton
        split: if_splits option.splits prod.splits
        dest!: total_invD [OF assms(2)] progress_invD [OF assms(1)] expect_ReturnD
          token_at_SomeD)
qed

lemma parsePrimaryExpression_total:
  assumes "progress_inv P" and "total_inv P n"
    and "needs tokens current 1 \<le> Suc n"
  shows "parsePrimaryExpression P tokens current \<noteq> OutOfFuel"
  proof
  assume "parsePrimaryExpression P tokens current = OutOfFuel"
  with assms(3) show False
    unfolding parsePrimaryExpression_def
    by (auto simp: andThen_eq_OutOfFuel andThen_eq_Return expect_not_OutOfFuel
        parseText_not_OutOfFuel test_name_not_OutOfFuel needs_def
        advanced_def not_behind_def is_at_singleton
        split: if_splits option.splits prod.splits
        dest!: total_invD [OF assms(2)] progress_invD [OF assms(1)] expect_ReturnD
          token_at_SomeD)
qed

lemma parsePrimaryExpression_array_total:
  assumes "progress_inv P" and "total_inv P n"
    and "needs tokens current 14 \<le> Suc n"
  shows "parsePrimaryExpression_array P tokens x current \<noteq> OutOfFuel"
  proof
  assume "parsePrimaryExpression_array P tokens x current = OutOfFuel"
  with assms(3) show False
    unfolding parsePrimaryExpression_array_def
    by (auto simp: andThen_eq_OutOfFuel andThen_eq_Return expect_not_OutOfFuel
        parseText_not_OutOfFuel test_name_not_OutOfFuel needs_def
        advanced_def not_behind_def is_at_singleton
        split: if_splits option.splits prod.splits
        dest!: total_invD [OF assms(2)] progress_invD [OF assms(1)] expect_ReturnD
          token_at_SomeD)
qed

lemma parsePrimaryExpression_object_total:
  assumes "progress_inv P" and "total_inv P n"
    and "needs tokens current 14 \<le> Suc n"
  shows "parsePrimaryExpression_object P tokens x current \<noteq> OutOfFuel"
  proof
  assume "parsePrimaryExpression_object P tokens x current = OutOfFuel"
  with assms(3) show False
    unfolding parsePrimaryExpression_object_def
    by (auto simp: andThen_eq_OutOfFuel andThen_eq_Return expect_not_OutOfFuel
        parseText_not_OutOfFuel test_name_not_OutOfFuel needs_def
        advanced_def not_behind_def is_at_singleton
        split: if_splits option.splits prod.splits
        dest!: total_invD [OF assms(2)] progress_invD [OF assms(1)] expect_ReturnD
          token_at_SomeD)
qed

lemmas body_total =
  parseAny_total parseJinjaStatement_total parseJinjaExpression_total parseSetStatement_total
  parseIfStatement_total parseIfStatement_body_total parseIfStatement_alternate_total
  parseForStatement_total parseForStatement_body_total parseExpression_total
  parseLogicalOrExpression_total parseLogicalOrExpression_loop_total
  parseLogicalAndExpression_total parseLogicalAndExpression_loop_total
  parseLogicalNegationExpression_total parseLogicalNegationExpression_loop_total
  parseComparisonExpression_total parseComparisonExpression_loop_total
  parseAdditiveExpression_total parseAdditiveExpression_loop_total
  parseCallMemberExpression_total parseCallExpression_total parseArgs_total
  parseArgumentsList_total parseArgumentsList_loop_total
  parseMemberExpressionArgumentsList_total parseMemberExpressionArgumentsList_loop_total
  parseMemberExpression_total parseMemberExpression_loop_total
  parseMultiplicativeExpression_total parseMultiplicativeExpression_loop_total
  parseTestExpression_total parseTestExpression_loop_total parseFilterExpression_total
  parseFilterExpression_loop_total parsePrimaryExpression_total
  parsePrimaryExpression_array_total parsePrimaryExpression_object_total

lemma unfold_total_inv:
  assumes "progress_inv P" and "total_inv P n"
  shows "total_inv (unfold P) (Suc n)"
  unfolding total_inv_def [of "unfold P"] call_unfold
  by (intro conjI allI impI body_total [OF assms])

lemma fuel_total_inv: "total_inv (fuel n) n"
proof (induction n)
  case 0
  show ?case
    by (simp add: total_inv_def needs_def)
next
  case (Suc n)
  then show ?case
    by (simp add: unfold_total_inv fuel_progress_inv)
qed

lemma parse_loop_total:
  "needs tokens current 3 \<le> n \<Longrightarrow> parse_loop n tokens body current \<noteq> OutOfFuel"
proof (induction n arbitrary: body current)
  case 0
  then show ?case
    by (simp add: needs_def)
next
  case (Suc n)
  show ?case
  proof (cases "current < length tokens")
    case False
    then show ?thesis
      by simp
  next
    case True
    from Suc.prems have "needs tokens current 2 \<le> Suc n"
      by (simp add: needs_def)
    from parseAny_total [OF fuel_progress_inv fuel_total_inv this]
    have any: "parseAny (fuel n) tokens current \<noteq> OutOfFuel" .
    show ?thesis
    proof (cases "parseAny (fuel n) tokens current")
      case (Return x)
      obtain s c where x: "x = (s, c)"
        by (cases x)
      from parseAny_progress [OF fuel_progress_inv Return [unfolded x]]
      have "advanced tokens current c" .
      with Suc.prems have "needs tokens c 3 \<le> n"
        unfolding needs_def advanced_def by arith
      from Suc.IH [OF this] True Return x show ?thesis
        by (simp add: andThen_simps)
    next
      case (Throw e)
      with True show ?thesis
        by (simp add: andThen_simps)
    next
      case OutOfFuel
      with any show ?thesis
        by simp
    qed
  qed
qed

lemma parse_total: "16 * length tokens + 3 \<le> n \<Longrightarrow> parse n tokens \<noteq> OutOfFuel"
  using parse_loop_total [of tokens 0 n "[]"] by (simp add: parse_def needs_def)

text \<open>With enough fuel the outcome of \<open>parse\<close> does not depend on the fuel.\<close>

lemma parse_fuel_independent:
  assumes "16 * length tokens + 3 \<le> n" and "16 * length tokens + 3 \<le> m"
  shows "parse n tokens = parse m tokens"
proof -
  let ?b = "16 * length tokens + 3"
  have b: "parse ?b tokens \<noteq> OutOfFuel"
    by (rule parse_total) simp
  from parse_mono [OF refl b assms(1)] parse_mono [OF refl b assms(2)] show ?thesis
    by simp
qed

section \<open>General facts used by the claims\<close>

text \<open>
  Where \<open>parseMemberExpressionArgumentsList\<close> returns \<open>slices[0]\<close>, that entry is an
  expression.
\<close>

lemma slices_without_colon_defined:
  "parseMemberExpressionArgumentsList_loop (fuel n) tokens slices isSlice current
     = Return ((slices', isSlice'), c)
   \<Longrightarrow> (\<not> isSlice \<longrightarrow> None \<notin> set slices)
   \<Longrightarrow> (\<not> isSlice' \<longrightarrow> None \<notin> set slices')"
proof (induction n arbitrary: slices isSlice current)
  case 0
  then show ?case
    by (auto simp: parseMemberExpressionArgumentsList_loop_def call_out_of_fuel andThen_eq_Return
        split: if_splits)
next
  case (Suc n)
  from Suc.prems(1) consider
    (stop) "slices' = slices" "isSlice' = isSlice"
    | (colon) "parseMemberExpressionArgumentsList_loop (fuel n) tokens (slices @ [None]) True
                 (current + 1) = Return ((slices', isSlice'), c)"
    | (expr_colon) e c1 where
        "parseMemberExpressionArgumentsList_loop (fuel n) tokens (slices @ [Some e]) True
                 (c1 + 1) = Return ((slices', isSlice'), c)"
    | (expr) e c1 where
        "parseMemberExpressionArgumentsList_loop (fuel n) tokens (slices @ [Some e]) isSlice
                 c1 = Return ((slices', isSlice'), c)"
    by (auto simp del: fuel.simps
        simp add: parseMemberExpressionArgumentsList_loop_def [of "fuel (Suc n)"] call_fuel_Suc
          andThen_eq_Return
        split: if_splits)
  then show ?case
  proof cases
    case stop
    with Suc.prems(2) show ?thesis by simp
  next
    case colon
    from Suc.IH [OF this] show ?thesis by simp
  next
    case expr_colon
    from Suc.IH [OF this] show ?thesis by simp
  next
    case expr
    from Suc.IH [OF this] Suc.prems(2) show ?thesis by simp
  qed
qed

lemma index_expression_defined:
  assumes "parseMemberExpressionArgumentsList_loop (fuel n) tokens [] False current
             = Return ((slices, False), c)"
    and "length slices \<noteq> 0"
  shows "\<exists>e. slices ! 0 = Some e"
proof -
  from slices_without_colon_defined [OF assms(1)] have "None \<notin> set slices"
    by simp
  with assms(2) show ?thesis
    by (cases slices; cases "hd slices") auto
qed

lemma more_fuel:
  assumes "le_result r r'" and "r = Return v"
  shows "r' = Return v"
  using assms by (auto simp: le_result_def)

lemma parsePrimaryExpression_more_fuel:
  "parsePrimaryExpression (fuel n) tokens current = Return v
   \<Longrightarrow> parsePrimaryExpression (fuel (n + k)) tokens current = Return v"
  by (rule more_fuel [OF parsePrimaryExpression_mono [OF fuel_add_mono]])


lemma for_loop_variable_not_identifier:
  assumes "type_at tokens current = Some T_OpenStatement"
    and "type_at tokens (current + 1) = Some T_For"
    and "parsePrimaryExpression (fuel n) tokens (current + 2) = Return (loopVariable, c)"
    and "\<not> instanceof_Identifier loopVariable"
  shows "parseAny (fuel (n + 3 + k)) tokens current = Throw InvalidLoopVariable"
proof -
  have fuel_eq: "n + 3 + k = Suc (Suc (Suc (n + k)))"
    by simp
  have primary: "parsePrimaryExpression (fuel (n + k)) tokens (Suc (Suc current))
                 = Return (loopVariable, c)"
    using parsePrimaryExpression_more_fuel [OF assms(3)] by simp
  from assms(1) obtain t0 where t0: "token_at tokens current = Some t0" "tok_type t0 = T_OpenStatement"
    by (auto simp: type_at_def)
  from assms(2) obtain t1 where t1: "token_at tokens (Suc current) = Some t1" "tok_type t1 = T_For"
    by (auto simp: type_at_def)
  show ?thesis
    unfolding fuel_eq
    by (simp del: fuel.simps add: parseAny_def parseJinjaStatement_def parseForStatement_def
          call_fuel_Suc expect_def andThen_simps t0 t1 primary assms(4) InvalidLoopVariable_def)
qed


lemma test_name_step:
  assumes "is_at tokens current [T_Is]"
    and "parsePrimaryExpression (fuel n) tokens
           (if is_at tokens (current + 1) [T_Not] then current + 1 + 1 else current + 1)
         = Return (e, c)"
  shows "parseTestExpression_loop (fuel (Suc n)) tokens operand current =
      (case e of
         BooleanLiteral b \<Rightarrow>
           parseTestExpression_loop (fuel n) tokens
             (TestExpression operand (is_at tokens (current + 1) [T_Not])
                (Identifier (if b then ''true'' else ''false''))) c
       | Identifier v \<Rightarrow>
           parseTestExpression_loop (fuel n) tokens
             (TestExpression operand (is_at tokens (current + 1) [T_Not]) (Identifier v)) c
       | _ \<Rightarrow> Throw InvalidTestName)"
  using assms
  by (cases e)
     (simp_all del: fuel.simps add: parseTestExpression_loop_def [of "fuel (Suc n)"] call_fuel_Suc
        andThen_simps InvalidTestName_def)


text \<open>
  \<open>parseIfStatement\<close> returns an \<open>If\<close> node, and what it does when an \<open>elif\<close> follows the
  body (lines 150-158): the \<open>If\<close> parsed by the recursive call is the one element of
  \<open>alternate\<close>, and the cursor is left where that call left it.
\<close>

lemma parseIfStatement_returns_If:
  "parseIfStatement P tokens current = Return (s, c) \<Longrightarrow> instanceof_If s"
  by (auto simp: parseIfStatement_def andThen_eq_Return)

lemma parseExpression_more_fuel:
  "parseExpression (fuel n) tokens current = Return v
   \<Longrightarrow> parseExpression (fuel (n + k)) tokens current = Return v"
  by (rule more_fuel [OF parseExpression_mono [OF fuel_add_mono]])

lemma parseIfStatement_body_more_fuel:
  "parseIfStatement_body (fuel n) tokens body current = Return v
   \<Longrightarrow> parseIfStatement_body (fuel (n + k)) tokens body current = Return v"
  by (rule more_fuel [OF parseIfStatement_body_mono [OF fuel_add_mono]])

lemma parseIfStatement_more_fuel:
  "parseIfStatement (fuel n) tokens current = Return v
   \<Longrightarrow> parseIfStatement (fuel (n + k)) tokens current = Return v"
  by (rule more_fuel [OF parseIfStatement_mono [OF fuel_add_mono]])

lemma elif_step:
  assumes test: "parseExpression (fuel n) tokens current = Return (test, c1)"
    and close: "type_at tokens c1 = Some T_CloseStatement"
    and body: "parseIfStatement_body (fuel n) tokens [] (c1 + 1) = Return (body, c2)"
    and elif: "type_at tokens (c2 + 1) = Some T_ElseIf"
    and nested: "parseIfStatement (fuel n) tokens (c2 + 2) = Return (nested, c3)"
  shows "parseIfStatement (fuel (Suc n + k)) tokens current
         = Return (IfNode test body [nested], c3)"
proof -
  have test': "parseExpression (fuel (n + k)) tokens current = Return (test, c1)"
    by (rule parseExpression_more_fuel [OF test])
  have body': "parseIfStatement_body (fuel (n + k)) tokens [] (Suc c1) = Return (body, c2)"
    using parseIfStatement_body_more_fuel [OF body] by simp
  have nested': "parseIfStatement (fuel (n + k)) tokens (Suc (Suc c2)) = Return (nested, c3)"
    using parseIfStatement_more_fuel [OF nested] by simp
  from close obtain t1 where t1: "token_at tokens c1 = Some t1" "tok_type t1 = T_CloseStatement"
    by (auto simp: type_at_def)
  from parseIfStatement_body_post [OF fuel_endif_inv body]
  have "type_at tokens c2 = Some T_OpenStatement"
    by (simp add: at_branch_end_def)
  moreover from elif obtain t2 where t2: "token_at tokens (Suc c2) = Some t2"
    "tok_type t2 = T_ElseIf"
    by (auto simp: type_at_def)
  ultimately show ?thesis
    using elif token_at_SomeD [OF t2(1)]
    by (simp del: fuel.simps add: parseIfStatement_def [of "fuel (Suc (n + k))"] call_fuel_Suc
          andThen_simps expect_def t1 test' body' nested' is_at_singleton)
qed

text \<open>
  The loop of \<open>parseMemberExpressionArgumentsList\<close> (lines 337-351), one turn at a time,
  and what the function does with the entries the loop has collected (lines 352-364).
  Once \<open>isSlice\<close> is set it stays set.
\<close>

lemma member_arguments_outcome:
  assumes "parseMemberExpressionArgumentsList_loop (fuel n) tokens [] False current
             = Return ((slices, isSlice), c)"
  shows "parseMemberExpressionArgumentsList (fuel (Suc n)) tokens current =
     (if length slices = 0 then Throw EmptyIndexExpression
      else if isSlice then
        if length slices > 3 then Throw MalformedSlice
        else Return (SliceExpression (spread_arg slices 0) (spread_arg slices 1)
                       (spread_arg slices 2), c)
      else Return (the (slices ! 0), c))"
  using assms
  by (simp del: fuel.simps add: parseMemberExpressionArgumentsList_def [of "fuel (Suc n)"]
        call_fuel_Suc andThen_simps EmptyIndexExpression_def MalformedSlice_def)

lemma slice_colon_step:
  assumes "\<not> is_at tokens current [T_CloseSquareBracket]"
    and "is_at tokens current [T_Colon]"
  shows "parseMemberExpressionArgumentsList_loop (fuel (Suc n)) tokens slices isSlice current
         = parseMemberExpressionArgumentsList_loop (fuel n) tokens (slices @ [None]) True
             (current + 1)"
  using assms
  by (simp del: fuel.simps add: parseMemberExpressionArgumentsList_loop_def [of "fuel (Suc n)"]
        call_fuel_Suc)

lemma slice_expression_step:
  assumes "\<not> is_at tokens current [T_CloseSquareBracket]"
    and "\<not> is_at tokens current [T_Colon]"
    and "parseExpression (fuel n) tokens current = Return (e, c)"
  shows "parseMemberExpressionArgumentsList_loop (fuel (Suc n)) tokens slices isSlice current
         = parseMemberExpressionArgumentsList_loop (fuel n) tokens (slices @ [Some e])
             (isSlice \<or> is_at tokens c [T_Colon])
             (if is_at tokens c [T_Colon] then c + 1 else c)"
  using assms
  by (simp del: fuel.simps add: parseMemberExpressionArgumentsList_loop_def [of "fuel (Suc n)"]
        call_fuel_Suc andThen_simps)

lemma slice_flag_kept:
  "parseMemberExpressionArgumentsList_loop (fuel n) tokens slices True current
     = Return ((slices', isSlice'), c) \<Longrightarrow> isSlice'"
proof (induction n arbitrary: slices current)
  case 0
  then show ?case
    by (simp add: parseMemberExpressionArgumentsList_loop_def call_out_of_fuel andThen_simps
          split: if_splits)
next
  case (Suc n)
  show ?case
  proof (cases "is_at tokens current [T_CloseSquareBracket]")
    case True
    with Suc.prems show ?thesis
      by (simp add: parseMemberExpressionArgumentsList_loop_def)
  next
    case close: False
    show ?thesis
    proof (cases "is_at tokens current [T_Colon]")
      case True
      with close Suc.prems
      have "parseMemberExpressionArgumentsList_loop (fuel n) tokens (slices @ [None]) True
              (current + 1) = Return ((slices', isSlice'), c)"
        by (simp del: fuel.simps
              add: parseMemberExpressionArgumentsList_loop_def [of "fuel (Suc n)"] call_fuel_Suc)
      then show ?thesis
        by (rule Suc.IH)
    next
      case False
      with close Suc.prems obtain e c1 where
        "parseMemberExpressionArgumentsList_loop (fuel n) tokens (slices @ [Some e]) True c1
           = Return ((slices', isSlice'), c)"
        by (auto simp del: fuel.simps
              simp add: parseMemberExpressionArgumentsList_loop_def [of "fuel (Suc n)"]
                call_fuel_Suc andThen_eq_Return split: if_splits)
      then show ?thesis
        by (rule Suc.IH)
    qed
  qed
qed

text \<open>
  One turn of the loop of \<open>parseArgumentsList\<close> (lines 310-327), for a positional and
  for a keyword argument, and one turn of the loop of the array literal (lines 478-484).
\<close>

lemma arguments_step:
  assumes "\<not> is_at tokens current [T_CloseParen]"
    and "parseExpression (fuel n) tokens current = Return (argument, c)"
    and "\<not> is_at tokens c [T_Equals]"
  shows "parseArgumentsList_loop (fuel (Suc n)) tokens args current
         = parseArgumentsList_loop (fuel n) tokens (args @ [argument])
             (if is_at tokens c [T_Comma] then c + 1 else c)"
  using assms
  by (simp del: fuel.simps add: parseArgumentsList_loop_def [of "fuel (Suc n)"]
        call_fuel_Suc andThen_simps)

lemma keyword_argument_step:
  assumes "\<not> is_at tokens current [T_CloseParen]"
    and "parseExpression (fuel n) tokens current = Return (argument, c)"
    and "is_at tokens c [T_Equals]"
    and "instanceof_Identifier argument"
    and "parseExpression (fuel n) tokens (c + 1) = Return (v, c')"
  shows "parseArgumentsList_loop (fuel (Suc n)) tokens args current
         = parseArgumentsList_loop (fuel n) tokens (args @ [KeywordArgumentExpression argument v])
             (if is_at tokens c' [T_Comma] then c' + 1 else c')"
  using assms
  by (simp del: fuel.simps add: parseArgumentsList_loop_def [of "fuel (Suc n)"]
        call_fuel_Suc andThen_simps)

lemma elements_step:
  assumes "\<not> is_at tokens current [T_CloseSquareBracket]"
    and "parseExpression (fuel n) tokens current = Return (element, c)"
  shows "parsePrimaryExpression_array (fuel (Suc n)) tokens elements current
         = parsePrimaryExpression_array (fuel n) tokens (elements @ [element])
             (if is_at tokens c [T_Comma] then c + 1 else c)"
  using assms
  by (simp del: fuel.simps add: parsePrimaryExpression_array_def [of "fuel (Suc n)"]
        call_fuel_Suc andThen_simps)

text \<open>
  Without a comma the next argument is whatever \<open>parseExpression\<close> reads next: in
  \<open>{{ f(a (b)) }}\<close> the parenthesis after \<open>a\<close> is the argument list of a call of \<open>a\<close>.
\<close>

lemma call_without_comma_joins_parenthesis:
  "parse (60 + k) [tOpenExpression, tIdentifier f, tOpenParen, tIdentifier a, tOpenParen,
      tIdentifier b, tCloseParen, tCloseParen, tCloseExpression]
   = Return (Program [CallExpression (Identifier f)
       [CallExpression (Identifier a) [Identifier b]]])"
  by (simp add: eval_simps cong: eval_cong)

text \<open>
  A filter takes an argument list (lines 441-443), and a test without one binds tighter
  than a multiplication.
\<close>

lemma filter_arguments_parsed:
  "parse (40 + k) [tOpenExpression, tNumericLiteral ''4'', tPipe, tIdentifier ''divisibleby'',
             tOpenParen, tNumericLiteral ''2'', tCloseParen, tCloseExpression]
   = Return (Program [FilterExpression (NumericLiteral ''4'')
        (CallExpression (Identifier ''divisibleby'') [NumericLiteral ''2''])])"
  by (simp add: eval_simps cong: eval_cong)

lemma test_binds_tighter_than_multiplication:
  "parse (40 + k) [tOpenExpression, tNumericLiteral ''4'', tTimes, tNumericLiteral ''4'', tIs,
             tIdentifier ''divisibleby'', tCloseExpression]
   = Return (Program [BinaryExpression tTimes (NumericLiteral ''4'')
       (TestExpression (NumericLiteral ''4'') False (Identifier ''divisibleby''))])"
  by (simp add: eval_simps cong: eval_cong)

section \<open>The claims\<close>

text \<open>
  In the theorems below \<open>parse (n + k) tokens\<close> is the parser with at least \<open>n\<close> units
  of fuel: the outcome stated is the one for every such amount.
\<close>

subsection \<open>C1: a test with an argument list\<close>

text \<open>
  C1: \<open>{{ 4 * 4 is divisibleby(2) }}\<close> is to parse to
  \<open>Binary(*, 4, Test(4, false, Call(divisibleby, [2])))\<close>, and the comment of lines 394-395
  of the source says the same of this very expression. The code does not do it:
  \<open>parseTestExpression\<close> reads the name of the test with \<open>parsePrimaryExpression\<close> and
  never looks for an argument list (lines 417-426, with the note of line 425 that tests
  other than an identifier are still to be supported), whereas \<open>parseFilterExpression\<close>
  does (lines 441-443). The \<open>(\<close> is left unread and \<open>parseJinjaExpression\<close> throws the
  \<open>expect\<close> error for \<open>}}\<close> there, with any amount of fuel from 40 on; so the parse does
  not return the tree of the claim.
\<close>

theorem C1_test_arguments_rejected:
  "parse (40 + k) [tOpenExpression, tNumericLiteral ''4'', tTimes, tNumericLiteral ''4'', tIs,
             tIdentifier ''divisibleby'', tOpenParen, tNumericLiteral ''2'', tCloseParen,
             tCloseExpression]
   = Throw (ParserError ''Expected closing expression token'' T_OpenParen T_CloseExpression)"
  by (simp add: eval_simps cong: eval_cong)

subsection \<open>C2: an \<open>elif\<close> chain is a nested \<open>If\<close>\<close>

text \<open>
  C2: wherever \<open>parseIfStatement\<close> has read its test, \<open>%}\<close> and body and an \<open>elif\<close> opens, the
  statement that the recursive call returns is an \<open>If\<close> node, it is the only element of
  the alternate of the node returned, and the cursor is left on the \<open>{% endif %}\<close> that
  the recursive call stopped at: an \<open>elif\<close> branch reads no \<open>endif\<close> of its own. Wherever
  \<open>parseJinjaStatement\<close> opens an \<open>if\<close>, it is the one that reads that \<open>{% endif %}\<close>, after
  the whole chain. So \<open>{% if a %}X{% elif b %}Y{% else %}Z{% endif %}\<close> parses to
  \<open>If(a, [X], [If(b, [Y], [Z])])\<close>, and a chain of two \<open>elif\<close> without \<open>else\<close> to
  \<open>If(a, [X], [If(b, [Y], [If(d, [Z], [])])])\<close>, for any names and texts.
\<close>

theorem C2_elif_nested_if:
  "(parseExpression (fuel n) tokens current = Return (test, c1) \<and>
    type_at tokens c1 = Some T_CloseStatement \<and>
    parseIfStatement_body (fuel n) tokens [] (c1 + 1) = Return (body, c2) \<and>
    type_at tokens (c2 + 1) = Some T_ElseIf \<and>
    parseIfStatement (fuel n) tokens (c2 + 2) = Return (nested, c3)
    \<longrightarrow> parseIfStatement (fuel (Suc n + k)) tokens current
          = Return (IfNode test body [nested], c3) \<and>
        instanceof_If nested \<and> at_endif tokens c3)
   \<and> (type_at tokens current = Some T_OpenStatement \<and>
      type_at tokens (current + 1) = Some T_If \<and>
      parseIfStatement (fuel n) tokens (current + 2) = Return (s, c) \<and>
      type_at tokens (c + 2) = Some T_CloseStatement
      \<longrightarrow> instanceof_If s \<and> at_endif tokens c \<and>
          parseJinjaStatement (fuel (Suc n)) tokens current = Return (s, c + 3))
   \<and> parse (40 + k)
        [tOpenStatement, tIf, tIdentifier a, tCloseStatement, tText x,
         tOpenStatement, tElseIf, tIdentifier b, tCloseStatement, tText y,
         tOpenStatement, tElse, tCloseStatement, tText z,
         tOpenStatement, tEndIf, tCloseStatement]
      = Return (Program
          [IfNode (Identifier a) [StringLiteral x]
             [IfNode (Identifier b) [StringLiteral y] [StringLiteral z]]])
   \<and> parse (40 + k)
        [tOpenStatement, tIf, tIdentifier a, tCloseStatement, tText x,
         tOpenStatement, tElseIf, tIdentifier b, tCloseStatement, tText y,
         tOpenStatement, tElseIf, tIdentifier d, tCloseStatement, tText z,
         tOpenStatement, tEndIf, tCloseStatement]
      = Return (Program
          [IfNode (Identifier a) [StringLiteral x]
             [IfNode (Identifier b) [StringLiteral y]
                [IfNode (Identifier d) [StringLiteral z] []]]])"
proof (intro conjI impI)
  assume h: "parseExpression (fuel n) tokens current = Return (test, c1) \<and>
    type_at tokens c1 = Some T_CloseStatement \<and>
    parseIfStatement_body (fuel n) tokens [] (c1 + 1) = Return (body, c2) \<and>
    type_at tokens (c2 + 1) = Some T_ElseIf \<and>
    parseIfStatement (fuel n) tokens (c2 + 2) = Return (nested, c3)"
  then show "parseIfStatement (fuel (Suc n + k)) tokens current
          = Return (IfNode test body [nested], c3)"
    using elif_step by blast
  from h show "instanceof_If nested"
    using parseIfStatement_returns_If by blast
  from h show "at_endif tokens c3"
    using parseIfStatement_post [OF fuel_endif_inv] by blast
next
  assume h: "type_at tokens current = Some T_OpenStatement \<and>
      type_at tokens (current + 1) = Some T_If \<and>
      parseIfStatement (fuel n) tokens (current + 2) = Return (s, c) \<and>
      type_at tokens (c + 2) = Some T_CloseStatement"
  then show "instanceof_If s"
    using parseIfStatement_returns_If by blast
  from h have e: "at_endif tokens c"
    using parseIfStatement_post [OF fuel_endif_inv] by blast
  then show "at_endif tokens c" .
  from h obtain t0 t1 t4 where t: "token_at tokens current = Some t0"
    "tok_type t0 = T_OpenStatement" "token_at tokens (Suc current) = Some t1"
    "tok_type t1 = T_If" "token_at tokens (Suc (Suc c)) = Some t4"
    "tok_type t4 = T_CloseStatement"
    by (auto simp: type_at_def)
  from e obtain t2 t3 where t': "token_at tokens c = Some t2"
    "tok_type t2 = T_OpenStatement" "token_at tokens (Suc c) = Some t3"
    "tok_type t3 = T_EndIf"
    by (auto simp: at_endif_def type_at_def)
  from h have p: "parseIfStatement (fuel n) tokens (Suc (Suc current)) = Return (s, c)"
    by simp
  show "parseJinjaStatement (fuel (Suc n)) tokens current = Return (s, c + 3)"
    by (simp del: fuel.simps add: parseJinjaStatement_def [of "fuel (Suc n)"] call_fuel_Suc
          andThen_simps expect_def t t' p)
qed (simp_all add: eval_simps cong: eval_cong)

text \<open>
  The hypotheses of C2 hold at \<open>{% if a %}X{% elif b %}Y{% else %}Z{% endif %}\<close>: those of
  the \<open>elif\<close> step after the keyword \<open>if\<close>, those of the statement at its start.
\<close>

theorem C2_elif_nested_if_witness:
  "parseExpression (fuel 20) example_if_elif_else 2 = Return (Identifier ''a'', 3) \<and>
   type_at example_if_elif_else 3 = Some T_CloseStatement \<and>
   parseIfStatement_body (fuel 20) example_if_elif_else [] (3 + 1)
     = Return ([StringLiteral ''X''], 5) \<and>
   type_at example_if_elif_else (5 + 1) = Some T_ElseIf \<and>
   parseIfStatement (fuel 20) example_if_elif_else (5 + 2)
     = Return (IfNode (Identifier ''b'') [StringLiteral ''Y''] [StringLiteral ''Z''], 14) \<and>
   parseIfStatement (fuel (Suc 20 + 0)) example_if_elif_else 2
     = Return (IfNode (Identifier ''a'') [StringLiteral ''X'']
                 [IfNode (Identifier ''b'') [StringLiteral ''Y''] [StringLiteral ''Z'']], 14) \<and>
   instanceof_If (IfNode (Identifier ''b'') [StringLiteral ''Y''] [StringLiteral ''Z'']) \<and>
   at_endif example_if_elif_else 14 \<and>
   type_at example_if_elif_else 0 = Some T_OpenStatement \<and>
   type_at example_if_elif_else (0 + 1) = Some T_If \<and>
   parseIfStatement (fuel 30) example_if_elif_else (0 + 2)
     = Return (IfNode (Identifier ''a'') [StringLiteral ''X'']
                 [IfNode (Identifier ''b'') [StringLiteral ''Y''] [StringLiteral ''Z'']], 14) \<and>
   type_at example_if_elif_else (14 + 2) = Some T_CloseStatement \<and>
   parseJinjaStatement (fuel (Suc 30)) example_if_elif_else 0
     = Return (IfNode (Identifier ''a'') [StringLiteral ''X'']
                 [IfNode (Identifier ''b'') [StringLiteral ''Y''] [StringLiteral ''Z'']], 14 + 3)"
proof -
  have h1: "parseExpression (fuel 20) example_if_elif_else 2 = Return (Identifier ''a'', 3) \<and>
   type_at example_if_elif_else 3 = Some T_CloseStatement \<and>
   parseIfStatement_body (fuel 20) example_if_elif_else [] (3 + 1)
     = Return ([StringLiteral ''X''], 5) \<and>
   type_at example_if_elif_else (5 + 1) = Some T_ElseIf \<and>
   parseIfStatement (fuel 20) example_if_elif_else (5 + 2)
     = Return (IfNode (Identifier ''b'') [StringLiteral ''Y''] [StringLiteral ''Z''], 14)"
    by (simp add: eval_simps cong: eval_cong)
  have h2: "type_at example_if_elif_else 0 = Some T_OpenStatement \<and>
   type_at example_if_elif_else (0 + 1) = Some T_If \<and>
   parseIfStatement (fuel 30) example_if_elif_else (0 + 2)
     = Return (IfNode (Identifier ''a'') [StringLiteral ''X'']
                 [IfNode (Identifier ''b'') [StringLiteral ''Y''] [StringLiteral ''Z'']], 14) \<and>
   type_at example_if_elif_else (14 + 2) = Some T_CloseStatement"
    by (simp add: eval_simps cong: eval_cong)
  from C2_elif_nested_if [THEN conjunct1, rule_format, OF h1, of 0]
       C2_elif_nested_if [THEN conjunct2, THEN conjunct1, rule_format, OF h2]
       h1 h2
  show ?thesis
    by blast
qed

subsection \<open>C3: the loop variable of a \<open>for\<close>\<close>

text \<open>
  C3 as stated fails: on \<open>{% for a.b in c %}\<close> the parser does not throw
  \<open>InvalidLoopVariable\<close>. \<open>parseForStatement\<close> reads the loop variable with
  \<open>parsePrimaryExpression\<close>, which returns the identifier \<open>a\<close> and leaves the cursor on
  the dot; the check passes and \<open>expect\<close> fails on the dot, where \<open>in\<close> is required.
\<close>

theorem C3_counterexample:
  "parse 40 [tOpenStatement, tFor, tIdentifier ''a'', tDot, tIdentifier ''b'', tIn,
             tIdentifier ''c'', tCloseStatement]
   = Throw (ParserError ''Expected `in` keyword following loop variable'' T_Dot T_In)
   \<and> parse 40 [tOpenStatement, tFor, tIdentifier ''a'', tDot, tIdentifier ''b'', tIn,
             tIdentifier ''c'', tCloseStatement] \<noteq> Throw InvalidLoopVariable"
  by (simp add: eval_simps InvalidLoopVariable_def cong: eval_cong)

text \<open>
  C3, amended: wherever a \<open>for\<close> statement opens, if the primary expression parsed at
  the loop-variable position is not an \<open>Identifier\<close> node, the statement fails with
  \<open>InvalidLoopVariable\<close>, with any fuel from that of the primary expression plus three
  on. In \<open>{% for a.b in c %}\<close>, whatever follows the tag, the primary expression is the
  identifier \<open>a\<close> and the parse fails with the \<open>expect\<close> error for \<open>in\<close> at the dot.
\<close>

theorem C3_loop_variable:
  "(type_at tokens current = Some T_OpenStatement \<and>
    type_at tokens (current + 1) = Some T_For \<and>
    parsePrimaryExpression (fuel n) tokens (current + 2) = Return (loopVariable, c) \<and>
    \<not> instanceof_Identifier loopVariable
    \<longrightarrow> parseAny (fuel (n + 3 + k)) tokens current = Throw InvalidLoopVariable)
   \<and> parse (40 + k)
         ([tOpenStatement, tFor, tIdentifier a, tDot, tIdentifier b, tIn, tIdentifier i,
           tCloseStatement] @ rest)
       = Throw (ParserError ''Expected `in` keyword following loop variable'' T_Dot T_In)"
proof (intro conjI impI)
  assume "type_at tokens current = Some T_OpenStatement \<and>
    type_at tokens (current + 1) = Some T_For \<and>
    parsePrimaryExpression (fuel n) tokens (current + 2) = Return (loopVariable, c) \<and>
    \<not> instanceof_Identifier loopVariable"
  then show "parseAny (fuel (n + 3 + k)) tokens current = Throw InvalidLoopVariable"
    using for_loop_variable_not_identifier by blast
next
  show "parse (40 + k)
         ([tOpenStatement, tFor, tIdentifier a, tDot, tIdentifier b, tIn, tIdentifier i,
           tCloseStatement] @ rest)
       = Throw (ParserError ''Expected `in` keyword following loop variable'' T_Dot T_In)"
    by (simp add: eval_simps cong: eval_cong)
qed

text \<open>The hypotheses of C3 hold at \<open>{% for 1 in c %}{% endfor %}\<close>.\<close>

theorem C3_loop_variable_witness:
  "type_at [tOpenStatement, tFor, tNumericLiteral ''1'', tIn, tIdentifier ''c'', tCloseStatement,
            tOpenStatement, tEndFor, tCloseStatement] 0 = Some T_OpenStatement \<and>
   type_at [tOpenStatement, tFor, tNumericLiteral ''1'', tIn, tIdentifier ''c'', tCloseStatement,
            tOpenStatement, tEndFor, tCloseStatement] (0 + 1) = Some T_For \<and>
   parsePrimaryExpression (fuel 0)
     [tOpenStatement, tFor, tNumericLiteral ''1'', tIn, tIdentifier ''c'', tCloseStatement,
      tOpenStatement, tEndFor, tCloseStatement] (0 + 2) = Return (NumericLiteral ''1'', 3) \<and>
   \<not> instanceof_Identifier (NumericLiteral ''1'') \<and>
   parseAny (fuel (0 + 3 + 0))
     [tOpenStatement, tFor, tNumericLiteral ''1'', tIn, tIdentifier ''c'', tCloseStatement,
      tOpenStatement, tEndFor, tCloseStatement] 0 = Throw InvalidLoopVariable"
proof -
  let ?tokens = "[tOpenStatement, tFor, tNumericLiteral ''1'', tIn, tIdentifier ''c'',
                  tCloseStatement, tOpenStatement, tEndFor, tCloseStatement]"
  have h: "type_at ?tokens 0 = Some T_OpenStatement \<and>
    type_at ?tokens (0 + 1) = Some T_For \<and>
    parsePrimaryExpression (fuel 0) ?tokens (0 + 2) = Return (NumericLiteral ''1'', 3) \<and>
    \<not> instanceof_Identifier (NumericLiteral ''1'')"
    by (simp add: type_at_def token_at_def parsePrimaryExpression_def)
  from C3_loop_variable [THEN conjunct1, rule_format, OF h] h show ?thesis
    by blast
qed

subsection \<open>C4: an \<open>if\<close> without its \<open>endif\<close>\<close>

text \<open>
  C4: on \<open>{% if a %}X\<close> the claim asks for the \<open>expect\<close> error for \<open>endif\<close>. The source
  throws a \<open>TypeError\<close> instead: the loop that collects the body of the \<open>if\<close> does not
  stop at the end of the tokens, and \<open>parseAny\<close> reads \<open>tokens[current].type\<close> there.
  On no input at all does \<open>parse\<close> throw the \<open>expect\<close> error for \<open>endif\<close>.
\<close>

theorem C4_missing_endif:
  "(parse n tokens = Throw e \<longrightarrow> \<not> ExpectedToken T_EndIf e)
   \<and> parse (40 + k) [tOpenStatement, tIf, tIdentifier ''a'', tCloseStatement, tText ''X'']
       = Throw TypeError"
proof (intro conjI impI)
  assume "parse n tokens = Throw e"
  then show "\<not> ExpectedToken T_EndIf e"
    by (rule parse_never_expects_endif)
next
  show "parse (40 + k) [tOpenStatement, tIf, tIdentifier ''a'', tCloseStatement, tText ''X'']
       = Throw TypeError"
    by (simp add: eval_simps cong: eval_cong)
qed

text \<open>The hypothesis of C4 holds at \<open>{% if a %}X\<close>.\<close>

theorem C4_missing_endif_witness:
  "parse 40 [tOpenStatement, tIf, tIdentifier ''a'', tCloseStatement, tText ''X'']
     = Throw TypeError
   \<and> \<not> ExpectedToken T_EndIf TypeError"
proof -
  have h: "parse 40 [tOpenStatement, tIf, tIdentifier ''a'', tCloseStatement, tText ''X'']
     = Throw TypeError"
    by (simp add: eval_simps cong: eval_cong)
  from C4_missing_endif [THEN conjunct1, rule_format, OF h] h show ?thesis
    by blast
qed

subsection \<open>C5: comparison and membership operators fold to the left\<close>



subsection \<open>C6: slices\<close>

text \<open>
  C6: in a bracket access the loop of \<open>parseMemberExpressionArgumentsList\<close> adds, for a
  colon that stands where a component would, the entry \<open>None\<close> (the \<open>undefined\<close> of the
  source, which is no expression) and sets \<open>isSlice\<close>; for an expression \<open>e\<close> it adds
  \<open>Some e\<close>, and sets \<open>isSlice\<close> if a colon follows, which it consumes. With \<open>isSlice\<close> set,
  which it stays once a colon has been read, and one to three entries, the result is the
  \<open>SliceExpression\<close> of the entries in order, the components past the last entry being
  \<open>None\<close>. So \<open>{{ x[a:b:c] }}\<close> parses to \<open>Member(x, Slice(a, b, c), computed = true)\<close>,
  \<open>{{ x[:b] }}\<close> to \<open>Slice(absent, b, absent)\<close>, \<open>{{ x[a::c] }}\<close> to \<open>Slice(a, absent, c)\<close>,
  \<open>{{ x[a:] }}\<close> to \<open>Slice(a, absent, absent)\<close>, \<open>{{ x[a:b] }}\<close> to \<open>Slice(a, b, absent)\<close> and
  \<open>{{ x[:] }}\<close> to \<open>Slice(absent, absent, absent)\<close>.
\<close>

theorem C6_slice_components:
  "(\<not> is_at tokens current [T_CloseSquareBracket] \<and> is_at tokens current [T_Colon]
    \<longrightarrow> parseMemberExpressionArgumentsList_loop (fuel (Suc n)) tokens slices isSlice current
        = parseMemberExpressionArgumentsList_loop (fuel n) tokens (slices @ [None]) True
            (current + 1))
   \<and> (\<not> is_at tokens current [T_CloseSquareBracket] \<and> \<not> is_at tokens current [T_Colon] \<and>
      parseExpression (fuel n) tokens current = Return (e, c)
    \<longrightarrow> parseMemberExpressionArgumentsList_loop (fuel (Suc n)) tokens slices isSlice current
        = parseMemberExpressionArgumentsList_loop (fuel n) tokens (slices @ [Some e])
            (isSlice \<or> is_at tokens c [T_Colon])
            (if is_at tokens c [T_Colon] then c + 1 else c))
   \<and> (parseMemberExpressionArgumentsList_loop (fuel n) tokens [] False current
        = Return ((slices, True), c) \<and> 0 < length slices \<and> length slices \<le> 3
    \<longrightarrow> parseMemberExpressionArgumentsList (fuel (Suc n)) tokens current
        = Return (SliceExpression (spread_arg slices 0) (spread_arg slices 1)
                    (spread_arg slices 2), c))
   \<and> (parseMemberExpressionArgumentsList_loop (fuel n) tokens slices True current
        = Return ((slices', isSlice'), c)
    \<longrightarrow> isSlice')
   \<and> parse (40 + k) [tOpenExpression, tIdentifier x, tOpenSquareBracket, tNumericLiteral a, tColon,
       tNumericLiteral b, tColon, tNumericLiteral d, tCloseSquareBracket, tCloseExpression]
     = Return (Program [MemberExpression (Identifier x)
         (SliceExpression (Some (NumericLiteral a)) (Some (NumericLiteral b))
            (Some (NumericLiteral d))) True])
   \<and> parse (40 + k) [tOpenExpression, tIdentifier x, tOpenSquareBracket, tColon,
       tNumericLiteral b, tCloseSquareBracket, tCloseExpression]
     = Return (Program [MemberExpression (Identifier x)
         (SliceExpression None (Some (NumericLiteral b)) None) True])
   \<and> parse (40 + k) [tOpenExpression, tIdentifier x, tOpenSquareBracket, tNumericLiteral a, tColon,
       tColon, tNumericLiteral d, tCloseSquareBracket, tCloseExpression]
     = Return (Program [MemberExpression (Identifier x)
         (SliceExpression (Some (NumericLiteral a)) None (Some (NumericLiteral d))) True])
   \<and> parse (40 + k) [tOpenExpression, tIdentifier x, tOpenSquareBracket, tNumericLiteral a, tColon,
       tCloseSquareBracket, tCloseExpression]
     = Return (Program [MemberExpression (Identifier x)
         (SliceExpression (Some (NumericLiteral a)) None None) True])
   \<and> parse (40 + k) [tOpenExpression, tIdentifier x, tOpenSquareBracket, tNumericLiteral a, tColon,
       tNumericLiteral b, tCloseSquareBracket, tCloseExpression]
     = Return (Program [MemberExpression (Identifier x)
         (SliceExpression (Some (NumericLiteral a)) (Some (NumericLiteral b)) None) True])
   \<and> parse (40 + k) [tOpenExpression, tIdentifier x, tOpenSquareBracket, tColon,
       tCloseSquareBracket, tCloseExpression]
     = Return (Program [MemberExpression (Identifier x)
         (SliceExpression None None None) True])"
proof (intro conjI impI)
  assume "\<not> is_at tokens current [T_CloseSquareBracket] \<and> is_at tokens current [T_Colon]"
  then show "parseMemberExpressionArgumentsList_loop (fuel (Suc n)) tokens slices isSlice current
        = parseMemberExpressionArgumentsList_loop (fuel n) tokens (slices @ [None]) True
            (current + 1)"
    using slice_colon_step by blast
next
  assume "\<not> is_at tokens current [T_CloseSquareBracket] \<and> \<not> is_at tokens current [T_Colon] \<and>
      parseExpression (fuel n) tokens current = Return (e, c)"
  then show "parseMemberExpressionArgumentsList_loop (fuel (Suc n)) tokens slices isSlice current
        = parseMemberExpressionArgumentsList_loop (fuel n) tokens (slices @ [Some e])
            (isSlice \<or> is_at tokens c [T_Colon])
            (if is_at tokens c [T_Colon] then c + 1 else c)"
    using slice_expression_step by blast
next
  assume "parseMemberExpressionArgumentsList_loop (fuel n) tokens [] False current
        = Return ((slices, True), c) \<and> 0 < length slices \<and> length slices \<le> 3"
  then show "parseMemberExpressionArgumentsList (fuel (Suc n)) tokens current
        = Return (SliceExpression (spread_arg slices 0) (spread_arg slices 1)
                    (spread_arg slices 2), c)"
    by (simp del: fuel.simps add: member_arguments_outcome)
next
  assume "parseMemberExpressionArgumentsList_loop (fuel n) tokens slices True current
        = Return ((slices', isSlice'), c)"
  then show "isSlice'"
    by (rule slice_flag_kept)
qed (simp_all add: eval_simps cong: eval_cong)

text \<open>
  The hypotheses of C6 hold in \<open>{{ x[:2] }}\<close> and \<open>{{ x[1:] }}\<close>, at the token after the
  bracket.
\<close>

theorem C6_slice_components_witness:
  "\<not> is_at example_slice_from_start 3 [T_CloseSquareBracket] \<and>
   is_at example_slice_from_start 3 [T_Colon] \<and>
   parseMemberExpressionArgumentsList_loop (fuel (Suc 20)) example_slice_from_start [] False 3
     = parseMemberExpressionArgumentsList_loop (fuel 20) example_slice_from_start ([] @ [None])
         True (3 + 1) \<and>
   \<not> is_at example_slice_to_end 3 [T_CloseSquareBracket] \<and>
   \<not> is_at example_slice_to_end 3 [T_Colon] \<and>
   parseExpression (fuel 20) example_slice_to_end 3 = Return (NumericLiteral ''1'', 4) \<and>
   parseMemberExpressionArgumentsList_loop (fuel (Suc 20)) example_slice_to_end [] False 3
     = parseMemberExpressionArgumentsList_loop (fuel 20) example_slice_to_end
         ([] @ [Some (NumericLiteral ''1'')])
         (False \<or> is_at example_slice_to_end 4 [T_Colon])
         (if is_at example_slice_to_end 4 [T_Colon] then 4 + 1 else 4) \<and>
   parseMemberExpressionArgumentsList_loop (fuel 20) example_slice_from_start [] False 3
     = Return (([None, Some (NumericLiteral ''2'')], True), 5) \<and>
   0 < length [None, Some (NumericLiteral ''2'')] \<and>
   length [None, Some (NumericLiteral ''2'')] \<le> 3 \<and>
   parseMemberExpressionArgumentsList (fuel (Suc 20)) example_slice_from_start 3
     = Return (SliceExpression (spread_arg [None, Some (NumericLiteral ''2'')] 0)
                 (spread_arg [None, Some (NumericLiteral ''2'')] 1)
                 (spread_arg [None, Some (NumericLiteral ''2'')] 2), 5) \<and>
   SliceExpression (spread_arg [None, Some (NumericLiteral ''2'')] 0)
     (spread_arg [None, Some (NumericLiteral ''2'')] 1)
     (spread_arg [None, Some (NumericLiteral ''2'')] 2)
   = SliceExpression None (Some (NumericLiteral ''2'')) None \<and>
   parseMemberExpressionArgumentsList_loop (fuel 20) example_slice_from_start [None] True 4
     = Return (([None, Some (NumericLiteral ''2'')], True), 5)"
proof -
  have h4: "parseMemberExpressionArgumentsList_loop (fuel 20) example_slice_from_start [None]
      True 4 = Return (([None, Some (NumericLiteral ''2'')], True), 5)"
    by (simp add: eval_simps cong: eval_cong)
  have h1: "\<not> is_at example_slice_from_start 3 [T_CloseSquareBracket] \<and>
   is_at example_slice_from_start 3 [T_Colon]"
    by (simp add: is_at_def)
  have h2: "\<not> is_at example_slice_to_end 3 [T_CloseSquareBracket] \<and>
   \<not> is_at example_slice_to_end 3 [T_Colon] \<and>
   parseExpression (fuel 20) example_slice_to_end 3 = Return (NumericLiteral ''1'', 4)"
    by (simp add: eval_simps cong: eval_cong)
  have h3: "parseMemberExpressionArgumentsList_loop (fuel 20) example_slice_from_start [] False 3
     = Return (([None, Some (NumericLiteral ''2'')], True), 5) \<and>
   0 < length [None, Some (NumericLiteral ''2'')] \<and>
   length [None, Some (NumericLiteral ''2'')] \<le> 3"
    by (simp add: eval_simps cong: eval_cong)
  have e: "SliceExpression (spread_arg [None, Some (NumericLiteral ''2'')] 0)
     (spread_arg [None, Some (NumericLiteral ''2'')] 1)
     (spread_arg [None, Some (NumericLiteral ''2'')] 2)
   = SliceExpression None (Some (NumericLiteral ''2'')) None"
    by (simp add: spread_arg_def)
  from C6_slice_components [THEN conjunct1, rule_format, OF h1, of 20 "[]" False]
       C6_slice_components [THEN conjunct2, THEN conjunct1, rule_format, OF h2, of "[]" False]
       C6_slice_components [THEN conjunct2, THEN conjunct2, THEN conjunct1, rule_format, OF h3]
       C6_slice_components
         [THEN conjunct2, THEN conjunct2, THEN conjunct2, THEN conjunct1, rule_format, OF h4]
       h1 h2 h3 h4 e
  show ?thesis
    by blast
qed

subsection \<open>C7: empty brackets and too many slice components\<close>

text \<open>
  C7 as stated fails: \<open>{{ x[1:2:3:] }}\<close> has four components between its colons, the
  last one empty, and the parser does not throw \<open>MalformedSlice\<close>; it returns the slice
  \<open>Slice(1, 2, 3)\<close>. The source counts the entries it has collected, not the colons, and
  the colon after an expression adds no entry.
\<close>

theorem C7_counterexample:
  "parse 40 example_trailing_colon
   = Return (Program [MemberExpression (Identifier ''x'')
       (SliceExpression (Some (NumericLiteral ''1'')) (Some (NumericLiteral ''2''))
          (Some (NumericLiteral ''3''))) True])
   \<and> parse 40 example_trailing_colon \<noteq> Throw MalformedSlice"
  by (simp add: eval_simps cong: eval_cong)

text \<open>
  C7, amended: once the loop of \<open>parseMemberExpressionArgumentsList\<close> has returned its
  entries, the function fails with \<open>EmptyIndexExpression\<close> exactly when there is no entry,
  and with \<open>MalformedSlice\<close> exactly when a colon was read and there are more than three
  entries. An entry is one expression, or one colon standing where an expression would;
  an expression, the colon after it and the closing bracket make one entry. So
  \<open>{{ x[] }}\<close> fails with \<open>EmptyIndexExpression\<close>, \<open>{{ x[a:b:c:d] }}\<close> and \<open>{{ x[::::] }}\<close> fail
  with \<open>MalformedSlice\<close>, and \<open>{{ x[a:b:c:] }}\<close> and \<open>{{ x[:::] }}\<close> parse to the slices
  \<open>Slice(a, b, c)\<close> and \<open>Slice(absent, absent, absent)\<close>.
\<close>

theorem C7_empty_index_and_malformed_slice:
  "(parseMemberExpressionArgumentsList_loop (fuel n) tokens [] False current
      = Return ((slices, isSlice), c)
    \<longrightarrow> (parseMemberExpressionArgumentsList (fuel (Suc n)) tokens current
           = Throw EmptyIndexExpression
         \<longleftrightarrow> length slices = 0))
   \<and> (parseMemberExpressionArgumentsList_loop (fuel n) tokens [] False current
      = Return ((slices, isSlice), c)
    \<longrightarrow> (parseMemberExpressionArgumentsList (fuel (Suc n)) tokens current
           = Throw MalformedSlice
         \<longleftrightarrow> isSlice \<and> 3 < length slices))
   \<and> (\<not> is_at tokens current [T_CloseSquareBracket] \<and> \<not> is_at tokens current [T_Colon] \<and>
      parseExpression (fuel n) tokens current = Return (e, c) \<and>
      is_at tokens c [T_Colon] \<and> is_at tokens (c + 1) [T_CloseSquareBracket]
    \<longrightarrow> parseMemberExpressionArgumentsList_loop (fuel (Suc (Suc n))) tokens slices isSlice
          current
        = Return ((slices @ [Some e], True), c + 1))
   \<and> parse (40 + k) [tOpenExpression, tIdentifier x, tOpenSquareBracket, tCloseSquareBracket,
       tCloseExpression]
     = Throw EmptyIndexExpression
   \<and> parse (40 + k) [tOpenExpression, tIdentifier x, tOpenSquareBracket, tNumericLiteral a, tColon,
       tNumericLiteral b, tColon, tNumericLiteral d, tColon, tNumericLiteral g,
       tCloseSquareBracket, tCloseExpression]
     = Throw MalformedSlice
   \<and> parse (40 + k) [tOpenExpression, tIdentifier x, tOpenSquareBracket, tNumericLiteral a, tColon,
       tNumericLiteral b, tColon, tNumericLiteral d, tColon,
       tCloseSquareBracket, tCloseExpression]
     = Return (Program [MemberExpression (Identifier x)
         (SliceExpression (Some (NumericLiteral a)) (Some (NumericLiteral b))
            (Some (NumericLiteral d))) True])
   \<and> parse (40 + k) [tOpenExpression, tIdentifier x, tOpenSquareBracket, tColon, tColon, tColon,
       tCloseSquareBracket, tCloseExpression]
     = Return (Program [MemberExpression (Identifier x)
         (SliceExpression None None None) True])
   \<and> parse (40 + k) [tOpenExpression, tIdentifier x, tOpenSquareBracket, tColon, tColon, tColon,
       tColon, tCloseSquareBracket, tCloseExpression]
     = Throw MalformedSlice"
proof (intro conjI impI)
  assume "parseMemberExpressionArgumentsList_loop (fuel n) tokens [] False current
      = Return ((slices, isSlice), c)"
  then show "parseMemberExpressionArgumentsList (fuel (Suc n)) tokens current
           = Throw EmptyIndexExpression
         \<longleftrightarrow> length slices = 0"
    by (simp del: fuel.simps
          add: member_arguments_outcome EmptyIndexExpression_def MalformedSlice_def)
next
  assume "parseMemberExpressionArgumentsList_loop (fuel n) tokens [] False current
      = Return ((slices, isSlice), c)"
  then show "parseMemberExpressionArgumentsList (fuel (Suc n)) tokens current
           = Throw MalformedSlice
         \<longleftrightarrow> isSlice \<and> 3 < length slices"
    by (auto simp del: fuel.simps
          simp add: member_arguments_outcome EmptyIndexExpression_def MalformedSlice_def)
next
  assume h: "\<not> is_at tokens current [T_CloseSquareBracket] \<and> \<not> is_at tokens current [T_Colon] \<and>
      parseExpression (fuel n) tokens current = Return (e, c) \<and>
      is_at tokens c [T_Colon] \<and> is_at tokens (c + 1) [T_CloseSquareBracket]"
  then have e: "parseExpression (fuel (Suc n)) tokens current = Return (e, c)"
    using parseExpression_more_fuel [of n tokens current "(e, c)" 1] by simp
  have stop: "parseMemberExpressionArgumentsList_loop (fuel (Suc n)) tokens (slices @ [Some e])
      True (c + 1) = Return ((slices @ [Some e], True), c + 1)"
    using h by (simp add: parseMemberExpressionArgumentsList_loop_def)
  from h e have "parseMemberExpressionArgumentsList_loop (fuel (Suc (Suc n))) tokens slices
      isSlice current
    = parseMemberExpressionArgumentsList_loop (fuel (Suc n)) tokens (slices @ [Some e])
        (isSlice \<or> is_at tokens c [T_Colon]) (if is_at tokens c [T_Colon] then c + 1 else c)"
    by (intro slice_expression_step) simp_all
  with h stop show "parseMemberExpressionArgumentsList_loop (fuel (Suc (Suc n))) tokens slices
      isSlice current = Return ((slices @ [Some e], True), c + 1)"
    by (simp del: fuel.simps)
qed (simp_all add: eval_simps EmptyIndexExpression_def MalformedSlice_def cong: eval_cong)

text \<open>
  The hypotheses of C7 hold in \<open>{{ x[] }}\<close>, \<open>{{ x[1:2:3:4] }}\<close> and \<open>{{ x[1:2:3:] }}\<close>.
\<close>

theorem C7_empty_index_and_malformed_slice_witness:
  "parseMemberExpressionArgumentsList_loop (fuel 20) example_empty_index [] False 3
     = Return (([], False), 3) \<and>
   parseMemberExpressionArgumentsList (fuel (Suc 20)) example_empty_index 3
     = Throw EmptyIndexExpression \<and>
   parseMemberExpressionArgumentsList_loop (fuel 20) example_four_components [] False 3
     = Return (([Some (NumericLiteral ''1''), Some (NumericLiteral ''2''),
                 Some (NumericLiteral ''3''), Some (NumericLiteral ''4'')], True), 10) \<and>
   parseMemberExpressionArgumentsList (fuel (Suc 20)) example_four_components 3
     = Throw MalformedSlice \<and>
   parseMemberExpressionArgumentsList_loop (fuel 20) example_trailing_colon [] False 3
     = Return (([Some (NumericLiteral ''1''), Some (NumericLiteral ''2''),
                 Some (NumericLiteral ''3'')], True), 9) \<and>
   parseMemberExpressionArgumentsList (fuel (Suc 20)) example_trailing_colon 3
     \<noteq> Throw MalformedSlice \<and>
   \<not> is_at example_trailing_colon 7 [T_CloseSquareBracket] \<and>
   \<not> is_at example_trailing_colon 7 [T_Colon] \<and>
   parseExpression (fuel 20) example_trailing_colon 7 = Return (NumericLiteral ''3'', 8) \<and>
   is_at example_trailing_colon 8 [T_Colon] \<and>
   is_at example_trailing_colon (8 + 1) [T_CloseSquareBracket] \<and>
   parseMemberExpressionArgumentsList_loop (fuel (Suc (Suc 20))) example_trailing_colon
     [Some (NumericLiteral ''1''), Some (NumericLiteral ''2'')] True 7
   = Return (([Some (NumericLiteral ''1''), Some (NumericLiteral ''2'')]
                @ [Some (NumericLiteral ''3'')], True), 8 + 1)"
proof -
  have h1: "parseMemberExpressionArgumentsList_loop (fuel 20) example_empty_index [] False 3
     = Return (([], False), 3)"
    by (simp add: eval_simps cong: eval_cong)
  have h2: "parseMemberExpressionArgumentsList_loop (fuel 20) example_four_components [] False 3
     = Return (([Some (NumericLiteral ''1''), Some (NumericLiteral ''2''),
                 Some (NumericLiteral ''3''), Some (NumericLiteral ''4'')], True), 10)"
    by (simp add: eval_simps cong: eval_cong)
  have h3: "parseMemberExpressionArgumentsList_loop (fuel 20) example_trailing_colon [] False 3
     = Return (([Some (NumericLiteral ''1''), Some (NumericLiteral ''2''),
                 Some (NumericLiteral ''3'')], True), 9)"
    by (simp add: eval_simps cong: eval_cong)
  have h4: "\<not> is_at example_trailing_colon 7 [T_CloseSquareBracket] \<and>
   \<not> is_at example_trailing_colon 7 [T_Colon] \<and>
   parseExpression (fuel 20) example_trailing_colon 7 = Return (NumericLiteral ''3'', 8) \<and>
   is_at example_trailing_colon 8 [T_Colon] \<and>
   is_at example_trailing_colon (8 + 1) [T_CloseSquareBracket]"
    by (simp add: eval_simps cong: eval_cong)
  have l: "length ([] :: statement option list) = 0 \<and>
    3 < length [Some (NumericLiteral ''1''), Some (NumericLiteral ''2''),
                Some (NumericLiteral ''3''), Some (NumericLiteral ''4'')] \<and>
    \<not> 3 < length [Some (NumericLiteral ''1''), Some (NumericLiteral ''2''),
                  Some (NumericLiteral ''3'')]"
    by simp
  from C7_empty_index_and_malformed_slice [THEN conjunct1, rule_format, OF h1]
       C7_empty_index_and_malformed_slice [THEN conjunct2, THEN conjunct1, rule_format, OF h2]
       C7_empty_index_and_malformed_slice [THEN conjunct2, THEN conjunct1, rule_format, OF h3]
       C7_empty_index_and_malformed_slice
         [THEN conjunct2, THEN conjunct2, THEN conjunct1, rule_format, OF h4,
          of "[Some (NumericLiteral ''1''), Some (NumericLiteral ''2'')]" True]
       h1 h2 h3 h4 l
  show ?thesis
    by blast
qed

subsection \<open>C8: the name of a test\<close>

text \<open>
  C8: after \<open>is\<close> (and \<open>not\<close>, when it follows), one step of the loop of
  \<open>parseTestExpression\<close> parses a primary expression \<open>e\<close>. If \<open>e\<close> is a boolean literal
  the test is the identifier \<open>true\<close> or \<open>false\<close>, if \<open>e\<close> is an identifier the test is
  \<open>e\<close>, and in both cases the loop goes on with \<open>Test(operand, negate, test)\<close>; any
  other \<open>e\<close> fails with \<open>InvalidTestName\<close>. So \<open>{{ a is true }}\<close> parses to
  \<open>Test(a, false, Identifier(true))\<close>.
\<close>

theorem C8_test_name:
  "(is_at tokens current [T_Is] \<and>
    parsePrimaryExpression (fuel n) tokens
      (if is_at tokens (current + 1) [T_Not] then current + 1 + 1 else current + 1)
    = Return (e, c)
    \<longrightarrow> parseTestExpression_loop (fuel (Suc n)) tokens operand current =
      (case e of
         BooleanLiteral b \<Rightarrow>
           parseTestExpression_loop (fuel n) tokens
             (TestExpression operand (is_at tokens (current + 1) [T_Not])
                (Identifier (if b then ''true'' else ''false''))) c
       | Identifier v \<Rightarrow>
           parseTestExpression_loop (fuel n) tokens
             (TestExpression operand (is_at tokens (current + 1) [T_Not]) (Identifier v)) c
       | _ \<Rightarrow> Throw InvalidTestName))
   \<and> parse (40 + k)
         [tOpenExpression, tIdentifier a, tIs, tBooleanLiteral ''true'', tCloseExpression]
       = Return (Program [TestExpression (Identifier a) False (Identifier ''true'')])"
proof (intro conjI impI)
  assume "is_at tokens current [T_Is] \<and>
    parsePrimaryExpression (fuel n) tokens
      (if is_at tokens (current + 1) [T_Not] then current + 1 + 1 else current + 1)
    = Return (e, c)"
  then show "parseTestExpression_loop (fuel (Suc n)) tokens operand current =
      (case e of
         BooleanLiteral b \<Rightarrow>
           parseTestExpression_loop (fuel n) tokens
             (TestExpression operand (is_at tokens (current + 1) [T_Not])
                (Identifier (if b then ''true'' else ''false''))) c
       | Identifier v \<Rightarrow>
           parseTestExpression_loop (fuel n) tokens
             (TestExpression operand (is_at tokens (current + 1) [T_Not]) (Identifier v)) c
       | _ \<Rightarrow> Throw InvalidTestName)"
    using test_name_step by blast
next
  show "parse (40 + k)
         [tOpenExpression, tIdentifier a, tIs, tBooleanLiteral ''true'', tCloseExpression]
       = Return (Program [TestExpression (Identifier a) False (Identifier ''true'')])"
    by (simp add: eval_simps cong: eval_cong)
qed

text \<open>The hypotheses of C8 hold at \<open>{{ a is true }}\<close>, after the operand \<open>a\<close>.\<close>

theorem C8_test_name_witness:
  "is_at example_a_is_true 2 [T_Is] \<and>
   parsePrimaryExpression (fuel 1) example_a_is_true
     (if is_at example_a_is_true (2 + 1) [T_Not] then 2 + 1 + 1 else 2 + 1)
   = Return (BooleanLiteral True, 4) \<and>
   parseTestExpression_loop (fuel (Suc 1)) example_a_is_true (Identifier ''a'') 2
   = Return (TestExpression (Identifier ''a'') False (Identifier ''true''), 4)"
proof -
  have h: "is_at example_a_is_true 2 [T_Is] \<and>
   parsePrimaryExpression (fuel 1) example_a_is_true
     (if is_at example_a_is_true (2 + 1) [T_Not] then 2 + 1 + 1 else 2 + 1)
   = Return (BooleanLiteral True, 4)"
    by (simp add: is_at_def parsePrimaryExpression_def token_at_def)
  have rest: "parseTestExpression_loop (fuel 1) example_a_is_true
       (TestExpression (Identifier ''a'') (is_at example_a_is_true (2 + 1) [T_Not])
          (Identifier (if True then ''true'' else ''false''))) 4
     = Return (TestExpression (Identifier ''a'') False (Identifier ''true''), 4)"
    by (simp add: parseTestExpression_loop_def is_at_def)
  from C8_test_name [THEN conjunct1, rule_format, OF h, of "Identifier ''a''"] h rest
  show ?thesis
    by simp
qed

subsection \<open>C9: the pairs of an object literal\<close>



subsection \<open>C10: commas between arguments and elements are optional\<close>

text \<open>
  C10: after an argument of a call, positional or keyword, and after an element of an
  array literal, the loop goes on with the argument or element added, one token further
  if the token there is a comma and at the same token if not. So \<open>{{ f(a b) }}\<close> parses to
  the same call as \<open>{{ f(a, b) }}\<close>, which is \<open>Call(f, [a, b])\<close>, \<open>{{ [x y] }}\<close> to the same
  array literal as \<open>{{ [x, y] }}\<close>, which is \<open>Array([x, y])\<close>, \<open>{{ f(a = x b = y) }}\<close> to the
  call with the two keyword arguments, and \<open>{{ [x 'y', a b] }}\<close> to the array of the four
  elements.
\<close>

theorem C10_commas_optional:
  "(\<not> is_at tokens current [T_CloseParen] \<and>
    parseExpression (fuel n) tokens current = Return (argument, c) \<and>
    \<not> is_at tokens c [T_Equals]
    \<longrightarrow> parseArgumentsList_loop (fuel (Suc n)) tokens args current
        = parseArgumentsList_loop (fuel n) tokens (args @ [argument])
            (if is_at tokens c [T_Comma] then c + 1 else c))
   \<and> (\<not> is_at tokens current [T_CloseParen] \<and>
      parseExpression (fuel n) tokens current = Return (argument, c) \<and>
      is_at tokens c [T_Equals] \<and> instanceof_Identifier argument \<and>
      parseExpression (fuel n) tokens (c + 1) = Return (v, c')
    \<longrightarrow> parseArgumentsList_loop (fuel (Suc n)) tokens args current
        = parseArgumentsList_loop (fuel n) tokens
            (args @ [KeywordArgumentExpression argument v])
            (if is_at tokens c' [T_Comma] then c' + 1 else c'))
   \<and> (\<not> is_at tokens current [T_CloseSquareBracket] \<and>
      parseExpression (fuel n) tokens current = Return (element, c)
    \<longrightarrow> parsePrimaryExpression_array (fuel (Suc n)) tokens elements current
        = parsePrimaryExpression_array (fuel n) tokens (elements @ [element])
            (if is_at tokens c [T_Comma] then c + 1 else c))
   \<and> parse (40 + k) [tOpenExpression, tIdentifier f, tOpenParen, tIdentifier a, tIdentifier b,
      tCloseParen, tCloseExpression]
   = parse (40 + k) [tOpenExpression, tIdentifier f, tOpenParen, tIdentifier a, tComma,
      tIdentifier b, tCloseParen, tCloseExpression]
   \<and> parse (40 + k) [tOpenExpression, tIdentifier f, tOpenParen, tIdentifier a, tIdentifier b,
      tCloseParen, tCloseExpression]
   = Return (Program [CallExpression (Identifier f) [Identifier a, Identifier b]])
   \<and> parse (40 + k) [tOpenExpression, tOpenSquareBracket, tNumericLiteral x, tNumericLiteral y,
      tCloseSquareBracket, tCloseExpression]
   = parse (40 + k) [tOpenExpression, tOpenSquareBracket, tNumericLiteral x, tComma,
      tNumericLiteral y, tCloseSquareBracket, tCloseExpression]
   \<and> parse (40 + k) [tOpenExpression, tOpenSquareBracket, tNumericLiteral x, tNumericLiteral y,
      tCloseSquareBracket, tCloseExpression]
   = Return (Program [ArrayLiteral [NumericLiteral x, NumericLiteral y]])
   \<and> parse (40 + k) [tOpenExpression, tIdentifier f, tOpenParen, tIdentifier a, tEquals,
      tNumericLiteral x, tIdentifier b, tEquals, tNumericLiteral y, tCloseParen,
      tCloseExpression]
   = Return (Program [CallExpression (Identifier f)
       [KeywordArgumentExpression (Identifier a) (NumericLiteral x),
        KeywordArgumentExpression (Identifier b) (NumericLiteral y)]])
   \<and> parse (40 + k) [tOpenExpression, tOpenSquareBracket, tNumericLiteral x, tStringLiteral y,
      tComma, tIdentifier a, tIdentifier b, tCloseSquareBracket, tCloseExpression]
   = Return (Program [ArrayLiteral [NumericLiteral x, StringLiteral y, Identifier a,
       Identifier b]])"
proof (intro conjI impI)
  assume "\<not> is_at tokens current [T_CloseParen] \<and>
    parseExpression (fuel n) tokens current = Return (argument, c) \<and>
    \<not> is_at tokens c [T_Equals]"
  then show "parseArgumentsList_loop (fuel (Suc n)) tokens args current
        = parseArgumentsList_loop (fuel n) tokens (args @ [argument])
            (if is_at tokens c [T_Comma] then c + 1 else c)"
    using arguments_step by blast
next
  assume "\<not> is_at tokens current [T_CloseParen] \<and>
      parseExpression (fuel n) tokens current = Return (argument, c) \<and>
      is_at tokens c [T_Equals] \<and> instanceof_Identifier argument \<and>
      parseExpression (fuel n) tokens (c + 1) = Return (v, c')"
  then show "parseArgumentsList_loop (fuel (Suc n)) tokens args current
        = parseArgumentsList_loop (fuel n) tokens
            (args @ [KeywordArgumentExpression argument v])
            (if is_at tokens c' [T_Comma] then c' + 1 else c')"
    using keyword_argument_step by blast
next
  assume "\<not> is_at tokens current [T_CloseSquareBracket] \<and>
      parseExpression (fuel n) tokens current = Return (element, c)"
  then show "parsePrimaryExpression_array (fuel (Suc n)) tokens elements current
        = parsePrimaryExpression_array (fuel n) tokens (elements @ [element])
            (if is_at tokens c [T_Comma] then c + 1 else c)"
    using elements_step by blast
qed (simp_all add: eval_simps cong: eval_cong)

text \<open>
  The hypotheses of C10 hold in \<open>{{ f(a b) }}\<close>, \<open>{{ f(x = 1 y = 2) }}\<close> and \<open>{{ [1, 2] }}\<close>, at
  the first argument or element.
\<close>

theorem C10_commas_optional_witness:
  "\<not> is_at example_call_without_comma 3 [T_CloseParen] \<and>
   parseExpression (fuel 20) example_call_without_comma 3 = Return (Identifier ''a'', 4) \<and>
   \<not> is_at example_call_without_comma 4 [T_Equals] \<and>
   \<not> is_at example_call_without_comma 4 [T_Comma] \<and>
   parseArgumentsList_loop (fuel (Suc 20)) example_call_without_comma [] 3
     = parseArgumentsList_loop (fuel 20) example_call_without_comma ([] @ [Identifier ''a''])
         (if is_at example_call_without_comma 4 [T_Comma] then 4 + 1 else 4) \<and>
   \<not> is_at example_keyword_arguments 3 [T_CloseParen] \<and>
   parseExpression (fuel 20) example_keyword_arguments 3 = Return (Identifier ''x'', 4) \<and>
   is_at example_keyword_arguments 4 [T_Equals] \<and>
   instanceof_Identifier (Identifier ''x'') \<and>
   parseExpression (fuel 20) example_keyword_arguments (4 + 1)
     = Return (NumericLiteral ''1'', 6) \<and>
   \<not> is_at example_keyword_arguments 6 [T_Comma] \<and>
   parseArgumentsList_loop (fuel (Suc 20)) example_keyword_arguments [] 3
     = parseArgumentsList_loop (fuel 20) example_keyword_arguments
         ([] @ [KeywordArgumentExpression (Identifier ''x'') (NumericLiteral ''1'')])
         (if is_at example_keyword_arguments 6 [T_Comma] then 6 + 1 else 6) \<and>
   \<not> is_at example_array_with_comma 2 [T_CloseSquareBracket] \<and>
   parseExpression (fuel 20) example_array_with_comma 2 = Return (NumericLiteral ''1'', 3) \<and>
   is_at example_array_with_comma 3 [T_Comma] \<and>
   parsePrimaryExpression_array (fuel (Suc 20)) example_array_with_comma [] 2
     = parsePrimaryExpression_array (fuel 20) example_array_with_comma
         ([] @ [NumericLiteral ''1''])
         (if is_at example_array_with_comma 3 [T_Comma] then 3 + 1 else 3)"
proof -
  have h1: "\<not> is_at example_call_without_comma 3 [T_CloseParen] \<and>
   parseExpression (fuel 20) example_call_without_comma 3 = Return (Identifier ''a'', 4) \<and>
   \<not> is_at example_call_without_comma 4 [T_Equals]"
    by (simp add: eval_simps cong: eval_cong)
  have h2: "\<not> is_at example_keyword_arguments 3 [T_CloseParen] \<and>
   parseExpression (fuel 20) example_keyword_arguments 3 = Return (Identifier ''x'', 4) \<and>
   is_at example_keyword_arguments 4 [T_Equals] \<and>
   instanceof_Identifier (Identifier ''x'') \<and>
   parseExpression (fuel 20) example_keyword_arguments (4 + 1)
     = Return (NumericLiteral ''1'', 6)"
    by (simp add: eval_simps cong: eval_cong)
  have h3: "\<not> is_at example_array_with_comma 2 [T_CloseSquareBracket] \<and>
   parseExpression (fuel 20) example_array_with_comma 2 = Return (NumericLiteral ''1'', 3)"
    by (simp add: eval_simps cong: eval_cong)
  have c: "\<not> is_at example_call_without_comma 4 [T_Comma] \<and>
    \<not> is_at example_keyword_arguments 6 [T_Comma] \<and>
    is_at example_array_with_comma 3 [T_Comma]"
    by (simp add: is_at_def)
  from C10_commas_optional [THEN conjunct1, rule_format, OF h1, of "[]"]
       C10_commas_optional [THEN conjunct2, THEN conjunct1, rule_format, OF h2, of "[]"]
       C10_commas_optional [THEN conjunct2, THEN conjunct2, THEN conjunct1, rule_format, OF h3,
         of "[]"]
       h1 h2 h3 c
  show ?thesis
    by blast
qed

end
